theory Spec2Isabelle
  imports Complex_Main
begin

section \<open>Digital twin of the job-shop line: the simulation core\<close>

text \<open>
  The development embeds \<^verbatim>\<open>configurazione.py\<close> and \<^verbatim>\<open>simulazione_core.py\<close>.
  Simulated time and durations are Python floats in the source; here they are exact
  real numbers (type \<open>real\<close>), so every statement below is about the program's arithmetic
  without rounding error.  Names are the ones of the source.
\<close>

subsection \<open>configurazione.py: enumerations and the configuration container\<close>

datatype TipoProdotto = FL_01 | PN_03 | IN_07 | RD_01

datatype TipoMacchinario =
    TRONCATRICE | TRAPANO | TORNIO | FRESA | RETTIFICA | FORNO
  | BANCO_ASSEMBLAGGIO | BANCO_COLLAUDO | BANCO_CONTROLLO

datatype TipoOperatore = GENERICO | SPECIALIZZATO

datatype PoliticaSchedulazione = FIFO | SPT | EDD

text \<open>The enumerations are \<open>str\<close> enums: a member is equal to its value.\<close>

fun valore :: "TipoProdotto \<Rightarrow> string" where
  "valore FL_01 = ''FL-01''"
| "valore PN_03 = ''PN-03''"
| "valore IN_07 = ''IN-07''"
| "valore RD_01 = ''RD-01''"

fun nome_enum :: "TipoProdotto \<Rightarrow> string" where
  "nome_enum FL_01 = ''FL_01''"
| "nome_enum PN_03 = ''PN_03''"
| "nome_enum IN_07 = ''IN_07''"
| "nome_enum RD_01 = ''RD_01''"

text \<open>Looking a string up in a dictionary keyed by \<open>TipoProdotto\<close> finds the member with that value.\<close>

definition tipo_di :: "string \<Rightarrow> TipoProdotto option" where
  "tipo_di s =
     (if s = ''FL-01'' then Some FL_01
      else if s = ''PN-03'' then Some PN_03
      else if s = ''IN-07'' then Some IN_07
      else if s = ''RD-01'' then Some RD_01
      else None)"

datatype risorsa = Macchina TipoMacchinario | Addetto TipoOperatore

record ConfigurazioneSimulazione =
  tempi_lavorazione :: "TipoMacchinario \<rightharpoonup> (TipoProdotto \<rightharpoonup> real)"
  capacita :: "risorsa \<rightharpoonup> int"
  probabilita_rifacimento :: real
  richiede_specialista :: bool
  limiti_produzione_giornaliera :: "(string \<rightharpoonup> int) option"
  limite_produzione_totale_giornaliera :: "int option"
  fattore_variabilita_processo :: real
  tempo_setup_minuti :: real
  probabilita_guasto :: real
  minuti_riparazione_min :: int
  minuti_riparazione_max :: int
  orario_inizio_turno :: int
  orario_fine_turno :: int
  distinta_base :: "(TipoProdotto \<rightharpoonup> (TipoProdotto \<rightharpoonup> int)) option"
  livelli_scorta_minima :: "(TipoProdotto \<rightharpoonup> int) option"
  lotto_riordino_standard :: "(TipoProdotto \<rightharpoonup> int) option"

text \<open>\<open>GestoreConfigurazione._crea_configurazione_base\<close>: the tables of the base scenario.\<close>

definition tempi_base :: "TipoMacchinario \<rightharpoonup> (TipoProdotto \<rightharpoonup> real)" where
  "tempi_base = [
     TRONCATRICE \<mapsto> [FL_01 \<mapsto> 10, PN_03 \<mapsto> 15, IN_07 \<mapsto> 30],
     TRAPANO \<mapsto> [FL_01 \<mapsto> 10],
     TORNIO \<mapsto> [PN_03 \<mapsto> 30],
     FRESA \<mapsto> [IN_07 \<mapsto> 45],
     RETTIFICA \<mapsto> [PN_03 \<mapsto> 20, IN_07 \<mapsto> 20],
     FORNO \<mapsto> [IN_07 \<mapsto> 12],
     BANCO_ASSEMBLAGGIO \<mapsto> [RD_01 \<mapsto> 60],
     BANCO_COLLAUDO \<mapsto> [RD_01 \<mapsto> 30],
     BANCO_CONTROLLO \<mapsto> [FL_01 \<mapsto> 10, PN_03 \<mapsto> 10, IN_07 \<mapsto> 10]]"

definition capacita_base :: "risorsa \<rightharpoonup> int" where
  "capacita_base = [
     Macchina TRONCATRICE \<mapsto> 3,
     Macchina TORNIO \<mapsto> 3,
     Macchina FRESA \<mapsto> 2,
     Macchina TRAPANO \<mapsto> 2,
     Macchina RETTIFICA \<mapsto> 2,
     Macchina FORNO \<mapsto> 1,
     Macchina BANCO_ASSEMBLAGGIO \<mapsto> 2,
     Macchina BANCO_COLLAUDO \<mapsto> 2,
     Macchina BANCO_CONTROLLO \<mapsto> 2,
     Addetto GENERICO \<mapsto> 6,
     Addetto SPECIALIZZATO \<mapsto> 3]"

definition distinta_base_rd01 :: "TipoProdotto \<rightharpoonup> (TipoProdotto \<rightharpoonup> int)" where
  "distinta_base_rd01 = [RD_01 \<mapsto> [FL_01 \<mapsto> 1, PN_03 \<mapsto> 2]]"

definition crea_configurazione_base :: ConfigurazioneSimulazione where
  "crea_configurazione_base = \<lparr>
     tempi_lavorazione = tempi_base,
     capacita = capacita_base,
     probabilita_rifacimento = 5 / 100,
     richiede_specialista = True,
     limiti_produzione_giornaliera = None,
     limite_produzione_totale_giornaliera = None,
     fattore_variabilita_processo = 0,
     tempo_setup_minuti = 15,
     probabilita_guasto = 1 / 100,
     minuti_riparazione_min = 60,
     minuti_riparazione_max = 180,
     orario_inizio_turno = 8,
     orario_fine_turno = 17,
     distinta_base = Some distinta_base_rd01,
     livelli_scorta_minima = None,
     lotto_riordino_standard = None \<rparr>"

subsection \<open>simulazione_core.py: resources and their time counters\<close>

definition MINUTI_GIORNALIERI :: int where
  "MINUTI_GIORNALIERI = 1440"

datatype errore = ValueError string | KeyError string | ZeroDivisionError

datatype tipo_evento = Lavorazione | Setup | Guasto

record evento =
  tipo :: tipo_evento
  inizio :: real
  fine :: real
  ordine_evento :: "string option"

record RisorsaProduttiva =
  nome :: risorsa
  capacity :: int
  tempo_occupato_totale :: real
  tempo_lavorazione :: real
  tempo_setup :: real
  tempo_guasto :: real
  log_eventi :: "evento list"
  ultimo_prodotto :: "string option"

text \<open>\<open>RisorsaProduttiva.__init__\<close>: a capacity below 1 is refused.\<close>

definition nuova_risorsa :: "risorsa \<Rightarrow> int \<Rightarrow> errore + RisorsaProduttiva" where
  "nuova_risorsa n c =
     (if c < 1 then Inl (ValueError ''La capacita della risorsa deve essere positiva'')
      else Inr \<lparr> nome = n, capacity = c, tempo_occupato_totale = 0, tempo_lavorazione = 0,
                 tempo_setup = 0, tempo_guasto = 0, log_eventi = [], ultimo_prodotto = None \<rparr>)"

definition registra_tempo_utilizzo :: "real \<Rightarrow> tipo_evento \<Rightarrow> RisorsaProduttiva \<Rightarrow> RisorsaProduttiva" where
  "registra_tempo_utilizzo durata t r =
     (let r1 = r\<lparr>tempo_occupato_totale := tempo_occupato_totale r + durata\<rparr>
      in case t of
           Lavorazione \<Rightarrow> r1\<lparr>tempo_lavorazione := tempo_lavorazione r1 + durata\<rparr>
         | Setup \<Rightarrow> r1\<lparr>tempo_setup := tempo_setup r1 + durata\<rparr>
         | Guasto \<Rightarrow> r1\<lparr>tempo_guasto := tempo_guasto r1 + durata\<rparr>)"

text \<open>
  Python's \<open>/\<close> on numbers raises \<open>ZeroDivisionError\<close> when the divisor is zero; the
  quotient is a value only otherwise.
\<close>

definition dividi :: "real \<Rightarrow> real \<Rightarrow> errore + real" where
  "dividi x y = (if y = 0 then Inl ZeroDivisionError else Inr (x / y))"

definition calcola_tasso_utilizzo :: "RisorsaProduttiva \<Rightarrow> real \<Rightarrow> errore + real" where
  "calcola_tasso_utilizzo r orizzonte_temporale =
     (if orizzonte_temporale = 0 then Inr 0
      else let capacita_totale = capacity r in
        if capacita_totale = 0 then Inr 0
        else let disponibilita_teorica = orizzonte_temporale * of_int capacita_totale;
                 tempo_produttivo = tempo_lavorazione r + tempo_setup r
             in case dividi tempo_produttivo disponibilita_teorica of
                  Inl e \<Rightarrow> Inl e
                | Inr quoziente \<Rightarrow> Inr (quoziente * 100))"

text \<open>
  The same quotient without the two guards of the source: the expression
  \<open>(tempo_produttivo / disponibilita_teorica) * 100\<close> evaluated on its own.
\<close>

definition tasso_senza_controlli :: "RisorsaProduttiva \<Rightarrow> real \<Rightarrow> errore + real" where
  "tasso_senza_controlli r orizzonte_temporale =
     (let disponibilita_teorica = orizzonte_temporale * of_int (capacity r);
          tempo_produttivo = tempo_lavorazione r + tempo_setup r
      in case dividi tempo_produttivo disponibilita_teorica of
           Inl e \<Rightarrow> Inl e
         | Inr quoziente \<Rightarrow> Inr (quoziente * 100))"

subsection \<open>Products and work orders\<close>

record Prodotto =
  id_prodotto :: string
  nome_prodotto :: string

record voce_lavorazione =
  fase :: TipoMacchinario
  durata :: real
  operatore :: "TipoOperatore option"
  inizio_fase :: real
  fine_fase :: real

text \<open>
  A work order refers to the work orders it consumed, so the dataclass is a recursive
  datatype with selectors; the setters stand for attribute assignment.
\<close>

datatype OrdineDiLavoro = OrdineDiLavoro
  (id_ordine: string)
  (prodotto: Prodotto)
  (tempo_creazione: real)
  (scadenza: real)
  (tempo_completamento: "real option")
  (cronologia_fasi: "TipoMacchinario list")
  (log_lavorazioni: "voce_lavorazione list")
  (consumato: bool)
  (componenti_consumati: "OrdineDiLavoro list")

text \<open>The constructor call with the dataclass defaults for the remaining fields.\<close>

definition nuovo_ordine :: "string \<Rightarrow> Prodotto \<Rightarrow> real \<Rightarrow> real \<Rightarrow> real option \<Rightarrow> OrdineDiLavoro" where
  "nuovo_ordine i p tc sc tf = OrdineDiLavoro i p tc sc tf [] [] False []"

text \<open>
  \<open>tempo_attraversamento\<close> tests the truth value of \<open>tempo_completamento\<close>: both \<open>None\<close>
  and \<open>0.0\<close> are false in Python.
\<close>

definition tempo_attraversamento :: "OrdineDiLavoro \<Rightarrow> real option" where
  "tempo_attraversamento ordine =
     (case tempo_completamento ordine of
        None \<Rightarrow> None
      | Some t \<Rightarrow> if t \<noteq> 0 then Some (t - tempo_creazione ordine) else None)"

subsection \<open>Python arithmetic used by the calendar and by the orchestrator\<close>

text \<open>\<open>int(x)\<close> truncates towards zero.\<close>

definition py_int :: "real \<Rightarrow> int" where
  "py_int x = (if 0 \<le> x then \<lfloor>x\<rfloor> else \<lceil>x\<rceil>)"

text \<open>\<open>round(x)\<close> rounds to the nearest integer, a tie to the even neighbour.\<close>

definition py_round :: "real \<Rightarrow> int" where
  "py_round x =
     (let f = \<lfloor>x\<rfloor>; r = x - of_int f
      in if r < 1 / 2 then f
         else if 1 / 2 < r then f + 1
         else if even f then f else f + 1)"

text \<open>\<open>x % m\<close> for a float \<open>x\<close> and a positive integer \<open>m\<close>: the result lies in \<open>[0, m)\<close>.\<close>

definition py_mod :: "real \<Rightarrow> int \<Rightarrow> real" where
  "py_mod x m = x - of_int m * of_int \<lfloor>x / of_int m\<rfloor>"

subsection \<open>GestoreTempo: simulated minutes as calendar time\<close>

text \<open>
  \<open>data_inizio\<close> is kept as its weekday (0 = Monday) and its minutes after midnight;
  of the \<open>datetime\<close> that \<open>ottieni_data_corrente\<close> returns, the weekday, the hour and
  the minute are the parts the core reads.
\<close>

record GestoreTempo =
  giorno_inizio :: int
  minuti_inizio_giorno :: real

record data_ora =
  weekday :: int
  hour :: int
  minute :: int

definition ottieni_data_corrente :: "GestoreTempo \<Rightarrow> real \<Rightarrow> data_ora" where
  "ottieni_data_corrente g minuti_simulazione =
     (let m = minuti_inizio_giorno g + minuti_simulazione
      in \<lparr> weekday = (giorno_inizio g + \<lfloor>m / 1440\<rfloor>) mod 7,
           hour = \<lfloor>py_mod m 1440 / 60\<rfloor>,
           minute = \<lfloor>py_mod m 60\<rfloor> \<rparr>)"

definition is_fine_settimana :: "GestoreTempo \<Rightarrow> real \<Rightarrow> bool" where
  "is_fine_settimana g minuti_simulazione = (5 \<le> weekday (ottieni_data_corrente g minuti_simulazione))"

definition ottieni_ora :: "GestoreTempo \<Rightarrow> real \<Rightarrow> int" where
  "ottieni_ora g minuti_simulazione = hour (ottieni_data_corrente g minuti_simulazione)"

subsection \<open>The event kernel as seen by one process\<close>

text \<open>
  The source runs on the \<open>simpy\<close> kernel.  A process of the core is followed here on its
  own: \<open>now\<close> is the clock, \<open>traccia\<close> lists the events the process has yielded to the
  kernel, in order, and \<open>concessioni\<close> and \<open>consegne\<close> stand for the other processes.
  \<open>concessioni\<close> gives, for the \<open>k\<close>-th yielded event, the instant at which the kernel
  grants a requested resource (never before the request, since the clock does not go
  back).  \<open>consegne\<close> gives, for the \<open>k\<close>-th yielded event, what happens to a \<open>get\<close> that
  finds its store empty: \<open>Some (t, x)\<close> when another process puts the item \<open>x\<close> into the
  store at the instant \<open>t\<close> and the kernel hands it to the waiting process, \<open>None\<close> when
  no item ever arrives.
\<close>

datatype deposito = Scorte TipoProdotto | Intermedio TipoProdotto

datatype azione =
    Timeout real
  | Request risorsa int
  | Release risorsa
  | Put deposito
  | Get deposito

record Ambiente =
  now :: real
  traccia :: "azione list"
  concessioni :: "nat \<Rightarrow> real"
  consegne :: "nat \<Rightarrow> (real \<times> OrdineDiLavoro) option"

text \<open>\<open>simpy.Timeout\<close> refuses a negative delay.\<close>

definition timeout :: "real \<Rightarrow> Ambiente \<Rightarrow> errore + Ambiente" where
  "timeout ritardo a =
     (if ritardo < 0 then Inl (ValueError ''Negative delay'')
      else Inr (a\<lparr>now := now a + ritardo, traccia := traccia a @ [Timeout ritardo]\<rparr>))"

definition request :: "risorsa \<Rightarrow> int \<Rightarrow> Ambiente \<Rightarrow> Ambiente" where
  "request r priorita a =
     a\<lparr>now := max (now a) (concessioni a (length (traccia a))),
       traccia := traccia a @ [Request r priorita]\<rparr>"

definition release :: "risorsa \<Rightarrow> Ambiente \<Rightarrow> Ambiente" where
  "release r a = a\<lparr>traccia := traccia a @ [Release r]\<rparr>"

subsection \<open>GestoreTurni: waiting for the shift\<close>

text \<open>
  One pass through the body of the \<open>while True\<close> loop of \<open>attendi_turno_lavorativo\<close>:
  the delay of the \<open>timeout\<close> it yields, or \<open>None\<close> where the loop breaks.
\<close>

definition attesa_turno :: "GestoreTempo option \<Rightarrow> ConfigurazioneSimulazione \<Rightarrow> real \<Rightarrow> real option" where
  "attesa_turno gestore_tempo configurazione adesso =
     (if (case gestore_tempo of None \<Rightarrow> False
          | Some g \<Rightarrow> 5 \<le> weekday (ottieni_data_corrente g adesso))
      then
        (let dt_corrente = ottieni_data_corrente (the gestore_tempo) adesso;
             giorno_settimana = weekday dt_corrente;
             giorni_al_lunedi = 7 - giorno_settimana;
             minuti_a_mezzanotte = ((24 - hour dt_corrente - 1) * 60) + (60 - minute dt_corrente);
             giorni_interi_da_saltare = giorni_al_lunedi - 1;
             minuti_apertura_lunedi = orario_inizio_turno configurazione * 60;
             tempo_attesa_weekend =
               real_of_int (minuti_a_mezzanotte + (giorni_interi_da_saltare * 24 * 60) + minuti_apertura_lunedi);
             tempo_attesa_weekend = (if tempo_attesa_weekend \<le> 1 / 10 then 1 else tempo_attesa_weekend)
         in Some (tempo_attesa_weekend + 1 / 10))
      else
        (let minuti_totali_simulazione = py_round adesso;
             minuti_giornalieri = minuti_totali_simulazione mod MINUTI_GIORNALIERI;
             minuti_inizio = orario_inizio_turno configurazione * 60;
             minuti_fine = orario_fine_turno configurazione * 60
         in if minuti_fine \<le> minuti_giornalieri then
              (let minuti_a_mezzanotte = MINUTI_GIORNALIERI - minuti_giornalieri;
                   tempo_attesa = minuti_a_mezzanotte + minuti_inizio;
                   tempo_attesa = (if tempo_attesa \<le> 0 then 1 else tempo_attesa)
               in Some (real_of_int tempo_attesa))
            else if minuti_giornalieri < minuti_inizio then
              (let tempo_attesa = minuti_inizio - minuti_giornalieri;
                   tempo_attesa = (if tempo_attesa \<le> 0 then 1 else tempo_attesa)
               in Some (real_of_int tempo_attesa))
            else None))"

text \<open>
  A generator of the source either returns, raises, or never returns; the model gives
  \<open>Some (Inr _)\<close>, \<open>Some (Inl _)\<close> or \<open>None\<close>.
\<close>

partial_function (option) attendi_turno_lavorativo ::
  "GestoreTempo option \<Rightarrow> ConfigurazioneSimulazione \<Rightarrow> Ambiente \<Rightarrow> (errore + Ambiente) option" where
  "attendi_turno_lavorativo gestore_tempo configurazione a =
     (case attesa_turno gestore_tempo configurazione (now a) of
        None \<Rightarrow> Some (Inr a)
      | Some tempo_attesa \<Rightarrow>
          (case timeout tempo_attesa a of
             Inl e \<Rightarrow> Some (Inl e)
           | Inr a' \<Rightarrow> attendi_turno_lavorativo gestore_tempo configurazione a'))"

partial_function (option) avanza_tempo_lavorativo ::
  "GestoreTempo option \<Rightarrow> real \<Rightarrow> ConfigurazioneSimulazione \<Rightarrow> Ambiente \<Rightarrow> (errore + Ambiente) option" where
  "avanza_tempo_lavorativo gestore_tempo durata_minuti configurazione a =
     (if 1 / 1000000 < durata_minuti then
        (case attendi_turno_lavorativo gestore_tempo configurazione a of
           None \<Rightarrow> None
         | Some (Inl e) \<Rightarrow> Some (Inl e)
         | Some (Inr a1) \<Rightarrow>
             (let minuti_giornalieri = py_mod (now a1) MINUTI_GIORNALIERI;
                  minuti_fine_turno = real_of_int (orario_fine_turno configurazione * 60);
                  tempo_residuo_turno = minuti_fine_turno - minuti_giornalieri
              in if tempo_residuo_turno \<le> 1 / 1000000 then
                   (case attendi_turno_lavorativo gestore_tempo configurazione a1 of
                      None \<Rightarrow> None
                    | Some (Inl e) \<Rightarrow> Some (Inl e)
                    | Some (Inr a2) \<Rightarrow>
                        avanza_tempo_lavorativo gestore_tempo durata_minuti configurazione a2)
                 else
                   (let dt = min durata_minuti tempo_residuo_turno
                    in case timeout dt a1 of
                         Inl e \<Rightarrow> Some (Inl e)
                       | Inr a2 \<Rightarrow>
                           avanza_tempo_lavorativo gestore_tempo (durata_minuti - dt) configurazione a2)))
      else Some (Inr a))"

subsection \<open>Attribute updates on a work order\<close>

definition traccia_fase :: "TipoMacchinario \<Rightarrow> OrdineDiLavoro \<Rightarrow> OrdineDiLavoro" where
  "traccia_fase descrizione_fase ordine =
     OrdineDiLavoro (id_ordine ordine) (prodotto ordine) (tempo_creazione ordine) (scadenza ordine)
       (tempo_completamento ordine) (cronologia_fasi ordine @ [descrizione_fase])
       (log_lavorazioni ordine) (consumato ordine) (componenti_consumati ordine)"

definition aggiungi_lavorazione :: "voce_lavorazione \<Rightarrow> OrdineDiLavoro \<Rightarrow> OrdineDiLavoro" where
  "aggiungi_lavorazione v ordine =
     OrdineDiLavoro (id_ordine ordine) (prodotto ordine) (tempo_creazione ordine) (scadenza ordine)
       (tempo_completamento ordine) (cronologia_fasi ordine)
       (log_lavorazioni ordine @ [v]) (consumato ordine) (componenti_consumati ordine)"

definition aggiungi_componente :: "OrdineDiLavoro \<Rightarrow> OrdineDiLavoro \<Rightarrow> OrdineDiLavoro" where
  "aggiungi_componente componente ordine =
     OrdineDiLavoro (id_ordine ordine) (prodotto ordine) (tempo_creazione ordine) (scadenza ordine)
       (tempo_completamento ordine) (cronologia_fasi ordine)
       (log_lavorazioni ordine) (consumato ordine) (componenti_consumati ordine @ [componente])"

definition imposta_completamento :: "real \<Rightarrow> OrdineDiLavoro \<Rightarrow> OrdineDiLavoro" where
  "imposta_completamento t ordine =
     OrdineDiLavoro (id_ordine ordine) (prodotto ordine) (tempo_creazione ordine) (scadenza ordine)
       (Some t) (cronologia_fasi ordine)
       (log_lavorazioni ordine) (consumato ordine) (componenti_consumati ordine)"

subsection \<open>SistemaProduttivo: the state of the orchestrator\<close>

datatype strategia = StrategiaFL01 | StrategiaPN03 | StrategiaIN07 | StrategiaRD01

text \<open>
  \<open>rng\<close> is the generator handed to the constructor: the sequence of the raw draws of
  \<open>random()\<close> (values in \<open>[0, 1)\<close>), of which \<open>rng_usati\<close> have been consumed.
  A buffer holds work orders by value: the entry is the order as it was when it was put.
\<close>

record SistemaProduttivo =
  ambiente :: Ambiente
  gestore_turni :: "GestoreTempo option"
  strategie :: "string \<rightharpoonup> strategia"
  configurazione :: ConfigurazioneSimulazione
  rng :: "nat \<Rightarrow> real"
  rng_usati :: nat
  politica :: PoliticaSchedulazione
  macchinari :: "TipoMacchinario \<rightharpoonup> RisorsaProduttiva"
  operatori :: "TipoOperatore \<rightharpoonup> RisorsaProduttiva"
  buffer_scorte :: "TipoProdotto \<rightharpoonup> OrdineDiLavoro list"
  magazzino_intermedio :: "TipoProdotto \<rightharpoonup> OrdineDiLavoro list"
  giorno_corrente :: int
  produzione_giornaliera_per_prodotto :: "string \<rightharpoonup> int"
  produzione_giornaliera_totale :: int
  monitor_scorte_avviato :: bool

text \<open>
  What a process of the orchestrator does: it returns, it raises, or it is suspended on a
  \<open>get\<close> from an empty buffer (with the order and the state it has reached).  \<open>None\<close>
  is a process that loops without end.
\<close>

datatype 'a esito =
    Ritorna 'a
  | Solleva errore
  | Bloccato deposito OrdineDiLavoro SistemaProduttivo

definition poi :: "'a esito option \<Rightarrow> ('a \<Rightarrow> 'b esito option) \<Rightarrow> 'b esito option" where
  "poi m f =
     (case m of
        None \<Rightarrow> None
      | Some (Ritorna x) \<Rightarrow> f x
      | Some (Solleva e) \<Rightarrow> Some (Solleva e)
      | Some (Bloccato d ordine s) \<Rightarrow> Some (Bloccato d ordine s))"

definition nell_ambiente ::
  "(Ambiente \<Rightarrow> (errore + Ambiente) option) \<Rightarrow> SistemaProduttivo \<Rightarrow> SistemaProduttivo esito option" where
  "nell_ambiente f s =
     (case f (ambiente s) of
        None \<Rightarrow> None
      | Some (Inl e) \<Rightarrow> Some (Solleva e)
      | Some (Inr a) \<Rightarrow> Some (Ritorna (s\<lparr>ambiente := a\<rparr>)))"

definition attendi_turno :: "SistemaProduttivo \<Rightarrow> SistemaProduttivo esito option" where
  "attendi_turno s =
     nell_ambiente (attendi_turno_lavorativo (gestore_turni s) (configurazione s)) s"

subsubsection \<open>The random generator\<close>

definition random_py :: "SistemaProduttivo \<Rightarrow> real \<times> SistemaProduttivo" where
  "random_py s = (rng s (rng_usati s), s\<lparr>rng_usati := Suc (rng_usati s)\<rparr>)"

definition uniform :: "real \<Rightarrow> real \<Rightarrow> SistemaProduttivo \<Rightarrow> real \<times> SistemaProduttivo" where
  "uniform a b s = (let (u, s') = random_py s in (a + (b - a) * u, s'))"

text \<open>\<open>randint(a, b)\<close> raises on an empty range; otherwise it is in \<open>[a, b]\<close> for a draw in \<open>[0, 1)\<close>.\<close>

definition randint :: "int \<Rightarrow> int \<Rightarrow> SistemaProduttivo \<Rightarrow> errore + (int \<times> SistemaProduttivo)" where
  "randint a b s =
     (if b < a then Inl (ValueError ''empty range for randrange()'')
      else let (u, s') = random_py s in Inr (a + \<lfloor>u * of_int (b - a + 1)\<rfloor>, s'))"

subsubsection \<open>Buffers (\<open>simpy.Store\<close>)\<close>

definition deposito_di :: "SistemaProduttivo \<Rightarrow> deposito \<Rightarrow> OrdineDiLavoro list option" where
  "deposito_di s d = (case d of Scorte p \<Rightarrow> buffer_scorte s p | Intermedio p \<Rightarrow> magazzino_intermedio s p)"

definition scrivi_deposito :: "deposito \<Rightarrow> OrdineDiLavoro list \<Rightarrow> SistemaProduttivo \<Rightarrow> SistemaProduttivo" where
  "scrivi_deposito d items s =
     (case d of
        Scorte p \<Rightarrow> s\<lparr>buffer_scorte := (buffer_scorte s)(p \<mapsto> items)\<rparr>
      | Intermedio p \<Rightarrow> s\<lparr>magazzino_intermedio := (magazzino_intermedio s)(p \<mapsto> items)\<rparr>)"

definition evento_kernel :: "azione \<Rightarrow> SistemaProduttivo \<Rightarrow> SistemaProduttivo" where
  "evento_kernel ev s = s\<lparr>ambiente := (ambiente s)\<lparr>traccia := traccia (ambiente s) @ [ev]\<rparr>\<rparr>"

text \<open>\<open>yield store.put(x)\<close> on an unbounded store: the item is appended at once.\<close>

definition store_put :: "deposito \<Rightarrow> OrdineDiLavoro list \<Rightarrow> OrdineDiLavoro \<Rightarrow> SistemaProduttivo \<Rightarrow> SistemaProduttivo" where
  "store_put d items x s = evento_kernel (Put d) (scrivi_deposito d (items @ [x]) s)"

text \<open>
  \<open>yield store.get()\<close>: the oldest item when the store holds one.  On an empty store the
  process is suspended until another process puts an item: the kernel hands that item to
  the waiting \<open>get\<close> at the instant of the \<open>put\<close> (the store is empty again) and
  the process resumes there, the clock never going back.  The process stays suspended for
  ever only when no item arrives.
\<close>

definition store_get ::
  "deposito \<Rightarrow> OrdineDiLavoro list \<Rightarrow> OrdineDiLavoro \<Rightarrow> SistemaProduttivo
     \<Rightarrow> (OrdineDiLavoro \<times> SistemaProduttivo) esito option" where
  "store_get d items ordine s =
     (case items of
        [] \<Rightarrow>
          (case consegne (ambiente s) (length (traccia (ambiente s))) of
             None \<Rightarrow> Some (Bloccato d ordine (evento_kernel (Get d) s))
           | Some (t, x) \<Rightarrow>
               Some (Ritorna (x, evento_kernel (Get d)
                       (s\<lparr>ambiente := (ambiente s)\<lparr>now := max (now (ambiente s)) t\<rparr>\<rparr>))))
      | x # rest \<Rightarrow> Some (Ritorna (x, evento_kernel (Get d) (scrivi_deposito d rest s))))"

subsection \<open>SistemaProduttivo.esegui_operazione\<close>

definition aggiorna_macchina ::
  "TipoMacchinario \<Rightarrow> (RisorsaProduttiva \<Rightarrow> RisorsaProduttiva) \<Rightarrow> SistemaProduttivo \<Rightarrow> SistemaProduttivo" where
  "aggiorna_macchina nome_macchina f s =
     (case macchinari s nome_macchina of
        None \<Rightarrow> s
      | Some m \<Rightarrow> s\<lparr>macchinari := (macchinari s)(nome_macchina \<mapsto> f m)\<rparr>)"

definition aggiorna_operatore ::
  "TipoOperatore \<Rightarrow> (RisorsaProduttiva \<Rightarrow> RisorsaProduttiva) \<Rightarrow> SistemaProduttivo \<Rightarrow> SistemaProduttivo" where
  "aggiorna_operatore tipo_operatore f s =
     (case operatori s tipo_operatore of
        None \<Rightarrow> s
      | Some m \<Rightarrow> s\<lparr>operatori := (operatori s)(tipo_operatore \<mapsto> f m)\<rparr>)"

definition aggiungi_evento :: "evento \<Rightarrow> RisorsaProduttiva \<Rightarrow> RisorsaProduttiva" where
  "aggiungi_evento e r = r\<lparr>log_eventi := log_eventi r @ [e]\<rparr>"

text \<open>The priority of the requests of one operation (the lines before the \<open>with\<close> block).\<close>

definition priorita_operazione :: "PoliticaSchedulazione \<Rightarrow> OrdineDiLavoro \<Rightarrow> real \<Rightarrow> int" where
  "priorita_operazione pol ordine durata_min =
     (if pol = SPT then py_int durata_min
      else if pol = EDD then
        (if scadenza ordine \<noteq> 0 then py_int (scadenza ordine) else 0)
      else 0)"

text \<open>The changeover, entered with the machine held; it ends with the marker set.\<close>

definition fase_setup :: "OrdineDiLavoro \<Rightarrow> TipoMacchinario \<Rightarrow> SistemaProduttivo \<Rightarrow> SistemaProduttivo esito option" where
  "fase_setup ordine nome_macchina s =
     poi
       (case macchinari s nome_macchina of
          None \<Rightarrow> Some (Ritorna s)
        | Some macchina \<Rightarrow>
            (if ultimo_prodotto macchina \<noteq> None
                \<and> ultimo_prodotto macchina \<noteq> Some (id_prodotto (prodotto ordine))
             then
               (let tempo_setup = tempo_setup_minuti (configurazione s)
                in if 0 < tempo_setup then
                     poi (nell_ambiente (\<lambda>a. Some (timeout tempo_setup a)) s)
                       (\<lambda>s1. Some (Ritorna
                          (aggiorna_macchina nome_macchina
                             (\<lambda>m. aggiungi_evento
                                \<lparr> tipo = Setup, inizio = now (ambiente s1) - tempo_setup,
                                  fine = now (ambiente s1), ordine_evento = None \<rparr>
                                (registra_tempo_utilizzo tempo_setup Setup m)) s1)))
                   else Some (Ritorna s))
             else Some (Ritorna s)))
       (\<lambda>s2. Some (Ritorna
          (aggiorna_macchina nome_macchina
             (\<lambda>m. m\<lparr>ultimo_prodotto := Some (id_prodotto (prodotto ordine))\<rparr>) s2)))"

text \<open>The breakdown roll and the repair (\<open>LOGICA GUASTI\<close>).\<close>

definition logica_guasti :: "TipoMacchinario \<Rightarrow> SistemaProduttivo \<Rightarrow> SistemaProduttivo esito option" where
  "logica_guasti nome_macchina s =
     (let (u, s1) = random_py s
      in if u < probabilita_guasto (configurazione s1) then
           (let min_rip = minuti_riparazione_min (configurazione s1);
                max_rip = minuti_riparazione_max (configurazione s1)
            in case randint min_rip max_rip s1 of
                 Inl e \<Rightarrow> Some (Solleva e)
               | Inr (tempo_riparazione, s2) \<Rightarrow>
                   poi (nell_ambiente
                          (avanza_tempo_lavorativo (gestore_turni s2) (real_of_int tempo_riparazione)
                             (configurazione s2)) s2)
                     (\<lambda>s3. Some (Ritorna
                        (aggiorna_macchina nome_macchina
                           (\<lambda>m. aggiungi_evento
                              \<lparr> tipo = Guasto,
                                inizio = now (ambiente s3) - real_of_int tempo_riparazione,
                                fine = now (ambiente s3), ordine_evento = None \<rparr>
                              (registra_tempo_utilizzo (real_of_int tempo_riparazione) Guasto m)) s3))))
         else Some (Ritorna s1))"

text \<open>The stochastic duration of the processing step.\<close>

definition durata_stocastica :: "real \<Rightarrow> SistemaProduttivo \<Rightarrow> real \<times> SistemaProduttivo" where
  "durata_stocastica durata_min s =
     (let variabilita = fattore_variabilita_processo (configurazione s);
          (u, s1) = uniform (1 - variabilita) (1 + variabilita) s
      in (max (1 / 1000) (durata_min * u), s1))"

text \<open>
  The processing step, with or without an operator; it gives the operator used and the
  effective duration.
\<close>

definition lavorazione ::
  "TipoMacchinario \<Rightarrow> real \<Rightarrow> TipoOperatore option \<Rightarrow> bool \<Rightarrow> int \<Rightarrow> SistemaProduttivo
     \<Rightarrow> (TipoOperatore option \<times> real \<times> SistemaProduttivo) esito option" where
  "lavorazione nome_macchina durata_min tipo_operatore vincolo_specialista priorita s =
     (case tipo_operatore of
        Some t \<Rightarrow>
          (let t = (if vincolo_specialista \<and> t \<noteq> SPECIALIZZATO then SPECIALIZZATO else t)
           in case operatori s t of
                None \<Rightarrow> Some (Solleva (ValueError ''Risorsa umana non disponibile''))
              | Some _ \<Rightarrow>
                  poi (attendi_turno (s\<lparr>ambiente := request (Addetto t) priorita (ambiente s)\<rparr>))
                    (\<lambda>s1. let (durata_effettiva, s2) = durata_stocastica durata_min s1
                       in poi (nell_ambiente (\<lambda>a. Some (timeout durata_effettiva a)) s2)
                            (\<lambda>s3. Some (Ritorna (Some t, durata_effettiva,
                               evento_kernel (Release (Addetto t))
                                 (aggiorna_macchina nome_macchina
                                    (registra_tempo_utilizzo durata_effettiva Lavorazione)
                                    (aggiorna_operatore t
                                       (registra_tempo_utilizzo durata_effettiva Lavorazione) s3)))))))
      | None \<Rightarrow>
          (let (durata_effettiva, s2) = durata_stocastica durata_min s
           in poi (nell_ambiente (\<lambda>a. Some (timeout durata_effettiva a)) s2)
                (\<lambda>s3. Some (Ritorna (None, durata_effettiva,
                   aggiorna_macchina nome_macchina
                     (registra_tempo_utilizzo durata_effettiva Lavorazione) s3)))))"

definition esegui_operazione ::
  "OrdineDiLavoro \<Rightarrow> TipoMacchinario \<Rightarrow> real \<Rightarrow> TipoOperatore option \<Rightarrow> bool \<Rightarrow> SistemaProduttivo
     \<Rightarrow> (OrdineDiLavoro \<times> SistemaProduttivo) esito option" where
  "esegui_operazione ordine nome_macchina durata_min tipo_operatore vincolo_specialista s =
     (case macchinari s nome_macchina of
        None \<Rightarrow> Some (Solleva (ValueError ''Asset non presente nel layout''))
      | Some _ \<Rightarrow>
          poi (attendi_turno s) (\<lambda>s1.
            let priorita = priorita_operazione (politica s1) ordine durata_min;
                s2 = s1\<lparr>ambiente := request (Macchina nome_macchina) priorita (ambiente s1)\<rparr>
            in poi (fase_setup ordine nome_macchina s2) (\<lambda>s3.
               poi (attendi_turno s3) (\<lambda>s4.
               poi (logica_guasti nome_macchina s4) (\<lambda>s5.
               poi (lavorazione nome_macchina durata_min tipo_operatore vincolo_specialista priorita s5)
                 (\<lambda>(tipo_operatore, durata_effettiva, s6).
                    let adesso = now (ambiente s6);
                        s7 = aggiorna_macchina nome_macchina
                               (aggiungi_evento
                                  \<lparr> tipo = Lavorazione, inizio = adesso - durata_effettiva,
                                    fine = adesso, ordine_evento = Some (id_ordine ordine) \<rparr>) s6;
                        ordine = aggiungi_lavorazione
                                   \<lparr> fase = nome_macchina, durata = durata_effettiva,
                                     operatore = tipo_operatore,
                                     inizio_fase = adesso - durata_effettiva, fine_fase = adesso \<rparr>
                                   (traccia_fase nome_macchina ordine)
                    in Some (Ritorna (ordine, evento_kernel (Release (Macchina nome_macchina)) s7))))))))"

subsection \<open>Routing strategies\<close>

text \<open>\<open>tempi[macchina][prodotto]\<close>: a missing key raises \<open>KeyError\<close>.\<close>

definition tempo_di :: "ConfigurazioneSimulazione \<Rightarrow> TipoMacchinario \<Rightarrow> TipoProdotto \<Rightarrow> errore + real" where
  "tempo_di cfg m p =
     (case tempi_lavorazione cfg m of
        None \<Rightarrow> Inl (KeyError ''macchina'')
      | Some riga \<Rightarrow> (case riga p of None \<Rightarrow> Inl (KeyError ''prodotto'') | Some t \<Rightarrow> Inr t))"

text \<open>One line of a routing sheet: the duration is read from the table, then the operation runs.\<close>

definition operazione ::
  "TipoMacchinario \<Rightarrow> TipoProdotto \<Rightarrow> TipoOperatore \<Rightarrow> bool \<Rightarrow> OrdineDiLavoro \<times> SistemaProduttivo
     \<Rightarrow> (OrdineDiLavoro \<times> SistemaProduttivo) esito option" where
  "operazione m p tipo_operatore vincolo_specialista os =
     (case tempo_di (configurazione (snd os)) m p of
        Inl e \<Rightarrow> Some (Solleva e)
      | Inr durata_min \<Rightarrow>
          esegui_operazione (fst os) m durata_min (Some tipo_operatore) vincolo_specialista (snd os))"

text \<open>\<open>_gestisci_rilavorazione\<close>: the table is indexed by the product id of the order.\<close>

definition gestisci_rilavorazione ::
  "OrdineDiLavoro \<times> SistemaProduttivo \<Rightarrow> (OrdineDiLavoro \<times> SistemaProduttivo) esito option" where
  "gestisci_rilavorazione os =
     (let ordine = fst os; (u, s1) = random_py (snd os)
      in if u < probabilita_rifacimento (configurazione s1) then
           (case tipo_di (id_prodotto (prodotto ordine)) of
              None \<Rightarrow> Some (Solleva (KeyError ''prodotto''))
            | Some p \<Rightarrow>
                poi (operazione RETTIFICA p GENERICO False (ordine, s1))
                  (operazione BANCO_CONTROLLO p GENERICO False))
         else Some (Ritorna (ordine, s1)))"

text \<open>\<open>if P in store_dict: yield store_dict[P].put(ordine)\<close>.\<close>

definition deposita :: "deposito \<Rightarrow> OrdineDiLavoro \<times> SistemaProduttivo \<Rightarrow> (OrdineDiLavoro \<times> SistemaProduttivo) esito option" where
  "deposita d os =
     (case deposito_di (snd os) d of
        None \<Rightarrow> Some (Ritorna os)
      | Some items \<Rightarrow> Some (Ritorna (fst os, store_put d items (fst os) (snd os))))"

text \<open>\<open>ordine.tempo_completamento = sistema_produttivo.ambiente.now\<close>.\<close>

definition completa :: "OrdineDiLavoro \<times> SistemaProduttivo \<Rightarrow> (OrdineDiLavoro \<times> SistemaProduttivo) esito option" where
  "completa os = Some (Ritorna (imposta_completamento (now (ambiente (snd os))) (fst os), snd os))"

definition esegui_processo_FL01 ::
  "OrdineDiLavoro \<Rightarrow> SistemaProduttivo \<Rightarrow> (OrdineDiLavoro \<times> SistemaProduttivo) esito option" where
  "esegui_processo_FL01 ordine sistema_produttivo =
     poi (poi (poi (poi (poi (poi
       (operazione TRONCATRICE FL_01 GENERICO False (ordine, sistema_produttivo))
       (operazione TRAPANO FL_01 GENERICO False))
       (operazione BANCO_CONTROLLO FL_01 GENERICO False))
       (operazione BANCO_CONTROLLO FL_01 GENERICO False))
       (deposita (Scorte FL_01)))
       (deposita (Intermedio FL_01)))
       completa"

definition tipo_operatore_speciale :: "SistemaProduttivo \<Rightarrow> TipoOperatore" where
  "tipo_operatore_speciale s =
     (if richiede_specialista (configurazione s) then SPECIALIZZATO else GENERICO)"

definition esegui_processo_PN03 ::
  "OrdineDiLavoro \<Rightarrow> SistemaProduttivo \<Rightarrow> (OrdineDiLavoro \<times> SistemaProduttivo) esito option" where
  "esegui_processo_PN03 ordine sistema_produttivo =
     poi (poi (poi (poi (poi (poi (poi
       (operazione TRONCATRICE PN_03 GENERICO False (ordine, sistema_produttivo))
       (\<lambda>os. operazione TORNIO PN_03 (tipo_operatore_speciale (snd os))
                (richiede_specialista (configurazione (snd os))) os))
       (operazione RETTIFICA PN_03 GENERICO False))
       (operazione BANCO_CONTROLLO PN_03 GENERICO False))
       gestisci_rilavorazione)
       gestisci_rilavorazione)
       (deposita (Scorte PN_03)))
       completa"

definition esegui_processo_IN07 ::
  "OrdineDiLavoro \<Rightarrow> SistemaProduttivo \<Rightarrow> (OrdineDiLavoro \<times> SistemaProduttivo) esito option" where
  "esegui_processo_IN07 ordine sistema_produttivo =
     poi (poi (poi (poi (poi (poi (poi (poi (poi
       (operazione TRONCATRICE IN_07 GENERICO False (ordine, sistema_produttivo))
       (\<lambda>os. operazione FRESA IN_07 (tipo_operatore_speciale (snd os))
                (richiede_specialista (configurazione (snd os))) os))
       (operazione RETTIFICA IN_07 GENERICO False))
       (operazione FORNO IN_07 GENERICO False))
       (operazione BANCO_CONTROLLO IN_07 GENERICO False))
       gestisci_rilavorazione)
       gestisci_rilavorazione)
       (deposita (Scorte IN_07)))
       (deposita (Intermedio IN_07)))
       completa"

text \<open>
  \<open>if P in magazzino_intermedio: c = yield magazzino_intermedio[P].get();
  ordine.componenti_consumati.append(c)\<close>.
\<close>

definition preleva :: "TipoProdotto \<Rightarrow> OrdineDiLavoro \<times> SistemaProduttivo \<Rightarrow> (OrdineDiLavoro \<times> SistemaProduttivo) esito option" where
  "preleva p os =
     (case magazzino_intermedio (snd os) p of
        None \<Rightarrow> Some (Solleva (KeyError ''magazzino''))
      | Some items \<Rightarrow>
          poi (store_get (Intermedio p) items (fst os) (snd os))
            (\<lambda>(componente, s1). Some (Ritorna (aggiungi_componente componente (fst os), s1))))"

text \<open>The withdrawal of the components that opens the routing of RD-01.\<close>

definition prelievo_materiali :: "OrdineDiLavoro \<times> SistemaProduttivo \<Rightarrow> (OrdineDiLavoro \<times> SistemaProduttivo) esito option" where
  "prelievo_materiali os =
     poi (if FL_01 \<in> dom (magazzino_intermedio (snd os)) then preleva FL_01 os else Some (Ritorna os))
       (\<lambda>os1. if IN_07 \<in> dom (magazzino_intermedio (snd os1))
               then poi (preleva IN_07 os1) (preleva IN_07)
               else Some (Ritorna os1))"

definition esegui_processo_RD01 ::
  "OrdineDiLavoro \<Rightarrow> SistemaProduttivo \<Rightarrow> (OrdineDiLavoro \<times> SistemaProduttivo) esito option" where
  "esegui_processo_RD01 ordine sistema_produttivo =
     poi (poi (poi
       (prelievo_materiali (ordine, sistema_produttivo))
       (operazione BANCO_ASSEMBLAGGIO RD_01 GENERICO False))
       (operazione BANCO_COLLAUDO RD_01 GENERICO False))
       completa"

fun esegui_processo ::
  "strategia \<Rightarrow> OrdineDiLavoro \<Rightarrow> SistemaProduttivo \<Rightarrow> (OrdineDiLavoro \<times> SistemaProduttivo) esito option" where
  "esegui_processo StrategiaFL01 = esegui_processo_FL01"
| "esegui_processo StrategiaPN03 = esegui_processo_PN03"
| "esegui_processo StrategiaIN07 = esegui_processo_IN07"
| "esegui_processo StrategiaRD01 = esegui_processo_RD01"

text \<open>\<open>stima_tempo_ciclo\<close>: the sum is evaluated from left to right, and so are the lookups.\<close>

fun somma_tempi :: "ConfigurazioneSimulazione \<Rightarrow> real \<Rightarrow> (TipoMacchinario \<times> TipoProdotto) list \<Rightarrow> errore + real" where
  "somma_tempi cfg acc [] = Inr acc"
| "somma_tempi cfg acc ((m, p) # rest) =
     (case tempo_di cfg m p of
        Inl e \<Rightarrow> Inl e
      | Inr t \<Rightarrow> somma_tempi cfg (acc + t) rest)"

fun stima_tempo_ciclo :: "strategia \<Rightarrow> ConfigurazioneSimulazione \<Rightarrow> errore + real" where
  "stima_tempo_ciclo StrategiaFL01 cfg =
     somma_tempi cfg 0 [(TRONCATRICE, FL_01), (TRAPANO, FL_01), (BANCO_CONTROLLO, FL_01)]"
| "stima_tempo_ciclo StrategiaPN03 cfg =
     somma_tempi cfg 0
       [(TRONCATRICE, PN_03), (TORNIO, PN_03), (RETTIFICA, PN_03), (BANCO_CONTROLLO, PN_03)]"
| "stima_tempo_ciclo StrategiaIN07 cfg =
     somma_tempi cfg 0
       [(TRONCATRICE, IN_07), (FRESA, IN_07), (RETTIFICA, IN_07), (FORNO, IN_07), (BANCO_CONTROLLO, IN_07)]"
| "stima_tempo_ciclo StrategiaRD01 cfg =
     somma_tempi cfg 0 [(BANCO_ASSEMBLAGGIO, RD_01), (BANCO_COLLAUDO, RD_01)]"

subsection \<open>SistemaProduttivo.elabora_ordine: the daily caps and the dispatch\<close>

text \<open>\<open>count >= limit\<close>, where a missing limit is \<open>float('inf')\<close>.\<close>

definition raggiunto :: "int \<Rightarrow> int option \<Rightarrow> bool" where
  "raggiunto n limite = (case limite of None \<Rightarrow> False | Some l \<Rightarrow> l \<le> n)"

text \<open>The day of \<open>now\<close>, and the reset of the counters when it is later than the current day.\<close>

definition giorno_simulazione :: "SistemaProduttivo \<Rightarrow> int" where
  "giorno_simulazione s = py_int (now (ambiente s) / real_of_int MINUTI_GIORNALIERI)"

definition aggiorna_giorno :: "SistemaProduttivo \<Rightarrow> SistemaProduttivo" where
  "aggiorna_giorno s =
     (if giorno_corrente s < giorno_simulazione s
      then s\<lparr>giorno_corrente := giorno_simulazione s,
             produzione_giornaliera_per_prodotto := Map.empty,
             produzione_giornaliera_totale := 0\<rparr>
      else s)"

definition prodotti_oggi :: "string \<Rightarrow> SistemaProduttivo \<Rightarrow> int" where
  "prodotti_oggi id_p s =
     (case produzione_giornaliera_per_prodotto s id_p of None \<Rightarrow> 0 | Some n \<Rightarrow> n)"

definition capacita_esaurita :: "string \<Rightarrow> SistemaProduttivo \<Rightarrow> bool" where
  "capacita_esaurita id_p s =
     (let limiti_prodotti =
            (case limiti_produzione_giornaliera (configurazione s) of
               None \<Rightarrow> Map.empty | Some l \<Rightarrow> l);
          limite_prodotto = limiti_prodotti id_p;
          limite_totale = limite_produzione_totale_giornaliera (configurazione s)
      in raggiunto (prodotti_oggi id_p s) limite_prodotto
         \<or> raggiunto (produzione_giornaliera_totale s) limite_totale)"

definition tempo_attesa_domani :: "SistemaProduttivo \<Rightarrow> real" where
  "tempo_attesa_domani s =
     (let minuti_giornalieri = py_mod (now (ambiente s)) MINUTI_GIORNALIERI;
          tempo_fine_giornata = real_of_int MINUTI_GIORNALIERI - minuti_giornalieri;
          tempo_apertura_domani = real_of_int (orario_inizio_turno (configurazione s) * 60)
      in tempo_fine_giornata + tempo_apertura_domani)"

definition prenota :: "string \<Rightarrow> SistemaProduttivo \<Rightarrow> SistemaProduttivo" where
  "prenota id_p s =
     s\<lparr>produzione_giornaliera_per_prodotto :=
         (produzione_giornaliera_per_prodotto s)(id_p \<mapsto> prodotti_oggi id_p s + 1),
       produzione_giornaliera_totale := produzione_giornaliera_totale s + 1\<rparr>"

text \<open>The \<open>while True\<close> loop of \<open>elabora_ordine\<close>.\<close>

partial_function (option) attesa_capacita :: "string \<Rightarrow> SistemaProduttivo \<Rightarrow> SistemaProduttivo esito option" where
  "attesa_capacita id_p s =
     (let s1 = aggiorna_giorno s
      in if capacita_esaurita id_p s1 then
           (case timeout (tempo_attesa_domani s1) (ambiente s1) of
              Inl e \<Rightarrow> Some (Solleva e)
            | Inr a \<Rightarrow> attesa_capacita id_p (s1\<lparr>ambiente := a\<rparr>))
         else Some (Ritorna (prenota id_p s1)))"

definition elabora_ordine ::
  "OrdineDiLavoro \<Rightarrow> SistemaProduttivo \<Rightarrow> (OrdineDiLavoro \<times> SistemaProduttivo) esito option" where
  "elabora_ordine ordine s =
     (let id_p = id_prodotto (prodotto ordine);
          has_limits = (limiti_produzione_giornaliera (configurazione s) \<noteq> None
                        \<or> limite_produzione_totale_giornaliera (configurazione s) \<noteq> None)
      in poi (if has_limits then attesa_capacita id_p s else Some (Ritorna s))
           (\<lambda>s1. case strategie s1 id_p of
                    None \<Rightarrow> Some (Solleva (ValueError ''Routing Sheet non definita''))
                  | Some strategia \<Rightarrow> esegui_processo strategia ordine s1))"

subsection \<open>SistemaProduttivo.__init__\<close>

fun str_nat :: "nat \<Rightarrow> string" where
  "str_nat n =
     (if n < 10 then [''0123456789'' ! n]
      else str_nat (n div 10) @ [''0123456789'' ! (n mod 10)])"

definition ordine_scorta :: "TipoProdotto \<Rightarrow> nat \<Rightarrow> OrdineDiLavoro" where
  "ordine_scorta tipo_prod i =
     nuovo_ordine (''STOCK-INIT-'' @ valore tipo_prod @ ''-'' @ str_nat i)
       \<lparr> id_prodotto = valore tipo_prod, nome_prodotto = nome_enum tipo_prod \<rparr>
       0 0 (Some 0)"

definition quantita_iniziali :: "(TipoProdotto \<times> nat) list" where
  "quantita_iniziali = [(FL_01, 20), (IN_07, 40)]"

fun carica_scorte ::
  "(TipoProdotto \<rightharpoonup> OrdineDiLavoro list) \<Rightarrow> (TipoProdotto \<times> nat) list \<Rightarrow> (TipoProdotto \<rightharpoonup> OrdineDiLavoro list)" where
  "carica_scorte magazzino [] = magazzino"
| "carica_scorte magazzino ((tipo_prod, qta) # rest) =
     (case magazzino tipo_prod of
        None \<Rightarrow> carica_scorte magazzino rest
      | Some store \<Rightarrow>
          carica_scorte (magazzino(tipo_prod \<mapsto> store @ map (ordine_scorta tipo_prod) [0..<qta])) rest)"

text \<open>\<open>_inizializza_asset\<close>: one resource for each member of the enumerations, in their order.\<close>

fun crea_risorse ::
  "ConfigurazioneSimulazione \<Rightarrow> ('k \<Rightarrow> risorsa) \<Rightarrow> 'k list \<Rightarrow> ('k \<rightharpoonup> RisorsaProduttiva)
     \<Rightarrow> errore + ('k \<rightharpoonup> RisorsaProduttiva)" where
  "crea_risorse cfg chiave [] acc = Inr acc"
| "crea_risorse cfg chiave (k # rest) acc =
     (let c = (case capacita cfg (chiave k) of None \<Rightarrow> 1 | Some c \<Rightarrow> c)
      in case nuova_risorsa (chiave k) c of
           Inl e \<Rightarrow> Inl e
         | Inr r \<Rightarrow> crea_risorse cfg chiave rest (acc(k \<mapsto> r)))"

definition tutti_i_macchinari :: "TipoMacchinario list" where
  "tutti_i_macchinari =
     [TRONCATRICE, TRAPANO, TORNIO, FRESA, RETTIFICA, FORNO,
      BANCO_ASSEMBLAGGIO, BANCO_COLLAUDO, BANCO_CONTROLLO]"

definition tutti_gli_operatori :: "TipoOperatore list" where
  "tutti_gli_operatori = [GENERICO, SPECIALIZZATO]"

definition nuovo_sistema ::
  "Ambiente \<Rightarrow> GestoreTempo option \<Rightarrow> (string \<rightharpoonup> strategia) \<Rightarrow> ConfigurazioneSimulazione
     \<Rightarrow> (nat \<Rightarrow> real) \<Rightarrow> PoliticaSchedulazione \<Rightarrow> errore + SistemaProduttivo" where
  "nuovo_sistema amb gestore strat cfg generatore pol =
     (let scorte = [FL_01 \<mapsto> [], PN_03 \<mapsto> [], IN_07 \<mapsto> [], RD_01 \<mapsto> []];
          magazzino = carica_scorte [FL_01 \<mapsto> [], IN_07 \<mapsto> []] quantita_iniziali
      in case crea_risorse cfg Macchina tutti_i_macchinari Map.empty of
           Inl e \<Rightarrow> Inl e
         | Inr ms \<Rightarrow>
             (case crea_risorse cfg Addetto tutti_gli_operatori Map.empty of
                Inl e \<Rightarrow> Inl e
              | Inr ops \<Rightarrow>
                  Inr \<lparr> ambiente = amb, gestore_turni = gestore, strategie = strat,
                        configurazione = cfg, rng = generatore, rng_usati = 0, politica = pol,
                        macchinari = ms, operatori = ops,
                        buffer_scorte = scorte, magazzino_intermedio = magazzino,
                        giorno_corrente = 0,
                        produzione_giornaliera_per_prodotto = Map.empty,
                        produzione_giornaliera_totale = 0,
                        monitor_scorte_avviato =
                          (case livelli_scorta_minima cfg of
                             None \<Rightarrow> False
                           | Some livelli \<Rightarrow> livelli \<noteq> Map.empty) \<rparr>))"

text \<open>The environment at time 0 and the strategies registered by the scenarios.\<close>

definition ambiente_iniziale :: "(nat \<Rightarrow> real) \<Rightarrow> Ambiente" where
  "ambiente_iniziale c = \<lparr> now = 0, traccia = [], concessioni = c, consegne = (\<lambda>_. None) \<rparr>"

definition strategie_standard :: "string \<rightharpoonup> strategia" where
  "strategie_standard =
     [''FL-01'' \<mapsto> StrategiaFL01, ''PN-03'' \<mapsto> StrategiaPN03,
      ''IN-07'' \<mapsto> StrategiaIN07, ''RD-01'' \<mapsto> StrategiaRD01]"

subsection \<open>The order of the grants of a resource\<close>

text \<open>
  Modelled from the spec: the \<open>PriorityResource\<close> of the event kernel, which the
  repository takes from the \<open>simpy\<close> library and which is not part of its sources.
  The spec (4.1): grants are ordered by ascending priority value, ties broken by request
  arrival order.  A waiting request is its priority and its arrival number; \<open>accoda\<close>
  puts a request behind the waiting requests that go before it, and the kernel grants
  the head of the queue.
\<close>

record richiesta =
  priorita_richiesta :: int
  arrivo :: nat

definition precede :: "richiesta \<Rightarrow> richiesta \<Rightarrow> bool" where
  "precede a b =
     (priorita_richiesta a < priorita_richiesta b
      \<or> (priorita_richiesta a = priorita_richiesta b \<and> arrivo a \<le> arrivo b))"

fun accoda :: "richiesta \<Rightarrow> richiesta list \<Rightarrow> richiesta list" where
  "accoda r [] = [r]"
| "accoda r (x # xs) = (if precede x r then x # accoda r xs else r # x # xs)"

fun coda_di :: "richiesta list \<Rightarrow> richiesta list" where
  "coda_di [] = []"
| "coda_di (r # rs) = accoda r (coda_di rs)"

definition prossima_concessione :: "richiesta list \<Rightarrow> richiesta option" where
  "prossima_concessione coda = (case coda of [] \<Rightarrow> None | r # _ \<Rightarrow> Some r)"

subsection \<open>Relations between the states of a process, used in the proofs\<close>

text \<open>
  \<open>segue a evs a'\<close>: from \<open>a\<close> the process has reached \<open>a'\<close>; the clock has not gone
  back, and the events added to the trace are \<open>evs\<close>, apart from timeouts.
\<close>

fun is_timeout :: "azione \<Rightarrow> bool" where
  "is_timeout (Timeout d) = True"
| "is_timeout (Request r p) = False"
| "is_timeout (Release r) = False"
| "is_timeout (Put d) = False"
| "is_timeout (Get d) = False"

definition senza_timeout :: "azione list \<Rightarrow> azione list" where
  "senza_timeout tr = filter (\<lambda>e. \<not> is_timeout e) tr"

definition segue :: "Ambiente \<Rightarrow> azione list \<Rightarrow> Ambiente \<Rightarrow> bool" where
  "segue a evs a' =
     (now a \<le> now a' \<and> concessioni a' = concessioni a
      \<and> (\<exists>tr. traccia a' = traccia a @ tr \<and> senza_timeout tr = evs))"

text \<open>\<open>invariati s s'\<close>: what no operation of a routing changes.\<close>

definition invariati :: "SistemaProduttivo \<Rightarrow> SistemaProduttivo \<Rightarrow> bool" where
  "invariati s s' =
     (configurazione s' = configurazione s \<and> gestore_turni s' = gestore_turni s
      \<and> politica s' = politica s \<and> strategie s' = strategie s \<and> rng s' = rng s
      \<and> giorno_corrente s' = giorno_corrente s
      \<and> produzione_giornaliera_per_prodotto s' = produzione_giornaliera_per_prodotto s
      \<and> produzione_giornaliera_totale s' = produzione_giornaliera_totale s)"

text \<open>
  \<open>nominale ident s\<close>: a state in which an order of product \<open>ident\<close> runs without
  waiting for a resource, without changeover, breakdown, rework or variability.
\<close>

definition nominale :: "string \<Rightarrow> SistemaProduttivo \<Rightarrow> bool" where
  "nominale ident s =
     (concessioni (ambiente s) = (\<lambda>_. 0) \<and> 0 \<le> now (ambiente s)
      \<and> (\<forall>m. \<exists>mac. macchinari s m = Some mac
             \<and> (ultimo_prodotto mac = None \<or> ultimo_prodotto mac = Some ident))
      \<and> (\<forall>t. \<exists>ope. operatori s t = Some ope)
      \<and> (\<forall>k. probabilita_guasto (configurazione s) \<le> rng s k)
      \<and> (\<forall>k. probabilita_rifacimento (configurazione s) \<le> rng s k)
      \<and> fattore_variabilita_processo (configurazione s) = 0)"

text \<open>
  \<open>lavorato os fasi os'\<close>: the order has gone through the operations \<open>fasi\<close>, each of
  which takes at least a thousandth of a minute.
\<close>

definition lavorato ::
  "OrdineDiLavoro \<times> SistemaProduttivo \<Rightarrow> TipoMacchinario list \<Rightarrow> OrdineDiLavoro \<times> SistemaProduttivo \<Rightarrow> bool" where
  "lavorato os fasi os' =
     (now (ambiente (snd os)) + real (length fasi) / 1000 \<le> now (ambiente (snd os'))
      \<and> invariati (snd os) (snd os')
      \<and> id_ordine (fst os') = id_ordine (fst os)
      \<and> prodotto (fst os') = prodotto (fst os)
      \<and> tempo_creazione (fst os') = tempo_creazione (fst os)
      \<and> scadenza (fst os') = scadenza (fst os)
      \<and> cronologia_fasi (fst os') = cronologia_fasi (fst os) @ fasi)"

subsection \<open>A concrete scenario\<close>

text \<open>
  The scenarios of the repository start the calendar on Monday 1 January 2024 at 00:00;
  the states below are the system of the base configuration at 08:00 of that day, with a
  generator whose draws are all \<open>1/2\<close> and with every resource granted on request.
\<close>

definition gestore_lunedi :: GestoreTempo where
  "gestore_lunedi = \<lparr> giorno_inizio = 0, minuti_inizio_giorno = 0 \<rparr>"

definition nessuna_attesa :: "nat \<Rightarrow> real" where
  "nessuna_attesa = (\<lambda>_. 0)"

definition estrazioni_costanti :: "nat \<Rightarrow> real" where
  "estrazioni_costanti = (\<lambda>_. 1 / 2)"

definition nessuna_consegna :: "nat \<Rightarrow> (real \<times> OrdineDiLavoro) option" where
  "nessuna_consegna = (\<lambda>_. None)"

definition ambiente_al :: "real \<Rightarrow> Ambiente" where
  "ambiente_al t =
     \<lparr> now = t, traccia = [], concessioni = nessuna_attesa, consegne = nessuna_consegna \<rparr>"

definition sistema_al :: "real \<Rightarrow> PoliticaSchedulazione \<Rightarrow> errore + SistemaProduttivo" where
  "sistema_al t pol =
     nuovo_sistema (ambiente_al t) (Some gestore_lunedi) strategie_standard
       crea_configurazione_base estrazioni_costanti pol"

definition ordine_esempio :: "TipoProdotto \<Rightarrow> real \<Rightarrow> real \<Rightarrow> OrdineDiLavoro" where
  "ordine_esempio p creazione consegna =
     nuovo_ordine ''WO-1'' \<lparr> id_prodotto = valore p, nome_prodotto = nome_enum p \<rparr>
       creazione consegna None"


text \<open>The same system with a global daily cap and a number of units already reserved today.\<close>

definition con_limite_totale :: "int \<Rightarrow> int \<Rightarrow> SistemaProduttivo \<Rightarrow> SistemaProduttivo" where
  "con_limite_totale limite prodotti s =
     s\<lparr>configurazione := (configurazione s)\<lparr>limite_produzione_totale_giornaliera := Some limite\<rparr>,
       produzione_giornaliera_totale := prodotti\<rparr>"

text \<open>
  The same system with its FL-01 buffer empty, while another process delivers an FL-01 at
  the instant \<open>t\<close>.
\<close>

definition flangia_in_arrivo :: "real \<Rightarrow> SistemaProduttivo \<Rightarrow> SistemaProduttivo" where
  "flangia_in_arrivo t s =
     s\<lparr>magazzino_intermedio := (magazzino_intermedio s)(FL_01 \<mapsto> []),
       ambiente := (ambiente s)\<lparr>consegne := (\<lambda>_. Some (t, ordine_scorta FL_01 0))\<rparr>\<rparr>"

section \<open>Properties\<close>

subsection \<open>Lists of consecutive numbers\<close>

lemma upt_uno: "0 < n \<Longrightarrow> [0..<n] = 0 # [1..<n]"
  by (simp add: upt_conv_Cons)

lemma upt_due: "2 \<le> n \<Longrightarrow> [0..<n] = 0 # 1 # [2..<n]"
  by (simp add: upt_conv_Cons numeral_2_eq_2)

subsection \<open>The initial stock of the intermediate warehouse\<close>

lemma ordine_scorta_campi:
  "tempo_creazione (ordine_scorta p i) = 0"
  "scadenza (ordine_scorta p i) = 0"
  "tempo_completamento (ordine_scorta p i) = Some 0"
  "id_prodotto (prodotto (ordine_scorta p i)) = valore p"
  "id_ordine (ordine_scorta p i) = ''STOCK-INIT-'' @ valore p @ ''-'' @ str_nat i"
  by (simp_all add: ordine_scorta_def nuovo_ordine_def)

lemma magazzino_iniziale:
  "carica_scorte [FL_01 \<mapsto> [], IN_07 \<mapsto> []] quantita_iniziali =
     [FL_01 \<mapsto> map (ordine_scorta FL_01) [0..<20], IN_07 \<mapsto> map (ordine_scorta IN_07) [0..<40]]"
  by (simp add: quantita_iniziali_def fun_upd_twist)

lemma nuovo_sistema_magazzino:
  "nuovo_sistema amb g strat cfg gen pol = Inr s \<Longrightarrow>
     magazzino_intermedio s =
       [FL_01 \<mapsto> map (ordine_scorta FL_01) [0..<20], IN_07 \<mapsto> map (ordine_scorta IN_07) [0..<40]]"
  by (auto simp add: nuovo_sistema_def magazzino_iniziale Let_def split: sum.splits)

lemma nuovo_sistema_configurazione:
  "nuovo_sistema amb g strat cfg gen pol = Inr s \<Longrightarrow> configurazione s = cfg"
  by (auto simp: nuovo_sistema_def Let_def split: sum.splits)

lemma nuovo_sistema_base:
  "\<exists>s. nuovo_sistema (ambiente_iniziale (\<lambda>_. 0)) None strategie_standard
          crea_configurazione_base (\<lambda>_. 0) FIFO = Inr s"
  by (simp add: nuovo_sistema_def tutti_i_macchinari_def tutti_gli_operatori_def nuova_risorsa_def
      crea_configurazione_base_def capacita_base_def Let_def)

subsection \<open>Buffers and the withdrawal of components\<close>

lemma evento_kernel_campi [simp]:
  "magazzino_intermedio (evento_kernel ev s) = magazzino_intermedio s"
  "buffer_scorte (evento_kernel ev s) = buffer_scorte s"
  "configurazione (evento_kernel ev s) = configurazione s"
  "macchinari (evento_kernel ev s) = macchinari s"
  "operatori (evento_kernel ev s) = operatori s"
  "now (ambiente (evento_kernel ev s)) = now (ambiente s)"
  "concessioni (ambiente (evento_kernel ev s)) = concessioni (ambiente s)"
  "traccia (ambiente (evento_kernel ev s)) = traccia (ambiente s) @ [ev]"
  by (simp_all add: evento_kernel_def)

lemma scrivi_deposito_campi [simp]:
  "magazzino_intermedio (scrivi_deposito (Intermedio p) xs s) = (magazzino_intermedio s)(p \<mapsto> xs)"
  "buffer_scorte (scrivi_deposito (Intermedio p) xs s) = buffer_scorte s"
  "magazzino_intermedio (scrivi_deposito (Scorte p) xs s) = magazzino_intermedio s"
  "buffer_scorte (scrivi_deposito (Scorte p) xs s) = (buffer_scorte s)(p \<mapsto> xs)"
  "ambiente (scrivi_deposito d xs s) = ambiente s"
  "configurazione (scrivi_deposito d xs s) = configurazione s"
  "macchinari (scrivi_deposito d xs s) = macchinari s"
  "operatori (scrivi_deposito d xs s) = operatori s"
  by (simp_all add: scrivi_deposito_def split: deposito.splits)

lemma componenti_aggiungi [simp]:
  "componenti_consumati (aggiungi_componente x ordine) = componenti_consumati ordine @ [x]"
  by (simp add: aggiungi_componente_def)

lemma preleva_disponibile:
  "magazzino_intermedio s p = Some (x # xs) \<Longrightarrow>
   preleva p (ordine, s) =
     Some (Ritorna (aggiungi_componente x ordine,
                    evento_kernel (Get (Intermedio p)) (scrivi_deposito (Intermedio p) xs s)))"
  by (simp add: preleva_def store_get_def poi_def)

lemma preleva_vuoto:
  "magazzino_intermedio s p = Some [] \<Longrightarrow>
   consegne (ambiente s) (length (traccia (ambiente s))) = None \<Longrightarrow>
   preleva p (ordine, s) =
     Some (Bloccato (Intermedio p) ordine (evento_kernel (Get (Intermedio p)) s))"
  by (simp add: preleva_def store_get_def poi_def)

lemma preleva_consegna:
  "magazzino_intermedio s p = Some [] \<Longrightarrow>
   consegne (ambiente s) (length (traccia (ambiente s))) = Some (t, x) \<Longrightarrow>
   preleva p (ordine, s) =
     Some (Ritorna (aggiungi_componente x ordine,
                    evento_kernel (Get (Intermedio p))
                      (s\<lparr>ambiente := (ambiente s)\<lparr>now := max (now (ambiente s)) t\<rparr>\<rparr>)))"
  by (simp add: preleva_def store_get_def poi_def)

lemma prelievo_materiali_disponibili:
  assumes "magazzino_intermedio s FL_01 = Some (f # fs)"
    and "magazzino_intermedio s IN_07 = Some (i1 # i2 # is)"
  shows "\<exists>ordine' s'. prelievo_materiali (ordine, s) = Some (Ritorna (ordine', s'))
     \<and> componenti_consumati ordine' = componenti_consumati ordine @ [f, i1, i2]
     \<and> magazzino_intermedio s' = (magazzino_intermedio s)(FL_01 \<mapsto> fs, IN_07 \<mapsto> is)
     \<and> buffer_scorte s' = buffer_scorte s
     \<and> now (ambiente s') = now (ambiente s)
     \<and> traccia (ambiente s') = traccia (ambiente s)
          @ [Get (Intermedio FL_01), Get (Intermedio IN_07), Get (Intermedio IN_07)]"
  using assms
  by (simp add: prelievo_materiali_def preleva_disponibile poi_def domI)

lemma prelievo_materiali_in_attesa:
  assumes "magazzino_intermedio s FL_01 = Some []"
    and "consegne (ambiente s) (length (traccia (ambiente s))) = Some (t, x)"
    and "magazzino_intermedio s IN_07 = Some (i1 # i2 # is)"
  shows "\<exists>ordine' s'. prelievo_materiali (ordine, s) = Some (Ritorna (ordine', s'))
     \<and> componenti_consumati ordine' = componenti_consumati ordine @ [x, i1, i2]
     \<and> now (ambiente s') = max (now (ambiente s)) t
     \<and> concessioni (ambiente s') = concessioni (ambiente s)
     \<and> macchinari s' = macchinari s \<and> operatori s' = operatori s
     \<and> magazzino_intermedio s' = (magazzino_intermedio s)(IN_07 \<mapsto> is)
     \<and> traccia (ambiente s') = traccia (ambiente s)
          @ [Get (Intermedio FL_01), Get (Intermedio IN_07), Get (Intermedio IN_07)]"
  using assms
  by (simp add: prelievo_materiali_def preleva_consegna preleva_disponibile poi_def domI)

text \<open>
  C1.  The withdrawal that opens the routing of RD-01 does not read the bill of materials.
  On the system built from the base configuration it takes one FL-01 and two IN-07 from
  the intermediate warehouse (IN-07 goes from 40 to 38 units), while the configured bill
  of materials of RD-01 lists one FL-01 and two PN-03, a product for which the
  intermediate warehouse has no buffer.
\<close>

theorem prelievo_rd01_base:
  "\<exists>s ordine' s'.
     nuovo_sistema (ambiente_iniziale (\<lambda>_. 0)) None strategie_standard
       crea_configurazione_base (\<lambda>_. 0) FIFO = Inr s
     \<and> prelievo_materiali
          (nuovo_ordine ''WO-1'' \<lparr>id_prodotto = ''RD-01'', nome_prodotto = ''RD_01''\<rparr> 0 100 None, s)
         = Some (Ritorna (ordine', s'))
     \<and> map (\<lambda>c. id_prodotto (prodotto c)) (componenti_consumati ordine')
         = [''FL-01'', ''IN-07'', ''IN-07'']
     \<and> map_option length (magazzino_intermedio s IN_07) = Some 40
     \<and> map_option length (magazzino_intermedio s' IN_07) = Some 38
     \<and> magazzino_intermedio s' PN_03 = None
     \<and> distinta_base (configurazione s) = Some [RD_01 \<mapsto> [FL_01 \<mapsto> 1, PN_03 \<mapsto> 2]]"
proof -
  let ?ordine = "nuovo_ordine ''WO-1'' \<lparr>id_prodotto = ''RD-01'', nome_prodotto = ''RD_01''\<rparr> 0 100 None"
  obtain s where s: "nuovo_sistema (ambiente_iniziale (\<lambda>_. 0)) None strategie_standard
      crea_configurazione_base (\<lambda>_. 0) FIFO = Inr s"
    using nuovo_sistema_base by blast
  have m: "magazzino_intermedio s =
       [FL_01 \<mapsto> map (ordine_scorta FL_01) [0..<20], IN_07 \<mapsto> map (ordine_scorta IN_07) [0..<40]]"
    by (rule nuovo_sistema_magazzino[OF s])
  have c: "configurazione s = crea_configurazione_base"
    by (rule nuovo_sistema_configurazione[OF s])
  have fl: "magazzino_intermedio s FL_01
      = Some (ordine_scorta FL_01 0 # map (ordine_scorta FL_01) [1..<20])"
    by (simp add: m upt_uno)
  have inn: "magazzino_intermedio s IN_07
      = Some (ordine_scorta IN_07 0 # ordine_scorta IN_07 1 # map (ordine_scorta IN_07) [2..<40])"
    by (simp add: m upt_due)
  from prelievo_materiali_disponibili[OF fl inn]
  obtain ordine' s' where
    "prelievo_materiali (?ordine, s) = Some (Ritorna (ordine', s'))"
    "componenti_consumati ordine' = componenti_consumati ?ordine
       @ [ordine_scorta FL_01 0, ordine_scorta IN_07 0, ordine_scorta IN_07 1]"
    "magazzino_intermedio s' = (magazzino_intermedio s)
       (FL_01 \<mapsto> map (ordine_scorta FL_01) [1..<20], IN_07 \<mapsto> map (ordine_scorta IN_07) [2..<40])"
    by blast
  then show ?thesis
    using s m c
    by (intro exI[of _ s] exI[of _ ordine'] exI[of _ s'])
       (simp add: nuovo_ordine_def ordine_scorta_campi crea_configurazione_base_def
          distinta_base_rd01_def)
qed

text \<open>
  C8.  Every production system that the constructor returns starts with an intermediate
  warehouse of exactly 20 stock orders of FL-01 and 40 of IN-07 (and no other buffer);
  each stock order has creation time, due time and completion time 0, and with this
  stock the withdrawal of the components of an assembly order returns without blocking.
\<close>

theorem magazzino_intermedio_iniziale:
  assumes "nuovo_sistema amb g strat cfg gen pol = Inr s"
  shows "magazzino_intermedio s FL_01 = Some (map (ordine_scorta FL_01) [0..<20])
     \<and> magazzino_intermedio s IN_07 = Some (map (ordine_scorta IN_07) [0..<40])
     \<and> dom (magazzino_intermedio s) = {FL_01, IN_07}
     \<and> length (map (ordine_scorta FL_01) [0..<20]) = 20
     \<and> length (map (ordine_scorta IN_07) [0..<40]) = 40
     \<and> tempo_creazione (ordine_scorta p i) = 0
     \<and> scadenza (ordine_scorta p i) = 0
     \<and> tempo_completamento (ordine_scorta p i) = Some 0
     \<and> id_prodotto (prodotto (ordine_scorta p i)) = valore p
     \<and> (\<exists>ordine' s'. prelievo_materiali (ordine, s) = Some (Ritorna (ordine', s'))
          \<and> componenti_consumati ordine' = componenti_consumati ordine
               @ [ordine_scorta FL_01 0, ordine_scorta IN_07 0, ordine_scorta IN_07 1])"
proof -
  have m: "magazzino_intermedio s =
       [FL_01 \<mapsto> map (ordine_scorta FL_01) [0..<20], IN_07 \<mapsto> map (ordine_scorta IN_07) [0..<40]]"
    by (rule nuovo_sistema_magazzino[OF assms])
  have fl: "magazzino_intermedio s FL_01
      = Some (ordine_scorta FL_01 0 # map (ordine_scorta FL_01) [1..<20])"
    by (simp add: m upt_uno)
  have inn: "magazzino_intermedio s IN_07
      = Some (ordine_scorta IN_07 0 # ordine_scorta IN_07 1 # map (ordine_scorta IN_07) [2..<40])"
    by (simp add: m upt_due)
  have "\<exists>ordine' s'. prelievo_materiali (ordine, s) = Some (Ritorna (ordine', s'))
          \<and> componenti_consumati ordine' = componenti_consumati ordine
               @ [ordine_scorta FL_01 0, ordine_scorta IN_07 0, ordine_scorta IN_07 1]"
    using prelievo_materiali_disponibili[OF fl inn, of ordine] by blast
  moreover have "dom (magazzino_intermedio s) = {FL_01, IN_07}"
    by (auto simp: m split: if_splits)
  ultimately show ?thesis
    by (simp add: m ordine_scorta_campi)
qed

theorem magazzino_intermedio_iniziale_witness:
  "\<exists>s. nuovo_sistema (ambiente_iniziale (\<lambda>_. 0)) None strategie_standard
          crea_configurazione_base (\<lambda>_. 0) FIFO = Inr s
     \<and> magazzino_intermedio s FL_01 = Some (map (ordine_scorta FL_01) [0..<20])
     \<and> magazzino_intermedio s IN_07 = Some (map (ordine_scorta IN_07) [0..<40])
     \<and> tempo_completamento (ordine_scorta IN_07 39) = Some 0"
proof -
  obtain s where s: "nuovo_sistema (ambiente_iniziale (\<lambda>_. 0)) None strategie_standard
      crea_configurazione_base (\<lambda>_. 0) FIFO = Inr s"
    using nuovo_sistema_base by blast
  from magazzino_intermedio_iniziale[OF s, of IN_07 39] s show ?thesis
    by blast
qed

text \<open>
  C9.  Whenever the completion time of a work order is set to 0, the lead-time accessor
  gives \<open>None\<close>; this is the case of every stock order of the initial warehouse, whose
  completion time is set.
\<close>

theorem tempo_attraversamento_zero:
  "tempo_completamento ordine = Some 0 \<Longrightarrow>
     tempo_attraversamento ordine = None
     \<and> tempo_completamento (ordine_scorta p i) \<noteq> None
     \<and> tempo_attraversamento (ordine_scorta p i) = None"
  by (simp add: tempo_attraversamento_def ordine_scorta_campi)

theorem tempo_attraversamento_zero_witness:
  "tempo_completamento (imposta_completamento 0 (nuovo_ordine ''WO-1''
      \<lparr>id_prodotto = ''FL-01'', nome_prodotto = ''FL_01''\<rparr> 0 100 None)) = Some 0
   \<and> tempo_attraversamento (imposta_completamento 0 (nuovo_ordine ''WO-1''
      \<lparr>id_prodotto = ''FL-01'', nome_prodotto = ''FL_01''\<rparr> 0 100 None)) = None
   \<and> tempo_attraversamento (ordine_scorta FL_01 0) = None"
proof -
  have h: "tempo_completamento (imposta_completamento 0 (nuovo_ordine ''WO-1''
      \<lparr>id_prodotto = ''FL-01'', nome_prodotto = ''FL_01''\<rparr> 0 100 None)) = Some 0"
    by (simp add: imposta_completamento_def)
  from tempo_attraversamento_zero[OF h, of FL_01 0] h show ?thesis
    by simp
qed

text \<open>
  C10.  \<open>calcola_tasso_utilizzo\<close> is total: on every resource and every horizon it returns
  a number and never raises \<open>ZeroDivisionError\<close>.  The number is 0 for a horizon of 0 and
  for a capacity of 0, and otherwise (processing time + setup time) / (horizon * capacity)
  * 100; recording breakdown time on the resource does not change it.  The two guards are
  what makes it total: the quotient of the source evaluated without them raises
  \<open>ZeroDivisionError\<close> for a horizon of 0 and for a capacity of 0.
\<close>

theorem calcola_tasso_utilizzo_totale:
  "calcola_tasso_utilizzo r h =
     Inr (if h = 0 \<or> capacity r = 0 then 0
          else (tempo_lavorazione r + tempo_setup r) / (h * real_of_int (capacity r)) * 100)
   \<and> calcola_tasso_utilizzo (registra_tempo_utilizzo d Guasto r) h = calcola_tasso_utilizzo r h
   \<and> tasso_senza_controlli r 0 = Inl ZeroDivisionError
   \<and> tasso_senza_controlli (r\<lparr>capacity := 0\<rparr>) h = Inl ZeroDivisionError"
  by (simp add: calcola_tasso_utilizzo_def tasso_senza_controlli_def dividi_def
        registra_tempo_utilizzo_def Let_def)

subsection \<open>The clock and the trace along a process\<close>

lemma segue_refl: "segue a [] a"
  by (simp add: segue_def senza_timeout_def)

lemma segue_trans: "segue a e1 b \<Longrightarrow> segue b e2 c \<Longrightarrow> segue a (e1 @ e2) c"
  unfolding segue_def senza_timeout_def
  by (auto intro: order_trans)

lemma segue_trans0: "segue a [] b \<Longrightarrow> segue b e c \<Longrightarrow> segue a e c"
  using segue_trans[of a "[]" b e c] by simp

lemma segue_now: "segue a e b \<Longrightarrow> now a \<le> now b"
  by (simp add: segue_def)

lemma timeout_segue: "timeout d a = Inr a' \<Longrightarrow> segue a [] a' \<and> now a' = now a + d \<and> 0 \<le> d"
  unfolding segue_def timeout_def senza_timeout_def
  by (auto split: if_splits)

lemma request_segue: "segue a [Request r p] (request r p a)"
  unfolding segue_def request_def senza_timeout_def by simp

lemma release_segue: "segue a [Release r] (release r a)"
  unfolding segue_def release_def senza_timeout_def by simp

lemma attendi_turno_lavorativo_segue_aux:
  assumes "attendi_turno_lavorativo g cfg a = Some r"
  shows "\<forall>a'. r = Inr a' \<longrightarrow> segue a [] a'"
proof (rule attendi_turno_lavorativo.raw_induct
    [where P = "\<lambda>g cfg a r. \<forall>a'. r = Inr a' \<longrightarrow> segue a [] a'", OF _ assms], goal_cases)
  case (1 att g cfg a r)
  show ?case
  proof (intro allI impI)
    fix a' assume r: "r = Inr a'"
    show "segue a [] a'"
    proof (cases "attesa_turno g cfg (now a)")
      case None
      with 1(2) r show ?thesis by (simp add: segue_refl)
    next
      case (Some d)
      show ?thesis
      proof (cases "timeout d a")
        case (Inl e)
        with 1(2) Some r show ?thesis by simp
      next
        case (Inr a1)
        with 1(2) Some r have "att g cfg a1 = Some (Inr a')" by simp
        from 1(1)[OF this] have "segue a1 [] a'" by simp
        with timeout_segue[OF Inr] show ?thesis by (blast intro: segue_trans0)
      qed
    qed
  qed
qed

lemma attendi_turno_lavorativo_segue:
  "attendi_turno_lavorativo g cfg a = Some (Inr a') \<Longrightarrow> segue a [] a'"
  using attendi_turno_lavorativo_segue_aux by blast

lemma avanza_tempo_lavorativo_segue_aux:
  assumes "avanza_tempo_lavorativo g d cfg a = Some r"
  shows "\<forall>a'. r = Inr a' \<longrightarrow> segue a [] a'"
proof (rule avanza_tempo_lavorativo.raw_induct
    [where P = "\<lambda>g d cfg a r. \<forall>a'. r = Inr a' \<longrightarrow> segue a [] a'", OF _ assms], goal_cases)
  case (1 av g d cfg a r)
  show ?case
  proof (intro allI impI)
    fix a' assume r: "r = Inr a'"
    show "segue a [] a'"
    proof (cases "1 / 1000000 < d")
      case False
      with 1(2) r show ?thesis by (simp add: segue_refl)
    next
      case True
      with 1(2) r obtain a1 where a1: "attendi_turno_lavorativo g cfg a = Some (Inr a1)"
        by (auto split: option.splits sum.splits)
      have aa1: "segue a [] a1" by (rule attendi_turno_lavorativo_segue[OF a1])
      have "segue a1 [] a'"
        using 1(2) r True a1
        by (auto simp: Let_def split: if_splits option.splits sum.splits
            dest!: attendi_turno_lavorativo_segue timeout_segue 1(1)[rule_format]
            intro: segue_trans0)
      with aa1 show ?thesis by (rule segue_trans0)
    qed
  qed
qed

lemma avanza_tempo_lavorativo_segue:
  "avanza_tempo_lavorativo g d cfg a = Some (Inr a') \<Longrightarrow> segue a [] a'"
  using avanza_tempo_lavorativo_segue_aux by blast

subsection \<open>Sequencing\<close>

lemma poi_Ritorna:
  "poi m f = Some (Ritorna y) \<Longrightarrow> \<exists>x. m = Some (Ritorna x) \<and> f x = Some (Ritorna y)"
  by (auto simp: poi_def split: option.splits esito.splits)

lemma poi_Ritorna_iff:
  "poi m f = Some (Ritorna y) \<longleftrightarrow> (\<exists>x. m = Some (Ritorna x) \<and> f x = Some (Ritorna y))"
  by (auto simp: poi_def split: option.splits esito.splits)

lemma poi_Some_Ritorna [simp]: "poi (Some (Ritorna x)) f = f x"
  by (simp add: poi_def)

lemma nell_ambiente_Ritorna:
  "nell_ambiente f s = Some (Ritorna s') \<Longrightarrow>
     \<exists>a'. f (ambiente s) = Some (Inr a') \<and> s' = s\<lparr>ambiente := a'\<rparr>"
  by (auto simp: nell_ambiente_def split: option.splits sum.splits)

lemma invariati_refl: "invariati s s"
  by (simp add: invariati_def)

lemma invariati_trans: "invariati s t \<Longrightarrow> invariati t u \<Longrightarrow> invariati s u"
  by (simp add: invariati_def)

lemma invariati_ambiente: "invariati s (s\<lparr>ambiente := a\<rparr>)"
  by (simp add: invariati_def)

lemma attendi_turno_Ritorna:
  "attendi_turno s = Some (Ritorna s') \<Longrightarrow>
     segue (ambiente s) [] (ambiente s') \<and> (\<exists>a'. s' = s\<lparr>ambiente := a'\<rparr>)"
  unfolding attendi_turno_def
  by (auto dest!: nell_ambiente_Ritorna attendi_turno_lavorativo_segue)

subsection \<open>The steps of one operation\<close>

lemma aggiorna_macchina_campi [simp]:
  "ambiente (aggiorna_macchina m f s) = ambiente s"
  "configurazione (aggiorna_macchina m f s) = configurazione s"
  "gestore_turni (aggiorna_macchina m f s) = gestore_turni s"
  "politica (aggiorna_macchina m f s) = politica s"
  "operatori (aggiorna_macchina m f s) = operatori s"
  "rng (aggiorna_macchina m f s) = rng s"
  "rng_usati (aggiorna_macchina m f s) = rng_usati s"
  "magazzino_intermedio (aggiorna_macchina m f s) = magazzino_intermedio s"
  "buffer_scorte (aggiorna_macchina m f s) = buffer_scorte s"
  by (simp_all add: aggiorna_macchina_def split: option.splits)

lemma aggiorna_operatore_campi [simp]:
  "ambiente (aggiorna_operatore t f s) = ambiente s"
  "configurazione (aggiorna_operatore t f s) = configurazione s"
  "gestore_turni (aggiorna_operatore t f s) = gestore_turni s"
  "politica (aggiorna_operatore t f s) = politica s"
  "macchinari (aggiorna_operatore t f s) = macchinari s"
  "rng (aggiorna_operatore t f s) = rng s"
  "rng_usati (aggiorna_operatore t f s) = rng_usati s"
  "magazzino_intermedio (aggiorna_operatore t f s) = magazzino_intermedio s"
  "buffer_scorte (aggiorna_operatore t f s) = buffer_scorte s"
  by (simp_all add: aggiorna_operatore_def split: option.splits)

lemma invariati_aggiorna_macchina [simp]: "invariati s (aggiorna_macchina m f s)"
  by (simp add: invariati_def aggiorna_macchina_def split: option.splits)

lemma invariati_aggiorna_operatore [simp]: "invariati s (aggiorna_operatore t f s)"
  by (simp add: invariati_def aggiorna_operatore_def split: option.splits)

lemma invariati_aggiorna_macchina_iff [simp]:
  "invariati s (aggiorna_macchina m f t) = invariati s t"
  by (simp add: invariati_def aggiorna_macchina_def split: option.splits)

lemma invariati_aggiorna_operatore_iff [simp]:
  "invariati s (aggiorna_operatore m f t) = invariati s t"
  by (simp add: invariati_def aggiorna_operatore_def split: option.splits)

lemma invariati_evento_kernel_iff [simp]:
  "invariati s (evento_kernel ev t) = invariati s t"
  by (simp add: invariati_def evento_kernel_def)

lemma invariati_evento_kernel [simp]: "invariati s (evento_kernel ev s)"
  by (simp add: invariati_def evento_kernel_def)

lemma invariati_scrivi_deposito [simp]: "invariati s (scrivi_deposito d xs s)"
  by (simp add: invariati_def scrivi_deposito_def split: deposito.splits)

lemma segue_evento_kernel:
  "\<not> is_timeout ev \<Longrightarrow> segue (ambiente s) [ev] (ambiente (evento_kernel ev s))"
  by (simp add: segue_def evento_kernel_def senza_timeout_def)

lemma random_py_campi:
  "random_py s = (u, s1) \<Longrightarrow> ambiente s1 = ambiente s \<and> invariati s s1
     \<and> macchinari s1 = macchinari s \<and> operatori s1 = operatori s"
  by (auto simp: random_py_def invariati_def)

lemma timeout_nell_ambiente:
  "nell_ambiente (\<lambda>a. Some (timeout d a)) s = Some (Ritorna s') \<Longrightarrow>
     s' = s\<lparr>ambiente := (ambiente s)\<lparr>now := now (ambiente s) + d,
                                      traccia := traccia (ambiente s) @ [Timeout d]\<rparr>\<rparr> \<and> 0 \<le> d"
  by (auto simp: nell_ambiente_def timeout_def split: if_splits)

lemma timeout_nell_ambiente_segue:
  "nell_ambiente (\<lambda>a. Some (timeout d a)) s = Some (Ritorna s') \<Longrightarrow>
     segue (ambiente s) [] (ambiente s') \<and> invariati s s' \<and> now (ambiente s') = now (ambiente s) + d
     \<and> 0 \<le> d \<and> macchinari s' = macchinari s \<and> operatori s' = operatori s"
  by (auto simp: segue_def senza_timeout_def invariati_def dest!: timeout_nell_ambiente)

lemma fase_setup_Ritorna:
  assumes "fase_setup ordine m s = Some (Ritorna s')"
  shows "segue (ambiente s) [] (ambiente s') \<and> invariati s s'"
proof -
  from assms obtain s2 where
    s2: "s2 = s \<or> (\<exists>s1 f. nell_ambiente (\<lambda>a. Some (timeout (tempo_setup_minuti (configurazione s)) a)) s
             = Some (Ritorna s1) \<and> s2 = aggiorna_macchina m f s1)"
    and s': "s' = aggiorna_macchina m (\<lambda>r. r\<lparr>ultimo_prodotto := Some (id_prodotto (prodotto ordine))\<rparr>) s2"
    unfolding fase_setup_def
    by (auto simp: Let_def poi_Ritorna_iff split: option.splits if_splits)
  from s2 have "segue (ambiente s) [] (ambiente s2) \<and> invariati s s2"
    by (auto simp: segue_refl invariati_refl dest!: timeout_nell_ambiente_segue
        intro: invariati_trans)
  then show ?thesis
    unfolding s' by (auto intro: invariati_trans)
qed

lemma logica_guasti_Ritorna:
  assumes "logica_guasti m s = Some (Ritorna s')"
  shows "segue (ambiente s) [] (ambiente s') \<and> invariati s s'"
proof -
  obtain u s1 where r: "random_py s = (u, s1)" by (cases "random_py s")
  note c = random_py_campi[OF r]
  show ?thesis
  proof (cases "u < probabilita_guasto (configurazione s1)")
    case False
    with assms r have "s' = s1" by (simp add: logica_guasti_def)
    with c show ?thesis by (simp add: segue_refl)
  next
    case True
    with assms r obtain tr s2 s3 f where
      ri: "randint (minuti_riparazione_min (configurazione s1)) (minuti_riparazione_max (configurazione s1)) s1
            = Inr (tr, s2)"
      and av: "nell_ambiente (avanza_tempo_lavorativo (gestore_turni s2) (real_of_int tr) (configurazione s2)) s2
            = Some (Ritorna s3)"
      and s': "s' = aggiorna_macchina m f s3"
      by (auto simp: logica_guasti_def Let_def poi_Ritorna_iff split: sum.splits prod.splits)
    from ri obtain u2 where "random_py s1 = (u2, s2)"
      by (auto simp: randint_def Let_def split: if_splits prod.splits)
    note c2 = random_py_campi[OF this]
    from av obtain a' where "avanza_tempo_lavorativo (gestore_turni s2) (real_of_int tr) (configurazione s2) (ambiente s2)
        = Some (Inr a')" and s3: "s3 = s2\<lparr>ambiente := a'\<rparr>"
      by (auto dest!: nell_ambiente_Ritorna)
    then have "segue (ambiente s2) [] (ambiente s3)" "invariati s2 s3"
      by (auto dest!: avanza_tempo_lavorativo_segue simp: invariati_ambiente)
    with c c2 show ?thesis
      unfolding s' by (auto intro: invariati_trans[of s s1] invariati_trans[of s1 s2])
  qed
qed

lemma durata_stocastica_campi:
  "durata_stocastica d s = (de, s1) \<Longrightarrow>
     1 / 1000 \<le> de \<and> ambiente s1 = ambiente s \<and> invariati s s1
     \<and> macchinari s1 = macchinari s \<and> operatori s1 = operatori s"
  by (auto simp: durata_stocastica_def uniform_def Let_def split: prod.splits
      dest!: random_py_campi)

lemma lavorazione_senza_operatore:
  assumes "lavorazione m d None v p s = Some (Ritorna (t', de, s'))"
  shows "segue (ambiente s) [] (ambiente s') \<and> invariati s s'
     \<and> now (ambiente s) + 1 / 1000 \<le> now (ambiente s') \<and> t' = None \<and> 1 / 1000 \<le> de"
proof -
  obtain de1 s2 where ds: "durata_stocastica d s = (de1, s2)" by (cases "durata_stocastica d s")
  note c = durata_stocastica_campi[OF ds]
  from assms ds obtain s3 where
    t: "nell_ambiente (\<lambda>a. Some (timeout de1 a)) s2 = Some (Ritorna s3)"
    and r: "t' = None" "de = de1"
      "s' = aggiorna_macchina m (registra_tempo_utilizzo de1 Lavorazione) s3"
    by (auto simp: lavorazione_def poi_Ritorna_iff)
  note ts = timeout_nell_ambiente_segue[OF t]
  from c ts show ?thesis
    unfolding r by (auto intro: invariati_trans[of s s2])
qed

lemma lavorazione_con_operatore:
  assumes "lavorazione m d (Some t) v p s = Some (Ritorna (t', de, s'))"
  shows "segue (ambiente s)
           [Request (Addetto (if v \<and> t \<noteq> SPECIALIZZATO then SPECIALIZZATO else t)) p,
            Release (Addetto (if v \<and> t \<noteq> SPECIALIZZATO then SPECIALIZZATO else t))] (ambiente s')
     \<and> invariati s s'
     \<and> now (ambiente s) + 1 / 1000 \<le> now (ambiente s')
     \<and> t' = Some (if v \<and> t \<noteq> SPECIALIZZATO then SPECIALIZZATO else t) \<and> 1 / 1000 \<le> de"
proof -
  let ?t = "if v \<and> t \<noteq> SPECIALIZZATO then SPECIALIZZATO else t"
  let ?s0 = "s\<lparr>ambiente := request (Addetto ?t) p (ambiente s)\<rparr>"
  from assms obtain s1 where a: "attendi_turno ?s0 = Some (Ritorna s1)"
    and rest: "(let (durata_effettiva, s2) = durata_stocastica d s1
                 in poi (nell_ambiente (\<lambda>a. Some (timeout durata_effettiva a)) s2)
                      (\<lambda>s3. Some (Ritorna (Some ?t, durata_effettiva,
                         evento_kernel (Release (Addetto ?t))
                           (aggiorna_macchina m (registra_tempo_utilizzo durata_effettiva Lavorazione)
                              (aggiorna_operatore ?t
                                 (registra_tempo_utilizzo durata_effettiva Lavorazione) s3))))))
               = Some (Ritorna (t', de, s'))"
    by (auto simp: lavorazione_def Let_def poi_Ritorna_iff split: option.splits)
  obtain de1 s2 where ds: "durata_stocastica d s1 = (de1, s2)" by (cases "durata_stocastica d s1")
  note c = durata_stocastica_campi[OF ds]
  from rest ds obtain s3 where
    t: "nell_ambiente (\<lambda>a. Some (timeout de1 a)) s2 = Some (Ritorna s3)"
    and r: "t' = Some ?t" "de = de1"
      "s' = evento_kernel (Release (Addetto ?t))
              (aggiorna_macchina m (registra_tempo_utilizzo de1 Lavorazione)
                 (aggiorna_operatore ?t (registra_tempo_utilizzo de1 Lavorazione) s3))"
    by (auto simp: poi_Ritorna_iff)
  note ts = timeout_nell_ambiente_segue[OF t]
  from attendi_turno_Ritorna[OF a] obtain a' where
    s1: "segue (request (Addetto ?t) p (ambiente s)) [] (ambiente s1)" "s1 = ?s0\<lparr>ambiente := a'\<rparr>"
    by auto
  have i1: "invariati s s1" unfolding s1(2) by (simp add: invariati_def)
  have "segue (ambiente s) [Request (Addetto ?t) p] (ambiente s1)"
    using segue_trans[OF request_segue s1(1)] by simp
  moreover have "segue (ambiente s1) [] (ambiente s3)"
    using c ts by simp
  ultimately have "segue (ambiente s) [Request (Addetto ?t) p] (ambiente s3)"
    using segue_trans by fastforce
  moreover have "segue (ambiente s3) [Release (Addetto ?t)] (ambiente s')"
    unfolding r using segue_evento_kernel[of "Release (Addetto ?t)"] by (simp add: evento_kernel_def)
  ultimately have sg: "segue (ambiente s) [Request (Addetto ?t) p, Release (Addetto ?t)] (ambiente s')"
    using segue_trans by fastforce
  have inv: "invariati s s'"
    unfolding r using i1 c ts by (auto intro: invariati_trans[of s s1] invariati_trans[of s1 s2])
  have "now (ambiente s) \<le> now (ambiente s1)"
    using \<open>segue (ambiente s) [Request (Addetto ?t) p] (ambiente s1)\<close> by (rule segue_now)
  moreover have "now (ambiente s') = now (ambiente s1) + de1"
    unfolding r using c ts by simp
  ultimately have "now (ambiente s) + 1 / 1000 \<le> now (ambiente s')"
    using c by linarith
  with sg inv r c show ?thesis by simp
qed

lemma lavorazione_Ritorna:
  assumes "lavorazione m d tipo_op v p s = Some (Ritorna (t', de, s'))"
  shows "segue (ambiente s)
           (case t' of None \<Rightarrow> [] | Some t \<Rightarrow> [Request (Addetto t) p, Release (Addetto t)])
           (ambiente s')
     \<and> invariati s s'
     \<and> now (ambiente s) + 1 / 1000 \<le> now (ambiente s')
     \<and> 1 / 1000 \<le> de
     \<and> t' = map_option (\<lambda>t. if v \<and> t \<noteq> SPECIALIZZATO then SPECIALIZZATO else t) tipo_op"
proof (cases tipo_op)
  case None
  with lavorazione_senza_operatore[of m d v p s t' de s'] assms show ?thesis by simp
next
  case (Some t)
  with lavorazione_con_operatore[of m d t v p s t' de s'] assms show ?thesis by auto
qed

lemma esegui_operazione_Ritorna:
  assumes "esegui_operazione ordine m d tipo_op v s = Some (Ritorna (ordine', s'))"
  shows "\<exists>de t'.
       ordine' = aggiungi_lavorazione
                   \<lparr> fase = m, durata = de, operatore = t',
                     inizio_fase = now (ambiente s') - de, fine_fase = now (ambiente s') \<rparr>
                   (traccia_fase m ordine)
     \<and> t' = map_option (\<lambda>t. if v \<and> t \<noteq> SPECIALIZZATO then SPECIALIZZATO else t) tipo_op
     \<and> 1 / 1000 \<le> de
     \<and> segue (ambiente s)
         ([Request (Macchina m) (priorita_operazione (politica s) ordine d)]
          @ (case t' of None \<Rightarrow> []
             | Some t \<Rightarrow> [Request (Addetto t) (priorita_operazione (politica s) ordine d),
                          Release (Addetto t)])
          @ [Release (Macchina m)])
         (ambiente s')
     \<and> invariati s s'
     \<and> now (ambiente s) + 1 / 1000 \<le> now (ambiente s')"
proof -
  let ?p = "priorita_operazione (politica s) ordine d"
  from assms obtain s1 s3 s4 s5 t' de s6 where
    a1: "attendi_turno s = Some (Ritorna s1)"
    and fs: "fase_setup ordine m (s1\<lparr>ambiente := request (Macchina m)
               (priorita_operazione (politica s1) ordine d) (ambiente s1)\<rparr>) = Some (Ritorna s3)"
    and a2: "attendi_turno s3 = Some (Ritorna s4)"
    and lg: "logica_guasti m s4 = Some (Ritorna s5)"
    and lv: "lavorazione m d tipo_op v (priorita_operazione (politica s1) ordine d) s5
               = Some (Ritorna (t', de, s6))"
    and o': "ordine' = aggiungi_lavorazione
                   \<lparr> fase = m, durata = de, operatore = t',
                     inizio_fase = now (ambiente s6) - de, fine_fase = now (ambiente s6) \<rparr>
                   (traccia_fase m ordine)"
    and s': "s' = evento_kernel (Release (Macchina m))
               (aggiorna_macchina m
                  (aggiungi_evento \<lparr> tipo = Lavorazione, inizio = now (ambiente s6) - de,
                      fine = now (ambiente s6), ordine_evento = Some (id_ordine ordine) \<rparr>) s6)"
    unfolding esegui_operazione_def
    by (auto simp: Let_def poi_Ritorna_iff split: option.splits prod.splits)
  from attendi_turno_Ritorna[OF a1] obtain a' where
    g1: "segue (ambiente s) [] (ambiente s1)" and e1: "s1 = s\<lparr>ambiente := a'\<rparr>" by auto
  have p1: "priorita_operazione (politica s1) ordine d = ?p" unfolding e1 by simp
  have i1: "invariati s s1" unfolding e1 by (rule invariati_ambiente)
  let ?s2 = "s1\<lparr>ambiente := request (Macchina m) ?p (ambiente s1)\<rparr>"
  have g2: "segue (ambiente s1) [Request (Macchina m) ?p] (ambiente ?s2)"
    using request_segue by simp
  have i2: "invariati s1 ?s2" by (rule invariati_ambiente)
  note f = fase_setup_Ritorna[OF fs[unfolded p1]]
  note b = attendi_turno_Ritorna[OF a2]
  note l = logica_guasti_Ritorna[OF lg]
  note w = lavorazione_Ritorna[OF lv[unfolded p1]]
  have i4: "invariati s3 s4" using b by (auto simp: invariati_ambiente)
  have inv6: "invariati s s6"
    using i1 i2 f i4 l w
    by (blast intro: invariati_trans)
  have "segue (ambiente s) [Request (Macchina m) ?p] (ambiente ?s2)"
    using segue_trans[OF g1 g2] by simp
  then have "segue (ambiente s) [Request (Macchina m) ?p] (ambiente s3)"
    using f segue_trans by fastforce
  then have "segue (ambiente s) [Request (Macchina m) ?p] (ambiente s4)"
    using b segue_trans by fastforce
  then have g5: "segue (ambiente s) [Request (Macchina m) ?p] (ambiente s5)"
    using l segue_trans by fastforce
  have g6: "segue (ambiente s)
         ([Request (Macchina m) ?p]
          @ (case t' of None \<Rightarrow> [] | Some t \<Rightarrow> [Request (Addetto t) ?p, Release (Addetto t)]))
         (ambiente s6)"
    using segue_trans[OF g5] w by blast
  have g7: "segue (ambiente s6) [Release (Macchina m)] (ambiente s')"
    unfolding s' by (simp add: segue_def evento_kernel_def senza_timeout_def)
  have g: "segue (ambiente s)
         ([Request (Macchina m) ?p]
          @ (case t' of None \<Rightarrow> [] | Some t \<Rightarrow> [Request (Addetto t) ?p, Release (Addetto t)])
          @ [Release (Macchina m)])
         (ambiente s')"
    using segue_trans[OF g6 g7] by simp
  have n: "now (ambiente s') = now (ambiente s6)" unfolding s' by simp
  have "now (ambiente s) \<le> now (ambiente s5)" using g5 by (rule segue_now)
  with w have t: "now (ambiente s) + 1 / 1000 \<le> now (ambiente s')"
    unfolding n by linarith
  have inv: "invariati s s'" unfolding s' using inv6 by simp
  show ?thesis
    using o' w g inv t unfolding n by blast
qed

subsection \<open>The nominal run of an operation\<close>

lemma attendi_in_turno:
  "attesa_turno g cfg (now a) = None \<Longrightarrow> attendi_turno_lavorativo g cfg a = Some (Inr a)"
  by (subst attendi_turno_lavorativo.simps) simp

lemma attendi_turno_in_turno:
  "attesa_turno (gestore_turni s) (configurazione s) (now (ambiente s)) = None \<Longrightarrow>
     attendi_turno s = Some (Ritorna s)"
  by (simp add: attendi_turno_def nell_ambiente_def attendi_in_turno)

lemma request_campi [simp]:
  "concessioni (request r p a) = concessioni a"
  "traccia (request r p a) = traccia a @ [Request r p]"
  by (simp_all add: request_def)

lemma request_now: "concessioni a = (\<lambda>_. 0) \<Longrightarrow> 0 \<le> now a \<Longrightarrow> now (request r p a) = now a"
  by (simp add: request_def)

lemma registra_ultimo_prodotto [simp]:
  "ultimo_prodotto (registra_tempo_utilizzo d t r) = ultimo_prodotto r"
  by (simp add: registra_tempo_utilizzo_def Let_def split: tipo_evento.splits)

lemma aggiungi_evento_ultimo_prodotto [simp]:
  "ultimo_prodotto (aggiungi_evento e r) = ultimo_prodotto r"
  by (simp add: aggiungi_evento_def)

lemma nominale_evento_kernel: "nominale i s \<Longrightarrow> nominale i (evento_kernel ev s)"
  by (simp add: nominale_def evento_kernel_def)

lemma nominale_aggiorna_macchina:
  assumes "nominale i s" and "\<And>r. ultimo_prodotto (f r) = ultimo_prodotto r"
  shows "nominale i (aggiorna_macchina m f s)"
proof -
  from assms(1) obtain mac where mac: "macchinari s m = Some mac"
    "ultimo_prodotto mac = None \<or> ultimo_prodotto mac = Some i"
    unfolding nominale_def by blast
  have "\<exists>mac'. macchinari (aggiorna_macchina m f s) m' = Some mac'
           \<and> (ultimo_prodotto mac' = None \<or> ultimo_prodotto mac' = Some i)" for m'
  proof (cases "m' = m")
    case True
    with mac assms(2) show ?thesis by (simp add: aggiorna_macchina_def)
  next
    case False
    with mac assms(1) show ?thesis by (simp add: aggiorna_macchina_def nominale_def)
  qed
  with assms(1) show ?thesis
    unfolding nominale_def by simp
qed

lemma esegui_operazione_nominale:
  assumes n: "nominale (id_prodotto (prodotto ordine)) s"
    and d: "1 / 1000 \<le> d"
    and t: "attesa_turno (gestore_turni s) (configurazione s) (now (ambiente s)) = None"
  shows "\<exists>s'. esegui_operazione ordine m d (Some tipo_op) False s
         = Some (Ritorna (aggiungi_lavorazione
               \<lparr> fase = m, durata = d, operatore = Some tipo_op,
                 inizio_fase = now (ambiente s), fine_fase = now (ambiente s) + d \<rparr>
               (traccia_fase m ordine), s'))
     \<and> now (ambiente s') = now (ambiente s) + d
     \<and> nominale (id_prodotto (prodotto ordine)) s'"
proof -
  let ?p = "priorita_operazione (politica s) ordine d"
  let ?id = "id_prodotto (prodotto ordine)"
  from n obtain mac ope where mac: "macchinari s m = Some mac"
    "ultimo_prodotto mac = None \<or> ultimo_prodotto mac = Some ?id"
    and ope: "operatori s tipo_op = Some ope"
    unfolding nominale_def by blast
  from n have c0: "concessioni (ambiente s) = (\<lambda>_. 0)" "0 \<le> now (ambiente s)"
    and g: "probabilita_guasto (configurazione s) \<le> rng s (rng_usati s)"
    and v: "fattore_variabilita_processo (configurazione s) = 0"
    unfolding nominale_def by auto
  note rn = request_now[OF c0]
  have a1: "attendi_turno s = Some (Ritorna s)"
    by (rule attendi_turno_in_turno[OF t])
  let ?s2 = "s\<lparr>ambiente := request (Macchina m) ?p (ambiente s)\<rparr>"
  let ?s3 = "aggiorna_macchina m (\<lambda>r. r\<lparr>ultimo_prodotto := Some ?id\<rparr>) ?s2"
  have fs: "fase_setup ordine m ?s2 = Some (Ritorna ?s3)"
    using mac by (auto simp: fase_setup_def)
  have a3: "attendi_turno ?s3 = Some (Ritorna ?s3)"
    by (rule attendi_turno_in_turno) (simp add: rn t)
  let ?s5 = "?s3\<lparr>rng_usati := Suc (rng_usati s)\<rparr>"
  have lg: "logica_guasti m ?s3 = Some (Ritorna ?s5)"
    using g by (simp add: logica_guasti_def random_py_def aggiorna_macchina_def mac)
  let ?s5r = "?s5\<lparr>ambiente := request (Addetto tipo_op) ?p (ambiente ?s5)\<rparr>"
  have now5: "now (ambiente ?s5r) = now (ambiente s)" "concessioni (ambiente ?s5r) = (\<lambda>_. 0)"
    using c0 by (simp_all add: request_def)
  have a5: "attendi_turno ?s5r = Some (Ritorna ?s5r)"
    by (rule attendi_turno_in_turno) (use now5 t in simp)
  have ds: "durata_stocastica d ?s5r = (d, ?s5r\<lparr>rng_usati := Suc (Suc (rng_usati s))\<rparr>)"
    using d v by (simp add: durata_stocastica_def uniform_def random_py_def Let_def max_def)
  have op5: "operatori ?s5 tipo_op = Some ope"
    using ope by simp
  obtain s6 where lv: "lavorazione m d (Some tipo_op) False ?p ?s5 = Some (Ritorna (Some tipo_op, d, s6))"
    and now6: "now (ambiente s6) = now (ambiente s) + d"
    and n6: "nominale ?id s6"
  proof
    let ?s6 = "evento_kernel (Release (Addetto tipo_op))
                 (aggiorna_macchina m (registra_tempo_utilizzo d Lavorazione)
                    (aggiorna_operatore tipo_op (registra_tempo_utilizzo d Lavorazione)
                       (?s5r\<lparr>rng_usati := Suc (Suc (rng_usati s)),
                             ambiente := (ambiente ?s5r)\<lparr>now := now (ambiente ?s5r) + d,
                                traccia := traccia (ambiente ?s5r) @ [Timeout d]\<rparr>\<rparr>)))"
    have to: "nell_ambiente (\<lambda>a. Some (timeout d a)) (?s5r\<lparr>rng_usati := Suc (Suc (rng_usati s))\<rparr>)
        = Some (Ritorna (?s5r\<lparr>rng_usati := Suc (Suc (rng_usati s)),
                             ambiente := (ambiente ?s5r)\<lparr>now := now (ambiente ?s5r) + d,
                                traccia := traccia (ambiente ?s5r) @ [Timeout d]\<rparr>\<rparr>))"
      using d by (simp add: nell_ambiente_def timeout_def)
    show "lavorazione m d (Some tipo_op) False ?p ?s5 = Some (Ritorna (Some tipo_op, d, ?s6))"
      unfolding lavorazione_def using op5 a5 ds to by (simp add: Let_def)
    show "now (ambiente ?s6) = now (ambiente s) + d"
      using now5 by simp
    show "nominale ?id ?s6"
      using n c0 mac ope d
      unfolding nominale_def
      by (auto simp: aggiorna_macchina_def aggiorna_operatore_def evento_kernel_def request_def)
  qed
  let ?s7 = "aggiorna_macchina m
               (aggiungi_evento \<lparr> tipo = Lavorazione, inizio = now (ambiente s6) - d,
                    fine = now (ambiente s6), ordine_evento = Some (id_ordine ordine) \<rparr>) s6"
  let ?o' = "aggiungi_lavorazione
               \<lparr> fase = m, durata = d, operatore = Some tipo_op,
                 inizio_fase = now (ambiente s6) - d, fine_fase = now (ambiente s6) \<rparr>
               (traccia_fase m ordine)"
  have "esegui_operazione ordine m d (Some tipo_op) False s
      = Some (Ritorna (?o', evento_kernel (Release (Macchina m)) ?s7))"
    unfolding esegui_operazione_def using mac(1) a1 fs a3 lg lv
    by (simp add: Let_def)
  moreover have "nominale ?id (evento_kernel (Release (Macchina m)) ?s7)"
    using n6 by (intro nominale_evento_kernel nominale_aggiorna_macchina) simp_all
  ultimately show ?thesis
    using now6 by simp
qed

subsection \<open>Work orders along a routing\<close>

lemma campi_traccia_fase [simp]:
  "id_ordine (traccia_fase m ordine) = id_ordine ordine"
  "prodotto (traccia_fase m ordine) = prodotto ordine"
  "tempo_creazione (traccia_fase m ordine) = tempo_creazione ordine"
  "scadenza (traccia_fase m ordine) = scadenza ordine"
  "tempo_completamento (traccia_fase m ordine) = tempo_completamento ordine"
  "cronologia_fasi (traccia_fase m ordine) = cronologia_fasi ordine @ [m]"
  "log_lavorazioni (traccia_fase m ordine) = log_lavorazioni ordine"
  "componenti_consumati (traccia_fase m ordine) = componenti_consumati ordine"
  by (simp_all add: traccia_fase_def)

lemma campi_aggiungi_lavorazione [simp]:
  "id_ordine (aggiungi_lavorazione v ordine) = id_ordine ordine"
  "prodotto (aggiungi_lavorazione v ordine) = prodotto ordine"
  "tempo_creazione (aggiungi_lavorazione v ordine) = tempo_creazione ordine"
  "scadenza (aggiungi_lavorazione v ordine) = scadenza ordine"
  "tempo_completamento (aggiungi_lavorazione v ordine) = tempo_completamento ordine"
  "cronologia_fasi (aggiungi_lavorazione v ordine) = cronologia_fasi ordine"
  "log_lavorazioni (aggiungi_lavorazione v ordine) = log_lavorazioni ordine @ [v]"
  "componenti_consumati (aggiungi_lavorazione v ordine) = componenti_consumati ordine"
  by (simp_all add: aggiungi_lavorazione_def)

lemma campi_aggiungi_componente [simp]:
  "id_ordine (aggiungi_componente c ordine) = id_ordine ordine"
  "prodotto (aggiungi_componente c ordine) = prodotto ordine"
  "tempo_creazione (aggiungi_componente c ordine) = tempo_creazione ordine"
  "scadenza (aggiungi_componente c ordine) = scadenza ordine"
  "tempo_completamento (aggiungi_componente c ordine) = tempo_completamento ordine"
  "cronologia_fasi (aggiungi_componente c ordine) = cronologia_fasi ordine"
  "log_lavorazioni (aggiungi_componente c ordine) = log_lavorazioni ordine"
  by (simp_all add: aggiungi_componente_def)

lemma campi_imposta_completamento [simp]:
  "id_ordine (imposta_completamento t ordine) = id_ordine ordine"
  "prodotto (imposta_completamento t ordine) = prodotto ordine"
  "tempo_creazione (imposta_completamento t ordine) = tempo_creazione ordine"
  "scadenza (imposta_completamento t ordine) = scadenza ordine"
  "tempo_completamento (imposta_completamento t ordine) = Some t"
  "cronologia_fasi (imposta_completamento t ordine) = cronologia_fasi ordine"
  "log_lavorazioni (imposta_completamento t ordine) = log_lavorazioni ordine"
  "componenti_consumati (imposta_completamento t ordine) = componenti_consumati ordine"
  by (simp_all add: imposta_completamento_def)

lemma lavorato_refl: "lavorato os [] os"
  by (simp add: lavorato_def invariati_refl)

lemma lavorato_trans: "lavorato a f1 b \<Longrightarrow> lavorato b f2 c \<Longrightarrow> lavorato a (f1 @ f2) c"
  unfolding lavorato_def
  by (auto intro: invariati_trans simp: add_divide_distrib)

lemma operazione_lavorato:
  assumes "operazione m p t v os = Some (Ritorna os')"
  shows "lavorato os [m] os'"
proof -
  obtain ordine s ordine' s' where os: "os = (ordine, s)" "os' = (ordine', s')"
    by (cases os, cases os')
  from assms obtain d where
    "esegui_operazione ordine m d (Some t) v s = Some (Ritorna (ordine', s'))"
    unfolding os operazione_def by (auto split: sum.splits)
  from esegui_operazione_Ritorna[OF this] show ?thesis
    unfolding os lavorato_def by auto
qed

lemma gestisci_rilavorazione_lavorato:
  assumes "gestisci_rilavorazione os = Some (Ritorna os')"
  shows "\<exists>fasi. lavorato os fasi os' \<and> (fasi = [] \<or> fasi = [RETTIFICA, BANCO_CONTROLLO])"
proof -
  obtain u s1 where r: "random_py (snd os) = (u, s1)" by (cases "random_py (snd os)")
  note c = random_py_campi[OF r]
  have l0: "lavorato os [] (fst os, s1)"
    using c by (simp add: lavorato_def)
  show ?thesis
  proof (cases "u < probabilita_rifacimento (configurazione s1)")
    case False
    with assms r have "os' = (fst os, s1)"
      by (simp add: gestisci_rilavorazione_def Let_def)
    with l0 show ?thesis by blast
  next
    case True
    with assms r obtain p os1 where
      "operazione RETTIFICA p GENERICO False (fst os, s1) = Some (Ritorna os1)"
      "operazione BANCO_CONTROLLO p GENERICO False os1 = Some (Ritorna os')"
      by (auto simp: gestisci_rilavorazione_def Let_def poi_Ritorna_iff split: option.splits)
    then have "lavorato (fst os, s1) [RETTIFICA] os1" "lavorato os1 [BANCO_CONTROLLO] os'"
      by (auto dest: operazione_lavorato)
    with l0 have "lavorato os ([] @ [RETTIFICA] @ [BANCO_CONTROLLO]) os'"
      by (blast intro: lavorato_trans)
    then show ?thesis by auto
  qed
qed

lemma deposita_lavorato:
  "deposita d os = Some (Ritorna os') \<Longrightarrow> lavorato os [] os'"
  by (auto simp: deposita_def lavorato_def store_put_def invariati_refl split: option.splits)

lemma preleva_lavorato:
  "preleva p os = Some (Ritorna os') \<Longrightarrow> lavorato os [] os'"
  by (auto simp: preleva_def store_get_def lavorato_def poi_Ritorna_iff invariati_ambiente
      split: option.splits list.splits)

lemma prelievo_materiali_lavorato:
  assumes "prelievo_materiali os = Some (Ritorna os')"
  shows "lavorato os [] os'"
proof -
  from assms obtain os1 where
    1: "(if FL_01 \<in> dom (magazzino_intermedio (snd os)) then preleva FL_01 os else Some (Ritorna os))
          = Some (Ritorna os1)"
    and 2: "(if IN_07 \<in> dom (magazzino_intermedio (snd os1))
             then poi (preleva IN_07 os1) (preleva IN_07) else Some (Ritorna os1))
          = Some (Ritorna os')"
    unfolding prelievo_materiali_def poi_Ritorna_iff by blast
  from 1 have a: "lavorato os [] os1"
    by (auto simp: lavorato_refl dest: preleva_lavorato split: if_splits)
  have b: "lavorato os1 [] os'"
  proof (cases "IN_07 \<in> dom (magazzino_intermedio (snd os1))")
    case False
    with 2 show ?thesis by (simp add: lavorato_refl)
  next
    case True
    with 2 obtain os2 where "preleva IN_07 os1 = Some (Ritorna os2)"
      "preleva IN_07 os2 = Some (Ritorna os')"
      by (auto simp: poi_Ritorna_iff)
    then have "lavorato os1 [] os2" "lavorato os2 [] os'"
      by (auto dest: preleva_lavorato)
    then show ?thesis
      using lavorato_trans[of os1 "[]" os2 "[]" os'] by simp
  qed
  from a b show ?thesis
    using lavorato_trans[of os "[]" os1 "[]" os'] by simp
qed

lemma completa_Ritorna:
  "completa os = Some (Ritorna os') \<Longrightarrow>
     os' = (imposta_completamento (now (ambiente (snd os))) (fst os), snd os)"
  by (simp add: completa_def)

subsection \<open>The routings\<close>

lemma lavorato_poi:
  assumes "poi m f = Some (Ritorna os')"
    and "\<And>os1. m = Some (Ritorna os1) \<Longrightarrow> lavorato os f1 os1"
    and "\<And>os1. f os1 = Some (Ritorna os') \<Longrightarrow> lavorato os1 f2 os'"
  shows "lavorato os (f1 @ f2) os'"
  using assms by (auto simp: poi_Ritorna_iff intro: lavorato_trans)

lemma esegui_processo_FL01_Ritorna:
  assumes "esegui_processo_FL01 ordine s = Some (Ritorna (ordine', s'))"
  shows "\<exists>o1. lavorato (ordine, s) [TRONCATRICE, TRAPANO, BANCO_CONTROLLO, BANCO_CONTROLLO] (o1, s')
     \<and> ordine' = imposta_completamento (now (ambiente s')) o1"
proof -
  from assms obtain os1 os2 os3 os4 os5 os6 where
    p: "operazione TRONCATRICE FL_01 GENERICO False (ordine, s) = Some (Ritorna os1)"
       "operazione TRAPANO FL_01 GENERICO False os1 = Some (Ritorna os2)"
       "operazione BANCO_CONTROLLO FL_01 GENERICO False os2 = Some (Ritorna os3)"
       "operazione BANCO_CONTROLLO FL_01 GENERICO False os3 = Some (Ritorna os4)"
       "deposita (Scorte FL_01) os4 = Some (Ritorna os5)"
       "deposita (Intermedio FL_01) os5 = Some (Ritorna os6)"
       "completa os6 = Some (Ritorna (ordine', s'))"
    unfolding esegui_processo_FL01_def poi_Ritorna_iff by blast
  note l = operazione_lavorato[OF p(1)] operazione_lavorato[OF p(2)] operazione_lavorato[OF p(3)]
    operazione_lavorato[OF p(4)] deposita_lavorato[OF p(5)] deposita_lavorato[OF p(6)]
  have "lavorato (ordine, s) ([TRONCATRICE] @ [TRAPANO] @ [BANCO_CONTROLLO] @ [BANCO_CONTROLLO] @ [] @ []) os6"
    using l by (blast intro: lavorato_trans)
  with completa_Ritorna[OF p(7)] show ?thesis
    by (cases os6) auto
qed

lemma esegui_processo_PN03_Ritorna:
  assumes "esegui_processo_PN03 ordine s = Some (Ritorna (ordine', s'))"
  shows "\<exists>o1 f1 f2. lavorato (ordine, s)
        ([TRONCATRICE, TORNIO, RETTIFICA, BANCO_CONTROLLO] @ f1 @ f2) (o1, s')
     \<and> (f1 = [] \<or> f1 = [RETTIFICA, BANCO_CONTROLLO])
     \<and> (f2 = [] \<or> f2 = [RETTIFICA, BANCO_CONTROLLO])
     \<and> ordine' = imposta_completamento (now (ambiente s')) o1"
proof -
  from assms obtain os1 os2 os3 os4 os5 os6 os7 where
    p: "operazione TRONCATRICE PN_03 GENERICO False (ordine, s) = Some (Ritorna os1)"
       "operazione TORNIO PN_03 (tipo_operatore_speciale (snd os1))
          (richiede_specialista (configurazione (snd os1))) os1 = Some (Ritorna os2)"
       "operazione RETTIFICA PN_03 GENERICO False os2 = Some (Ritorna os3)"
       "operazione BANCO_CONTROLLO PN_03 GENERICO False os3 = Some (Ritorna os4)"
       "gestisci_rilavorazione os4 = Some (Ritorna os5)"
       "gestisci_rilavorazione os5 = Some (Ritorna os6)"
       "deposita (Scorte PN_03) os6 = Some (Ritorna os7)"
       "completa os7 = Some (Ritorna (ordine', s'))"
    unfolding esegui_processo_PN03_def poi_Ritorna_iff by blast
  from gestisci_rilavorazione_lavorato[OF p(5)] obtain f1 where
    f1: "lavorato os4 f1 os5" "f1 = [] \<or> f1 = [RETTIFICA, BANCO_CONTROLLO]" by blast
  from gestisci_rilavorazione_lavorato[OF p(6)] obtain f2 where
    f2: "lavorato os5 f2 os6" "f2 = [] \<or> f2 = [RETTIFICA, BANCO_CONTROLLO]" by blast
  note l = operazione_lavorato[OF p(1)] operazione_lavorato[OF p(2)] operazione_lavorato[OF p(3)]
    operazione_lavorato[OF p(4)] f1(1) f2(1) deposita_lavorato[OF p(7)]
  have "lavorato (ordine, s)
      ([TRONCATRICE] @ [TORNIO] @ [RETTIFICA] @ [BANCO_CONTROLLO] @ f1 @ f2 @ []) os7"
    using l by (blast intro: lavorato_trans)
  with completa_Ritorna[OF p(8)] f1(2) f2(2) show ?thesis
    by (cases os7) auto
qed

lemma esegui_processo_IN07_Ritorna:
  assumes "esegui_processo_IN07 ordine s = Some (Ritorna (ordine', s'))"
  shows "\<exists>o1 f1 f2. lavorato (ordine, s)
        ([TRONCATRICE, FRESA, RETTIFICA, FORNO, BANCO_CONTROLLO] @ f1 @ f2) (o1, s')
     \<and> (f1 = [] \<or> f1 = [RETTIFICA, BANCO_CONTROLLO])
     \<and> (f2 = [] \<or> f2 = [RETTIFICA, BANCO_CONTROLLO])
     \<and> ordine' = imposta_completamento (now (ambiente s')) o1"
proof -
  from assms obtain os1 os2 os3 os4 os5 os6 os7 os8 os9 where
    p: "operazione TRONCATRICE IN_07 GENERICO False (ordine, s) = Some (Ritorna os1)"
       "operazione FRESA IN_07 (tipo_operatore_speciale (snd os1))
          (richiede_specialista (configurazione (snd os1))) os1 = Some (Ritorna os2)"
       "operazione RETTIFICA IN_07 GENERICO False os2 = Some (Ritorna os3)"
       "operazione FORNO IN_07 GENERICO False os3 = Some (Ritorna os4)"
       "operazione BANCO_CONTROLLO IN_07 GENERICO False os4 = Some (Ritorna os5)"
       "gestisci_rilavorazione os5 = Some (Ritorna os6)"
       "gestisci_rilavorazione os6 = Some (Ritorna os7)"
       "deposita (Scorte IN_07) os7 = Some (Ritorna os8)"
       "deposita (Intermedio IN_07) os8 = Some (Ritorna os9)"
       "completa os9 = Some (Ritorna (ordine', s'))"
    unfolding esegui_processo_IN07_def poi_Ritorna_iff by blast
  from gestisci_rilavorazione_lavorato[OF p(6)] obtain f1 where
    f1: "lavorato os5 f1 os6" "f1 = [] \<or> f1 = [RETTIFICA, BANCO_CONTROLLO]" by blast
  from gestisci_rilavorazione_lavorato[OF p(7)] obtain f2 where
    f2: "lavorato os6 f2 os7" "f2 = [] \<or> f2 = [RETTIFICA, BANCO_CONTROLLO]" by blast
  note l = operazione_lavorato[OF p(1)] operazione_lavorato[OF p(2)] operazione_lavorato[OF p(3)]
    operazione_lavorato[OF p(4)] operazione_lavorato[OF p(5)] f1(1) f2(1)
    deposita_lavorato[OF p(8)] deposita_lavorato[OF p(9)]
  have "lavorato (ordine, s)
      ([TRONCATRICE] @ [FRESA] @ [RETTIFICA] @ [FORNO] @ [BANCO_CONTROLLO] @ f1 @ f2 @ [] @ []) os9"
    using l by (blast intro: lavorato_trans)
  with completa_Ritorna[OF p(10)] f1(2) f2(2) show ?thesis
    by (cases os9) auto
qed

lemma esegui_processo_RD01_Ritorna:
  assumes "esegui_processo_RD01 ordine s = Some (Ritorna (ordine', s'))"
  shows "\<exists>o1. lavorato (ordine, s) [BANCO_ASSEMBLAGGIO, BANCO_COLLAUDO] (o1, s')
     \<and> ordine' = imposta_completamento (now (ambiente s')) o1"
proof -
  from assms obtain os1 os2 os3 where
    p: "prelievo_materiali (ordine, s) = Some (Ritorna os1)"
       "operazione BANCO_ASSEMBLAGGIO RD_01 GENERICO False os1 = Some (Ritorna os2)"
       "operazione BANCO_COLLAUDO RD_01 GENERICO False os2 = Some (Ritorna os3)"
       "completa os3 = Some (Ritorna (ordine', s'))"
    unfolding esegui_processo_RD01_def poi_Ritorna_iff by blast
  note l = prelievo_materiali_lavorato[OF p(1)] operazione_lavorato[OF p(2)]
    operazione_lavorato[OF p(3)]
  have "lavorato (ordine, s) ([] @ [BANCO_ASSEMBLAGGIO] @ [BANCO_COLLAUDO]) os3"
    using l by (blast intro: lavorato_trans)
  with completa_Ritorna[OF p(4)] show ?thesis
    by (cases os3) auto
qed

lemma esegui_processo_Ritorna:
  assumes "esegui_processo strategia ordine s = Some (Ritorna (ordine', s'))"
  shows "\<exists>o1 fasi. fasi \<noteq> [] \<and> lavorato (ordine, s) fasi (o1, s')
     \<and> ordine' = imposta_completamento (now (ambiente s')) o1"
proof (cases strategia)
  case StrategiaFL01
  with assms esegui_processo_FL01_Ritorna[of ordine s ordine' s'] show ?thesis by auto
next
  case StrategiaPN03
  with assms esegui_processo_PN03_Ritorna[of ordine s ordine' s'] show ?thesis
    by simp (metis append_is_Nil_conv list.distinct(1))
next
  case StrategiaIN07
  with assms esegui_processo_IN07_Ritorna[of ordine s ordine' s'] show ?thesis
    by simp (metis append_is_Nil_conv list.distinct(1))
next
  case StrategiaRD01
  with assms esegui_processo_RD01_Ritorna[of ordine s ordine' s'] show ?thesis by auto
qed

subsection \<open>The daily caps\<close>

lemma attesa_capacita_Ritorna_aux:
  assumes "attesa_capacita id_p s = Some r"
  shows "\<forall>s'. r = Ritorna s' \<longrightarrow> now (ambiente s) \<le> now (ambiente s')
           \<and> configurazione s' = configurazione s \<and> strategie s' = strategie s"
proof (rule attesa_capacita.raw_induct
    [where P = "\<lambda>id_p s r. \<forall>s'. r = Ritorna s' \<longrightarrow> now (ambiente s) \<le> now (ambiente s')
           \<and> configurazione s' = configurazione s \<and> strategie s' = strategie s", OF _ assms],
    goal_cases)
  case (1 att id_p s r)
  have ag: "ambiente (aggiorna_giorno s) = ambiente s"
    "configurazione (aggiorna_giorno s) = configurazione s"
    "strategie (aggiorna_giorno s) = strategie s"
    by (simp_all add: aggiorna_giorno_def)
  show ?case
  proof (intro allI impI)
    fix s' assume r: "r = Ritorna s'"
    show "now (ambiente s) \<le> now (ambiente s')
           \<and> configurazione s' = configurazione s \<and> strategie s' = strategie s"
    proof (cases "capacita_esaurita id_p (aggiorna_giorno s)")
      case False
      with 1(2) r show ?thesis by (auto simp: Let_def prenota_def ag)
    next
      case True
      with 1(2) r obtain a where
        t: "timeout (tempo_attesa_domani (aggiorna_giorno s)) (ambiente (aggiorna_giorno s)) = Inr a"
        and c: "att id_p ((aggiorna_giorno s)\<lparr>ambiente := a\<rparr>) = Some (Ritorna s')"
        by (auto simp: Let_def split: sum.splits)
      from 1(1)[OF c] timeout_segue[OF t] show ?thesis
        by (auto simp: ag)
    qed
  qed
qed

lemma attesa_capacita_Ritorna:
  "attesa_capacita id_p s = Some (Ritorna s') \<Longrightarrow>
     now (ambiente s) \<le> now (ambiente s')
     \<and> configurazione s' = configurazione s \<and> strategie s' = strategie s"
  using attesa_capacita_Ritorna_aux by blast

lemma elabora_ordine_Ritorna:
  assumes "elabora_ordine ordine s = Some (Ritorna (ordine', s'))"
  shows "\<exists>s1 strategia. now (ambiente s) \<le> now (ambiente s1)
     \<and> strategie s (id_prodotto (prodotto ordine)) = Some strategia
     \<and> esegui_processo strategia ordine s1 = Some (Ritorna (ordine', s'))"
proof -
  from assms obtain s1 where
    1: "(if limiti_produzione_giornaliera (configurazione s) \<noteq> None
             \<or> limite_produzione_totale_giornaliera (configurazione s) \<noteq> None
         then attesa_capacita (id_prodotto (prodotto ordine)) s else Some (Ritorna s))
        = Some (Ritorna s1)"
    and 2: "(case strategie s1 (id_prodotto (prodotto ordine)) of
               None \<Rightarrow> Some (Solleva (ValueError ''Routing Sheet non definita''))
             | Some strategia \<Rightarrow> esegui_processo strategia ordine s1)
            = Some (Ritorna (ordine', s'))"
    unfolding elabora_ordine_def Let_def poi_Ritorna_iff by blast
  from 1 have "now (ambiente s) \<le> now (ambiente s1) \<and> strategie s1 = strategie s"
    by (auto split: if_splits dest: attesa_capacita_Ritorna)
  with 2 show ?thesis
    by (auto split: option.splits)
qed

lemma completato_dopo_inizio:
  assumes "esegui_processo strategia ordine s = Some (Ritorna (ordine', s'))"
  shows "tempo_completamento ordine' = Some (now (ambiente s'))
     \<and> now (ambiente s) < now (ambiente s')
     \<and> tempo_creazione ordine' = tempo_creazione ordine"
proof -
  from esegui_processo_Ritorna[OF assms] obtain o1 fasi where
    f: "fasi \<noteq> []" "lavorato (ordine, s) fasi (o1, s')"
    "ordine' = imposta_completamento (now (ambiente s')) o1" by blast
  from f(1) have "0 < real (length fasi) / 1000" by simp
  moreover from f(2) have "now (ambiente s) + real (length fasi) / 1000 \<le> now (ambiente s')"
    unfolding lavorato_def by simp
  ultimately have "now (ambiente s) < now (ambiente s')"
    by linarith
  with f show ?thesis by (simp add: lavorato_def)
qed

subsection \<open>The concrete scenario\<close>

lemma py_round_int [simp]: "py_round (real_of_int k) = k"
  by (simp add: py_round_def Let_def)

lemma in_turno_lunedi:
  assumes "480 \<le> k" "k < 1020"
  shows "attesa_turno (Some gestore_lunedi) crea_configurazione_base (real_of_int k) = None"
proof -
  have "\<lfloor>real_of_int k / 1440\<rfloor> = 0"
    using assms by (simp add: floor_eq_iff)
  moreover have "k mod 1440 = k"
    using assms by simp
  ultimately show ?thesis
    using assms
    by (simp add: attesa_turno_def ottieni_data_corrente_def gestore_lunedi_def
        crea_configurazione_base_def MINUTI_GIORNALIERI_def Let_def)
qed

lemma sistema_al_campi:
  assumes "sistema_al t pol = Inr s"
  shows "ambiente s = ambiente_al t" "gestore_turni s = Some gestore_lunedi"
    "strategie s = strategie_standard" "configurazione s = crea_configurazione_base"
    "rng s = estrazioni_costanti" "rng_usati s = 0" "politica s = pol"
    "buffer_scorte s = [FL_01 \<mapsto> [], PN_03 \<mapsto> [], IN_07 \<mapsto> [], RD_01 \<mapsto> []]"
    "macchinari s = (\<lambda>m. Some \<lparr> nome = Macchina m,
        capacity = the (capacita_base (Macchina m)), tempo_occupato_totale = 0,
        tempo_lavorazione = 0, tempo_setup = 0, tempo_guasto = 0, log_eventi = [],
        ultimo_prodotto = None \<rparr>)"
    "operatori s = (\<lambda>m. Some \<lparr> nome = Addetto m,
        capacity = the (capacita_base (Addetto m)), tempo_occupato_totale = 0,
        tempo_lavorazione = 0, tempo_setup = 0, tempo_guasto = 0, log_eventi = [],
        ultimo_prodotto = None \<rparr>)"
proof -
  have ms: "crea_risorse crea_configurazione_base Macchina tutti_i_macchinari Map.empty
     = Inr (\<lambda>m. Some \<lparr> nome = Macchina m,
        capacity = the (capacita_base (Macchina m)), tempo_occupato_totale = 0,
        tempo_lavorazione = 0, tempo_setup = 0, tempo_guasto = 0, log_eventi = [],
        ultimo_prodotto = None \<rparr>)"
    apply (simp add: tutti_i_macchinari_def nuova_risorsa_def crea_configurazione_base_def
        capacita_base_def Let_def)
    apply (rule ext)
    subgoal for m by (cases m) simp_all
    done
  have os: "crea_risorse crea_configurazione_base Addetto tutti_gli_operatori Map.empty
     = Inr (\<lambda>m. Some \<lparr> nome = Addetto m,
        capacity = the (capacita_base (Addetto m)), tempo_occupato_totale = 0,
        tempo_lavorazione = 0, tempo_setup = 0, tempo_guasto = 0, log_eventi = [],
        ultimo_prodotto = None \<rparr>)"
    apply (simp add: tutti_gli_operatori_def nuova_risorsa_def crea_configurazione_base_def
        capacita_base_def Let_def)
    apply (rule ext)
    subgoal for m by (cases m) simp_all
    done
  from assms ms os
  show "ambiente s = ambiente_al t" "gestore_turni s = Some gestore_lunedi"
    "strategie s = strategie_standard" "configurazione s = crea_configurazione_base"
    "rng s = estrazioni_costanti" "rng_usati s = 0" "politica s = pol"
    "buffer_scorte s = [FL_01 \<mapsto> [], PN_03 \<mapsto> [], IN_07 \<mapsto> [], RD_01 \<mapsto> []]"
    "macchinari s = (\<lambda>m. Some \<lparr> nome = Macchina m,
        capacity = the (capacita_base (Macchina m)), tempo_occupato_totale = 0,
        tempo_lavorazione = 0, tempo_setup = 0, tempo_guasto = 0, log_eventi = [],
        ultimo_prodotto = None \<rparr>)"
    "operatori s = (\<lambda>m. Some \<lparr> nome = Addetto m,
        capacity = the (capacita_base (Addetto m)), tempo_occupato_totale = 0,
        tempo_lavorazione = 0, tempo_setup = 0, tempo_guasto = 0, log_eventi = [],
        ultimo_prodotto = None \<rparr>)"
    by (auto simp: sistema_al_def nuovo_sistema_def Let_def)
qed

lemma sistema_al_esiste: "\<exists>s. sistema_al t pol = Inr s"
  by (simp add: sistema_al_def nuovo_sistema_def tutti_i_macchinari_def tutti_gli_operatori_def
      nuova_risorsa_def crea_configurazione_base_def capacita_base_def Let_def)

lemma sistema_al_nominale:
  assumes "sistema_al t pol = Inr s" "0 \<le> t"
  shows "nominale ident s"
  using assms(2) unfolding nominale_def sistema_al_campi[OF assms(1)]
  by (simp add: ambiente_al_def nessuna_attesa_def estrazioni_costanti_def
      crea_configurazione_base_def)

lemma operazione_nominale:
  assumes n: "nominale (id_prodotto (prodotto ordine)) s"
    and td: "tempo_di (configurazione s) m p = Inr d"
    and d: "1 / 1000 \<le> d"
    and t: "attesa_turno (gestore_turni s) (configurazione s) (now (ambiente s)) = None"
  shows "\<exists>ordine' s'. operazione m p tipo_op False (ordine, s) = Some (Ritorna (ordine', s'))
     \<and> now (ambiente s') = now (ambiente s) + d
     \<and> nominale (id_prodotto (prodotto ordine')) s'
     \<and> lavorato (ordine, s) [m] (ordine', s')
     \<and> map durata (log_lavorazioni ordine') = map durata (log_lavorazioni ordine) @ [d]"
proof -
  from esegui_operazione_nominale[OF n d t, of m tipo_op] obtain s' where
    e: "esegui_operazione ordine m d (Some tipo_op) False s
         = Some (Ritorna (aggiungi_lavorazione
               \<lparr> fase = m, durata = d, operatore = Some tipo_op,
                 inizio_fase = now (ambiente s), fine_fase = now (ambiente s) + d \<rparr>
               (traccia_fase m ordine), s'))"
    and r: "now (ambiente s') = now (ambiente s) + d" "nominale (id_prodotto (prodotto ordine)) s'"
    by blast
  have o: "operazione m p tipo_op False (ordine, s) = Some (Ritorna (aggiungi_lavorazione
               \<lparr> fase = m, durata = d, operatore = Some tipo_op,
                 inizio_fase = now (ambiente s), fine_fase = now (ambiente s) + d \<rparr>
               (traccia_fase m ordine), s'))"
    using e td by (simp add: operazione_def)
  from operazione_lavorato[OF o] r o show ?thesis by simp
qed

lemma tempo_di_base:
  "tempo_di crea_configurazione_base TRONCATRICE FL_01 = Inr 10"
  "tempo_di crea_configurazione_base TRAPANO FL_01 = Inr 10"
  "tempo_di crea_configurazione_base BANCO_CONTROLLO FL_01 = Inr 10"
  by (simp_all add: tempo_di_def crea_configurazione_base_def tempi_base_def)

lemma lavorato_campi:
  "lavorato (ordine, s) fasi (ordine', s') \<Longrightarrow>
     configurazione s' = configurazione s \<and> gestore_turni s' = gestore_turni s
     \<and> prodotto ordine' = prodotto ordine \<and> tempo_creazione ordine' = tempo_creazione ordine
     \<and> cronologia_fasi ordine' = cronologia_fasi ordine @ fasi"
  by (simp add: lavorato_def invariati_def)

lemma deposita_esiste:
  "\<exists>s'. deposita d (ordine, s) = Some (Ritorna (ordine, s'))
     \<and> now (ambiente s') = now (ambiente s)"
  by (cases "deposito_di s d") (simp_all add: deposita_def store_put_def)

lemma esegui_processo_FL01_esempio:
  assumes s: "sistema_al 480 pol = Inr s"
  shows "\<exists>ordine' s'. esegui_processo_FL01 (ordine_esempio FL_01 c sc) s = Some (Ritorna (ordine', s'))
     \<and> now (ambiente s') = 520
     \<and> cronologia_fasi ordine' = [TRONCATRICE, TRAPANO, BANCO_CONTROLLO, BANCO_CONTROLLO]
     \<and> map durata (log_lavorazioni ordine') = [10, 10, 10, 10]"
proof -
  let ?o = "ordine_esempio FL_01 c sc"
  have o0: "cronologia_fasi ?o = []" "log_lavorazioni ?o = []"
    by (simp_all add: ordine_esempio_def nuovo_ordine_def)
  note c = sistema_al_campi[OF s]
  have n0: "nominale (id_prodotto (prodotto ?o)) s"
    by (rule sistema_al_nominale[OF s]) simp
  have t0: "attesa_turno (gestore_turni s) (configurazione s) (now (ambiente s)) = None"
    using in_turno_lunedi[of 480] by (simp add: c ambiente_al_def)
  from operazione_nominale[OF n0 _ _ t0, of TRONCATRICE FL_01 10 GENERICO]
  obtain o1 s1 where 1: "operazione TRONCATRICE FL_01 GENERICO False (?o, s) = Some (Ritorna (o1, s1))"
    "now (ambiente s1) = 490" "nominale (id_prodotto (prodotto o1)) s1"
    "lavorato (?o, s) [TRONCATRICE] (o1, s1)"
    "map durata (log_lavorazioni o1) = [10]"
    by (auto simp: c tempo_di_base ambiente_al_def o0)
  note c1 = lavorato_campi[OF 1(4)]
  have t1: "attesa_turno (gestore_turni s1) (configurazione s1) (now (ambiente s1)) = None"
    using in_turno_lunedi[of 490] by (simp add: c c1 1(2))
  from operazione_nominale[OF 1(3) _ _ t1, of TRAPANO FL_01 10 GENERICO]
  obtain o2 s2 where 2: "operazione TRAPANO FL_01 GENERICO False (o1, s1) = Some (Ritorna (o2, s2))"
    "now (ambiente s2) = 500" "nominale (id_prodotto (prodotto o2)) s2"
    "lavorato (o1, s1) [TRAPANO] (o2, s2)"
    "map durata (log_lavorazioni o2) = [10, 10]"
    by (auto simp: c c1 tempo_di_base 1(2,5))
  note c2 = lavorato_campi[OF 2(4)]
  have t2: "attesa_turno (gestore_turni s2) (configurazione s2) (now (ambiente s2)) = None"
    using in_turno_lunedi[of 500] by (simp add: c c1 c2 2(2))
  from operazione_nominale[OF 2(3) _ _ t2, of BANCO_CONTROLLO FL_01 10 GENERICO]
  obtain o3 s3 where 3: "operazione BANCO_CONTROLLO FL_01 GENERICO False (o2, s2) = Some (Ritorna (o3, s3))"
    "now (ambiente s3) = 510" "nominale (id_prodotto (prodotto o3)) s3"
    "lavorato (o2, s2) [BANCO_CONTROLLO] (o3, s3)"
    "map durata (log_lavorazioni o3) = [10, 10, 10]"
    by (auto simp: c c1 c2 tempo_di_base 2(2,5))
  note c3 = lavorato_campi[OF 3(4)]
  have t3: "attesa_turno (gestore_turni s3) (configurazione s3) (now (ambiente s3)) = None"
    using in_turno_lunedi[of 510] by (simp add: c c1 c2 c3 3(2))
  from operazione_nominale[OF 3(3) _ _ t3, of BANCO_CONTROLLO FL_01 10 GENERICO]
  obtain o4 s4 where 4: "operazione BANCO_CONTROLLO FL_01 GENERICO False (o3, s3) = Some (Ritorna (o4, s4))"
    "now (ambiente s4) = 520" "nominale (id_prodotto (prodotto o4)) s4"
    "lavorato (o3, s3) [BANCO_CONTROLLO] (o4, s4)"
    "map durata (log_lavorazioni o4) = [10, 10, 10, 10]"
    by (auto simp: c c1 c2 c3 tempo_di_base 3(2,5))
  note c4 = lavorato_campi[OF 4(4)]
  have cr: "cronologia_fasi o4 = [TRONCATRICE, TRAPANO, BANCO_CONTROLLO, BANCO_CONTROLLO]"
    using c1 c2 c3 c4 o0 by simp
  obtain s5 where 5: "deposita (Scorte FL_01) (o4, s4) = Some (Ritorna (o4, s5))"
    "now (ambiente s5) = now (ambiente s4)"
    using deposita_esiste by blast
  obtain s6 where d6: "deposita (Intermedio FL_01) (o4, s5) = Some (Ritorna (o4, s6))"
    "now (ambiente s6) = now (ambiente s5)"
    using deposita_esiste by blast
  have 6: "poi (deposita (Scorte FL_01) (o4, s4)) (deposita (Intermedio FL_01))
      = Some (Ritorna (o4, s6))" "now (ambiente s6) = now (ambiente s4)"
    using 5 d6 by simp_all
  have "esegui_processo_FL01 ?o s
      = Some (Ritorna (imposta_completamento (now (ambiente s6)) o4, s6))"
    unfolding esegui_processo_FL01_def using 1(1) 2(1) 3(1) 4(1) 6(1)
    by (simp add: completa_def poi_def)
  with 4 6 cr show ?thesis by simp
qed

lemma tempo_di_base_rd01:
  "tempo_di crea_configurazione_base BANCO_ASSEMBLAGGIO RD_01 = Inr 60"
  "tempo_di crea_configurazione_base BANCO_COLLAUDO RD_01 = Inr 30"
  by (simp_all add: tempo_di_def crea_configurazione_base_def tempi_base_def)

lemma esegui_processo_RD01_in_attesa:
  assumes s: "sistema_al 480 pol = Inr s"
  shows "\<exists>ordine' s'.
       esegui_processo_RD01 (ordine_esempio RD_01 c sc) (flangia_in_arrivo 500 s)
         = Some (Ritorna (ordine', s'))
     \<and> now (ambiente s') = 590
     \<and> cronologia_fasi ordine' = [BANCO_ASSEMBLAGGIO, BANCO_COLLAUDO]"
proof -
  let ?o = "ordine_esempio RD_01 c sc"
  let ?s = "flangia_in_arrivo 500 s"
  have o0: "cronologia_fasi ?o = []" "log_lavorazioni ?o = []" "componenti_consumati ?o = []"
    "id_prodotto (prodotto ?o) = ''RD-01''"
    by (simp_all add: ordine_esempio_def nuovo_ordine_def)
  note c = sistema_al_campi[OF s]
  have m: "magazzino_intermedio s =
       [FL_01 \<mapsto> map (ordine_scorta FL_01) [0..<20], IN_07 \<mapsto> map (ordine_scorta IN_07) [0..<40]]"
    using s unfolding sistema_al_def by (rule nuovo_sistema_magazzino)
  have u: "[0..<40] = 0 # 1 # [2..<40]"
    by (simp add: upt_conv_Cons)
  have a: "magazzino_intermedio ?s FL_01 = Some []"
    "consegne (ambiente ?s) (length (traccia (ambiente ?s))) = Some (500, ordine_scorta FL_01 0)"
    "magazzino_intermedio ?s IN_07
       = Some (ordine_scorta IN_07 0 # ordine_scorta IN_07 1 # map (ordine_scorta IN_07) [2..<40])"
    by (simp_all add: flangia_in_arrivo_def m u)
  from prelievo_materiali_in_attesa[OF a, of ?o] obtain o1 s1 where
    p: "prelievo_materiali (?o, ?s) = Some (Ritorna (o1, s1))"
    and p1: "componenti_consumati o1
         = [ordine_scorta FL_01 0, ordine_scorta IN_07 0, ordine_scorta IN_07 1]"
      "now (ambiente s1) = 500" "concessioni (ambiente s1) = nessuna_attesa"
      "macchinari s1 = macchinari s" "operatori s1 = operatori s"
    by (auto simp: o0 flangia_in_arrivo_def c ambiente_al_def)
  from prelievo_materiali_lavorato[OF p] have l1: "lavorato (?o, ?s) [] (o1, s1)" .
  then have i1: "configurazione s1 = crea_configurazione_base" "gestore_turni s1 = Some gestore_lunedi"
    "rng s1 = estrazioni_costanti" "prodotto o1 = prodotto ?o" "cronologia_fasi o1 = []"
    by (simp_all add: lavorato_def invariati_def flangia_in_arrivo_def c o0)
  have n1: "nominale (id_prodotto (prodotto o1)) s1"
    using sistema_al_nominale[OF s, of "id_prodotto (prodotto o1)"]
    unfolding nominale_def
    by (simp add: p1 i1 c nessuna_attesa_def)
  have t1: "attesa_turno (gestore_turni s1) (configurazione s1) (now (ambiente s1)) = None"
    using in_turno_lunedi[of 500] by (simp add: i1 p1)
  from operazione_nominale[OF n1 _ _ t1, of BANCO_ASSEMBLAGGIO RD_01 60 GENERICO]
  obtain o2 s2 where 2:
    "operazione BANCO_ASSEMBLAGGIO RD_01 GENERICO False (o1, s1) = Some (Ritorna (o2, s2))"
    "now (ambiente s2) = 560" "nominale (id_prodotto (prodotto o2)) s2"
    "lavorato (o1, s1) [BANCO_ASSEMBLAGGIO] (o2, s2)"
    by (auto simp: i1 tempo_di_base_rd01 p1)
  note c2 = lavorato_campi[OF 2(4)]
  have t2: "attesa_turno (gestore_turni s2) (configurazione s2) (now (ambiente s2)) = None"
    using in_turno_lunedi[of 560] by (simp add: i1 c2 2(2))
  from operazione_nominale[OF 2(3) _ _ t2, of BANCO_COLLAUDO RD_01 30 GENERICO]
  obtain o3 s3 where 3:
    "operazione BANCO_COLLAUDO RD_01 GENERICO False (o2, s2) = Some (Ritorna (o3, s3))"
    "now (ambiente s3) = 590" "nominale (id_prodotto (prodotto o3)) s3"
    "lavorato (o2, s2) [BANCO_COLLAUDO] (o3, s3)"
    by (auto simp: i1 c2 tempo_di_base_rd01 2(2))
  note c3 = lavorato_campi[OF 3(4)]
  have "esegui_processo_RD01 ?o ?s
      = Some (Ritorna (imposta_completamento 590 o3, s3))"
    by (simp add: esegui_processo_RD01_def p 2(1) 3(1,2) completa_def)
  then show ?thesis
    using 3(2) c3 c2 i1 p1 by (auto simp: imposta_completamento_def)
qed

text \<open>
  C6.  A work order that a strategy completes (run on its own or through
  \<open>elabora_ordine\<close>; whatever the process waited for on the way: a shift, a resource,
  a repair, a daily cap, or a component that another process delivered to an empty
  buffer), started when the clock is not negative and not before its creation time, has a
  completion time equal to the clock at the end of the routing and strictly greater
  than its creation time, and \<open>tempo_attraversamento\<close> then returns completion time
  minus creation time.
\<close>

theorem completamento_dopo_creazione:
  assumes "esegui_processo strategia ordine s = Some (Ritorna (ordine', s'))
           \<or> elabora_ordine ordine s = Some (Ritorna (ordine', s'))"
    and "0 \<le> now (ambiente s)"
    and "tempo_creazione ordine \<le> now (ambiente s)"
  shows "tempo_completamento ordine' = Some (now (ambiente s'))
     \<and> tempo_creazione ordine' = tempo_creazione ordine
     \<and> tempo_creazione ordine' < now (ambiente s')
     \<and> tempo_attraversamento ordine' = Some (now (ambiente s') - tempo_creazione ordine')"
proof -
  from assms(1) obtain st s1 where
    "now (ambiente s) \<le> now (ambiente s1)"
    "esegui_processo st ordine s1 = Some (Ritorna (ordine', s'))"
    using elabora_ordine_Ritorna[of ordine s ordine' s'] by auto
  with completato_dopo_inizio[OF this(2)] assms(2,3) show ?thesis
    by (auto simp: tempo_attraversamento_def)
qed

theorem completamento_dopo_creazione_witness:
  "\<exists>s ordine' s' ordine'' s''. sistema_al 480 FIFO = Inr s
     \<and> elabora_ordine (ordine_esempio FL_01 480 1000) s = Some (Ritorna (ordine', s'))
     \<and> 0 \<le> now (ambiente s)
     \<and> tempo_creazione (ordine_esempio FL_01 480 1000) \<le> now (ambiente s)
     \<and> tempo_completamento ordine' = Some 520
     \<and> tempo_creazione ordine' = 480
     \<and> tempo_attraversamento ordine' = Some 40
     \<and> magazzino_intermedio (flangia_in_arrivo 500 s) FL_01 = Some []
     \<and> esegui_processo StrategiaRD01 (ordine_esempio RD_01 480 2000) (flangia_in_arrivo 500 s)
          = Some (Ritorna (ordine'', s''))
     \<and> 0 \<le> now (ambiente (flangia_in_arrivo 500 s))
     \<and> tempo_creazione (ordine_esempio RD_01 480 2000) \<le> now (ambiente (flangia_in_arrivo 500 s))
     \<and> tempo_completamento ordine'' = Some 590
     \<and> tempo_creazione ordine'' = 480
     \<and> tempo_attraversamento ordine'' = Some 110"
proof -
  obtain s where s: "sistema_al 480 FIFO = Inr s"
    using sistema_al_esiste by blast
  note c = sistema_al_campi[OF s]
  from esegui_processo_FL01_esempio[OF s, of 480 1000] obtain ordine' s' where
    e: "esegui_processo_FL01 (ordine_esempio FL_01 480 1000) s = Some (Ritorna (ordine', s'))"
    and n: "now (ambiente s') = 520" by blast
  have el: "elabora_ordine (ordine_esempio FL_01 480 1000) s = Some (Ritorna (ordine', s'))"
    using e
    by (simp add: elabora_ordine_def c crea_configurazione_base_def ordine_esempio_def
        nuovo_ordine_def strategie_standard_def)
  have h2: "0 \<le> now (ambiente s)" by (simp add: c ambiente_al_def)
  have h3: "tempo_creazione (ordine_esempio FL_01 480 1000) \<le> now (ambiente s)"
    by (simp add: c ambiente_al_def ordine_esempio_def nuovo_ordine_def)
  from esegui_processo_RD01_in_attesa[OF s, of 480 2000] obtain ordine'' s'' where
    r: "esegui_processo_RD01 (ordine_esempio RD_01 480 2000) (flangia_in_arrivo 500 s)
          = Some (Ritorna (ordine'', s''))"
    and rn: "now (ambiente s'') = 590" by blast
  have rp: "esegui_processo StrategiaRD01 (ordine_esempio RD_01 480 2000) (flangia_in_arrivo 500 s)
          = Some (Ritorna (ordine'', s''))"
    using r by simp
  have v: "magazzino_intermedio (flangia_in_arrivo 500 s) FL_01 = Some []"
    by (simp add: flangia_in_arrivo_def)
  have g2: "0 \<le> now (ambiente (flangia_in_arrivo 500 s))"
    by (simp add: flangia_in_arrivo_def c ambiente_al_def)
  have g3: "tempo_creazione (ordine_esempio RD_01 480 2000) \<le> now (ambiente (flangia_in_arrivo 500 s))"
    by (simp add: flangia_in_arrivo_def c ambiente_al_def ordine_esempio_def nuovo_ordine_def)
  have w1: "tempo_completamento ordine' = Some 520 \<and> tempo_creazione ordine' = 480
     \<and> tempo_attraversamento ordine' = Some 40"
    using completamento_dopo_creazione[OF disjI2[OF el] h2 h3] n
    by (simp add: ordine_esempio_def nuovo_ordine_def)
  have w2: "tempo_completamento ordine'' = Some 590 \<and> tempo_creazione ordine'' = 480
     \<and> tempo_attraversamento ordine'' = Some 110"
    using completamento_dopo_creazione[OF disjI1[OF rp] g2 g3] rn
    by (simp add: ordine_esempio_def nuovo_ordine_def)
  from s el h2 h3 w1 v rp g2 g3 w2 show ?thesis
    by (intro exI[of _ s] exI[of _ ordine'] exI[of _ s'] exI[of _ ordine''] exI[of _ s''])
       (simp only: simp_thms)
qed

subsection \<open>The queue of a resource\<close>

lemma precede_totale: "precede a b \<or> precede b a"
  by (auto simp: precede_def)

lemma precede_trans: "precede a b \<Longrightarrow> precede b c \<Longrightarrow> precede a c"
  by (auto simp: precede_def)

lemma set_accoda [simp]: "set (accoda r q) = insert r (set q)"
  by (induction q) auto

lemma set_coda_di [simp]: "set (coda_di rs) = set rs"
  by (induction rs) auto

lemma ordinata_accoda:
  "sorted_wrt precede q \<Longrightarrow> sorted_wrt precede (accoda r q)"
proof (induction q)
  case Nil
  then show ?case by simp
next
  case (Cons x q)
  show ?case
  proof (cases "precede x r")
    case True
    with Cons show ?thesis by auto
  next
    case False
    then have rx: "precede r x" using precede_totale by blast
    with Cons.prems have "\<forall>y\<in>set q. precede r y"
      by (auto intro: precede_trans)
    with False rx Cons.prems show ?thesis by simp
  qed
qed

lemma ordinata_coda_di: "sorted_wrt precede (coda_di rs)"
  by (induction rs) (simp_all add: ordinata_accoda)

lemma prossima_concessione_minima:
  assumes "prossima_concessione (coda_di rs) = Some r0"
  shows "r0 \<in> set rs \<and> (\<forall>r\<in>set rs. precede r0 r)"
proof -
  from assms obtain q where q: "coda_di rs = r0 # q"
    by (auto simp: prossima_concessione_def split: list.splits)
  have "sorted_wrt precede (r0 # q)"
    using ordinata_coda_di[of rs] q by simp
  then have "\<forall>r\<in>set q. precede r0 r" by simp
  moreover have "set rs = insert r0 (set q)"
    using set_coda_di[of rs] q by simp
  moreover have "precede r0 r0" by (simp add: precede_def)
  ultimately show ?thesis
    by auto
qed

subsection \<open>Priorities\<close>

lemma py_int_numeral:
  "0 \<le> x \<Longrightarrow> py_int x = \<lfloor>x\<rfloor>"
  by (simp add: py_int_def)

lemma esegui_operazione_esempio:
  assumes s: "sistema_al 480 pol = Inr s"
  shows "\<exists>ordine' s'. esegui_operazione (ordine_esempio FL_01 c sc) TRONCATRICE 10 (Some GENERICO) False s
       = Some (Ritorna (ordine', s'))
     \<and> senza_timeout (traccia (ambiente s')) =
         [Request (Macchina TRONCATRICE) (priorita_operazione pol (ordine_esempio FL_01 c sc) 10),
          Request (Addetto GENERICO) (priorita_operazione pol (ordine_esempio FL_01 c sc) 10),
          Release (Addetto GENERICO), Release (Macchina TRONCATRICE)]"
proof -
  let ?o = "ordine_esempio FL_01 c sc"
  note c = sistema_al_campi[OF s]
  have n0: "nominale (id_prodotto (prodotto ?o)) s"
    by (rule sistema_al_nominale[OF s]) simp
  have t0: "attesa_turno (gestore_turni s) (configurazione s) (now (ambiente s)) = None"
    using in_turno_lunedi[of 480] by (simp add: c ambiente_al_def)
  from esegui_operazione_nominale[OF n0 _ t0, of 10 TRONCATRICE GENERICO]
  obtain ordine' s' where
    e: "esegui_operazione ?o TRONCATRICE 10 (Some GENERICO) False s = Some (Ritorna (ordine', s'))"
    by auto
  from esegui_operazione_Ritorna[OF e]
  have "segue (ambiente s)
         ([Request (Macchina TRONCATRICE) (priorita_operazione pol ?o 10)]
          @ [Request (Addetto GENERICO) (priorita_operazione pol ?o 10), Release (Addetto GENERICO)]
          @ [Release (Macchina TRONCATRICE)])
         (ambiente s')"
    by (auto simp: c)
  then have "senza_timeout (traccia (ambiente s')) =
         [Request (Macchina TRONCATRICE) (priorita_operazione pol ?o 10),
          Request (Addetto GENERICO) (priorita_operazione pol ?o 10),
          Release (Addetto GENERICO), Release (Macchina TRONCATRICE)]"
    unfolding segue_def by (auto simp: c ambiente_al_def)
  with e show ?thesis by blast
qed

text \<open>
  C5.  An operation that returns has requested its machine, and then its operator if it
  has one, with one and the same priority: 0 under FIFO, the base duration truncated to
  an integer (\<open>int(durata_min)\<close>) under SPT, and under EDD the due time of the work
  order truncated to an integer, or 0 when the due time is zero.  Among the waiting
  requests of a resource the kernel grants one of lowest priority value, and among those
  the one that arrived first.
\<close>

theorem priorita_richieste:
  assumes "esegui_operazione ordine m d tipo_op v s = Some (Ritorna (ordine', s'))"
  shows "\<exists>tr p t'.
       traccia (ambiente s') = traccia (ambiente s) @ tr
     \<and> senza_timeout tr =
          [Request (Macchina m) p]
          @ (case t' of None \<Rightarrow> [] | Some t \<Rightarrow> [Request (Addetto t) p, Release (Addetto t)])
          @ [Release (Macchina m)]
     \<and> t' = map_option (\<lambda>t. if v \<and> t \<noteq> SPECIALIZZATO then SPECIALIZZATO else t) tipo_op
     \<and> p = priorita_operazione (politica s) ordine d
     \<and> priorita_operazione FIFO ordine d = 0
     \<and> priorita_operazione SPT ordine d = py_int d
     \<and> priorita_operazione EDD ordine d
          = (if scadenza ordine = 0 then 0 else py_int (scadenza ordine))
     \<and> (\<forall>rs r0. prossima_concessione (coda_di rs) = Some r0 \<longrightarrow>
           r0 \<in> set rs
           \<and> (\<forall>r\<in>set rs. priorita_richiesta r0 < priorita_richiesta r
                  \<or> (priorita_richiesta r0 = priorita_richiesta r \<and> arrivo r0 \<le> arrivo r)))"
proof -
  from esegui_operazione_Ritorna[OF assms] obtain t' where
    t': "t' = map_option (\<lambda>t. if v \<and> t \<noteq> SPECIALIZZATO then SPECIALIZZATO else t) tipo_op"
    and g: "segue (ambiente s)
         ([Request (Macchina m) (priorita_operazione (politica s) ordine d)]
          @ (case t' of None \<Rightarrow> []
             | Some t \<Rightarrow> [Request (Addetto t) (priorita_operazione (politica s) ordine d),
                          Release (Addetto t)])
          @ [Release (Macchina m)])
         (ambiente s')"
    by blast
  from g obtain tr where tr: "traccia (ambiente s') = traccia (ambiente s) @ tr"
    "senza_timeout tr = [Request (Macchina m) (priorita_operazione (politica s) ordine d)]
          @ (case t' of None \<Rightarrow> []
             | Some t \<Rightarrow> [Request (Addetto t) (priorita_operazione (politica s) ordine d),
                          Release (Addetto t)])
          @ [Release (Macchina m)]"
    unfolding segue_def by blast
  have p: "priorita_operazione FIFO ordine d = 0"
    "priorita_operazione SPT ordine d = py_int d"
    "priorita_operazione EDD ordine d = (if scadenza ordine = 0 then 0 else py_int (scadenza ordine))"
    by (simp_all add: priorita_operazione_def)
  have q: "\<forall>rs r0. prossima_concessione (coda_di rs) = Some r0 \<longrightarrow>
           r0 \<in> set rs
           \<and> (\<forall>r\<in>set rs. priorita_richiesta r0 < priorita_richiesta r
                  \<or> (priorita_richiesta r0 = priorita_richiesta r \<and> arrivo r0 \<le> arrivo r))"
    using prossima_concessione_minima unfolding precede_def by blast
  show ?thesis
    using tr t' p q by blast
qed

theorem priorita_richieste_witness:
  "\<exists>s ordine' s' tr. sistema_al 480 SPT = Inr s
     \<and> esegui_operazione (ordine_esempio FL_01 480 1000) TRONCATRICE 10 (Some GENERICO) False s
         = Some (Ritorna (ordine', s'))
     \<and> traccia (ambiente s') = traccia (ambiente s) @ tr
     \<and> senza_timeout tr =
         [Request (Macchina TRONCATRICE) 10, Request (Addetto GENERICO) 10,
          Release (Addetto GENERICO), Release (Macchina TRONCATRICE)]"
proof -
  obtain s where s: "sistema_al 480 SPT = Inr s"
    using sistema_al_esiste by blast
  from esegui_operazione_esempio[OF s, of 480 1000] obtain ordine' s' where
    e: "esegui_operazione (ordine_esempio FL_01 480 1000) TRONCATRICE 10 (Some GENERICO) False s
         = Some (Ritorna (ordine', s'))" by blast
  from priorita_richieste[OF e] obtain tr where
    "traccia (ambiente s') = traccia (ambiente s) @ tr"
    "senza_timeout tr =
         [Request (Macchina TRONCATRICE) (priorita_operazione (politica s) (ordine_esempio FL_01 480 1000) 10),
          Request (Addetto GENERICO) (priorita_operazione (politica s) (ordine_esempio FL_01 480 1000) 10),
          Release (Addetto GENERICO), Release (Macchina TRONCATRICE)]"
    by auto
  moreover have "priorita_operazione (politica s) (ordine_esempio FL_01 480 1000) 10 = 10"
    by (simp add: sistema_al_campi[OF s] priorita_operazione_def py_int_def)
  ultimately show ?thesis
    using s e by auto
qed

theorem priorita_troncata_counterexample:
  "\<exists>s ordine' s'. sistema_al 480 EDD = Inr s
     \<and> esegui_operazione (ordine_esempio FL_01 480 (1201 / 2)) TRONCATRICE 10 (Some GENERICO) False s
         = Some (Ritorna (ordine', s'))
     \<and> senza_timeout (traccia (ambiente s')) =
         [Request (Macchina TRONCATRICE) 600, Request (Addetto GENERICO) 600,
          Release (Addetto GENERICO), Release (Macchina TRONCATRICE)]
     \<and> scadenza (ordine_esempio FL_01 480 (1201 / 2)) = 1201 / 2
     \<and> real_of_int 600 \<noteq> scadenza (ordine_esempio FL_01 480 (1201 / 2))
     \<and> priorita_operazione SPT (ordine_esempio FL_01 480 (1201 / 2)) (21 / 2) = 10
     \<and> real_of_int (priorita_operazione SPT (ordine_esempio FL_01 480 (1201 / 2)) (21 / 2)) \<noteq> 21 / 2"
proof -
  obtain s where s: "sistema_al 480 EDD = Inr s"
    using sistema_al_esiste by blast
  have f: "\<lfloor>1201 / 2 :: real\<rfloor> = 600" "\<lfloor>21 / 2 :: real\<rfloor> = 10"
    by simp_all
  have p: "priorita_operazione EDD (ordine_esempio FL_01 480 (1201 / 2)) 10 = 600"
    "priorita_operazione SPT (ordine_esempio FL_01 480 (1201 / 2)) (21 / 2) = 10"
    by (simp_all add: priorita_operazione_def py_int_def ordine_esempio_def nuovo_ordine_def f)
  from esegui_operazione_esempio[OF s, of 480 "1201 / 2"] p s show ?thesis
    by (auto simp: ordine_esempio_def nuovo_ordine_def)
qed

subsection \<open>The cycle time of FL-01\<close>

text \<open>
  What a completed run has gone through, against what the estimator adds up: the
  routings of PN-03, IN-07 and RD-01 execute the operations of their estimators (and
  then the rework, if any); the routing of FL-01 executes one Banco Controllo more.
\<close>

lemma routing_e_stima:
  "esegui_processo StrategiaPN03 ordine s = Some (Ritorna (ordine', s')) \<Longrightarrow>
     \<exists>rilavorazioni. cronologia_fasi ordine' = cronologia_fasi ordine
         @ [TRONCATRICE, TORNIO, RETTIFICA, BANCO_CONTROLLO] @ rilavorazioni"
  "stima_tempo_ciclo StrategiaPN03 cfg = somma_tempi cfg 0
     (map (\<lambda>m. (m, PN_03)) [TRONCATRICE, TORNIO, RETTIFICA, BANCO_CONTROLLO])"
  "esegui_processo StrategiaIN07 ordine s = Some (Ritorna (ordine', s')) \<Longrightarrow>
     \<exists>rilavorazioni. cronologia_fasi ordine' = cronologia_fasi ordine
         @ [TRONCATRICE, FRESA, RETTIFICA, FORNO, BANCO_CONTROLLO] @ rilavorazioni"
  "stima_tempo_ciclo StrategiaIN07 cfg = somma_tempi cfg 0
     (map (\<lambda>m. (m, IN_07)) [TRONCATRICE, FRESA, RETTIFICA, FORNO, BANCO_CONTROLLO])"
  "esegui_processo StrategiaRD01 ordine s = Some (Ritorna (ordine', s')) \<Longrightarrow>
     cronologia_fasi ordine' = cronologia_fasi ordine @ [BANCO_ASSEMBLAGGIO, BANCO_COLLAUDO]"
  "stima_tempo_ciclo StrategiaRD01 cfg = somma_tempi cfg 0
     (map (\<lambda>m. (m, RD_01)) [BANCO_ASSEMBLAGGIO, BANCO_COLLAUDO])"
  "esegui_processo StrategiaFL01 ordine s = Some (Ritorna (ordine', s')) \<Longrightarrow>
     cronologia_fasi ordine' = cronologia_fasi ordine
         @ [TRONCATRICE, TRAPANO, BANCO_CONTROLLO, BANCO_CONTROLLO]"
  "stima_tempo_ciclo StrategiaFL01 cfg = somma_tempi cfg 0
     (map (\<lambda>m. (m, FL_01)) [TRONCATRICE, TRAPANO, BANCO_CONTROLLO])"
proof -
  show "\<exists>rilavorazioni. cronologia_fasi ordine' = cronologia_fasi ordine
         @ [TRONCATRICE, TORNIO, RETTIFICA, BANCO_CONTROLLO] @ rilavorazioni"
    if "esegui_processo StrategiaPN03 ordine s = Some (Ritorna (ordine', s'))"
    using esegui_processo_PN03_Ritorna[of ordine s ordine' s'] that
    by (auto simp: lavorato_def)
  show "\<exists>rilavorazioni. cronologia_fasi ordine' = cronologia_fasi ordine
         @ [TRONCATRICE, FRESA, RETTIFICA, FORNO, BANCO_CONTROLLO] @ rilavorazioni"
    if "esegui_processo StrategiaIN07 ordine s = Some (Ritorna (ordine', s'))"
    using esegui_processo_IN07_Ritorna[of ordine s ordine' s'] that
    by (auto simp: lavorato_def)
  show "cronologia_fasi ordine' = cronologia_fasi ordine @ [BANCO_ASSEMBLAGGIO, BANCO_COLLAUDO]"
    if "esegui_processo StrategiaRD01 ordine s = Some (Ritorna (ordine', s'))"
    using esegui_processo_RD01_Ritorna[of ordine s ordine' s'] that
    by (auto simp: lavorato_def)
  show "cronologia_fasi ordine' = cronologia_fasi ordine
         @ [TRONCATRICE, TRAPANO, BANCO_CONTROLLO, BANCO_CONTROLLO]"
    if "esegui_processo StrategiaFL01 ordine s = Some (Ritorna (ordine', s'))"
    using esegui_processo_FL01_Ritorna[of ordine s ordine' s'] that
    by (auto simp: lavorato_def)
qed simp_all

text \<open>
  C3.  On the base configuration the routing of FL-01 executes four operations
  (Troncatrice, Trapano and Banco Controllo twice), whose base durations add up to 40
  minutes, the time the order takes in the nominal run; \<open>stima_tempo_ciclo\<close> of FL-01
  counts Banco Controllo once and returns 30.
\<close>

theorem stima_fl01_base:
  "\<exists>s ordine' s'. sistema_al 480 FIFO = Inr s
     \<and> esegui_processo StrategiaFL01 (ordine_esempio FL_01 480 1000) s = Some (Ritorna (ordine', s'))
     \<and> cronologia_fasi ordine' = [TRONCATRICE, TRAPANO, BANCO_CONTROLLO, BANCO_CONTROLLO]
     \<and> map durata (log_lavorazioni ordine') = [10, 10, 10, 10]
     \<and> somma_tempi (configurazione s) 0 (map (\<lambda>m. (m, FL_01)) (cronologia_fasi ordine')) = Inr 40
     \<and> stima_tempo_ciclo StrategiaFL01 (configurazione s) = Inr 30
     \<and> now (ambiente s') - now (ambiente s) = 40"
proof -
  obtain s where s: "sistema_al 480 FIFO = Inr s"
    using sistema_al_esiste by blast
  note c = sistema_al_campi[OF s]
  from esegui_processo_FL01_esempio[OF s, of 480 1000] obtain ordine' s' where
    e: "esegui_processo_FL01 (ordine_esempio FL_01 480 1000) s = Some (Ritorna (ordine', s'))"
    "now (ambiente s') = 520"
    "cronologia_fasi ordine' = [TRONCATRICE, TRAPANO, BANCO_CONTROLLO, BANCO_CONTROLLO]"
    "map durata (log_lavorazioni ordine') = [10, 10, 10, 10]" by auto
  have "somma_tempi crea_configurazione_base 0
      (map (\<lambda>m. (m, FL_01)) [TRONCATRICE, TRAPANO, BANCO_CONTROLLO, BANCO_CONTROLLO]) = Inr 40"
    by (simp add: tempo_di_base)
  moreover have "stima_tempo_ciclo StrategiaFL01 crea_configurazione_base = Inr 30"
    by (simp add: tempo_di_base)
  ultimately show ?thesis
    using s e by (intro exI[of _ s] exI[of _ ordine'] exI[of _ s']) (simp add: c ambiente_al_def)
qed

subsection \<open>The changeover\<close>

lemma py_round_numeral [simp]: "py_round (numeral k) = numeral k"
  using py_round_int[of "numeral k"] by simp


















subsection \<open>The daily caps: one pass through the loop\<close>

lemma giorno_simulazione_floor:
  "0 \<le> now (ambiente s) \<Longrightarrow> giorno_simulazione s = \<lfloor>now (ambiente s) / 1440\<rfloor>"
  by (simp add: giorno_simulazione_def py_int_def MINUTI_GIORNALIERI_def)

lemma py_mod_1440: "0 \<le> py_mod x 1440 \<and> py_mod x 1440 < 1440"
proof -
  have "real_of_int \<lfloor>x / 1440\<rfloor> \<le> x / 1440" "x / 1440 < real_of_int \<lfloor>x / 1440\<rfloor> + 1"
    by linarith+
  then show ?thesis
    unfolding py_mod_def by (simp add: field_simps)
qed

lemma tempo_attesa_domani_valore:
  "tempo_attesa_domani s =
     real_of_int ((\<lfloor>now (ambiente s) / 1440\<rfloor> + 1) * 1440 + orario_inizio_turno (configurazione s) * 60)
       - now (ambiente s)"
  by (simp add: tempo_attesa_domani_def py_mod_def MINUTI_GIORNALIERI_def Let_def algebra_simps)

lemma tempo_attesa_domani_positivo:
  "0 \<le> orario_inizio_turno (configurazione s) \<Longrightarrow> 0 < tempo_attesa_domani s"
  using py_mod_1440[of "now (ambiente s)"]
  by (simp add: tempo_attesa_domani_def MINUTI_GIORNALIERI_def Let_def)

lemma aggiorna_giorno_campi [simp]:
  "ambiente (aggiorna_giorno s) = ambiente s"
  "configurazione (aggiorna_giorno s) = configurazione s"
  "strategie (aggiorna_giorno s) = strategie s"
  by (simp_all add: aggiorna_giorno_def)

lemma attesa_capacita_esaurita:
  assumes "capacita_esaurita id_p (aggiorna_giorno s)"
    and "0 \<le> orario_inizio_turno (configurazione s)"
  shows "attesa_capacita id_p s =
     attesa_capacita id_p ((aggiorna_giorno s)
       \<lparr>ambiente := (ambiente s)
          \<lparr>now := real_of_int ((\<lfloor>now (ambiente s) / 1440\<rfloor> + 1) * 1440
                      + orario_inizio_turno (configurazione s) * 60),
           traccia := traccia (ambiente s) @ [Timeout (tempo_attesa_domani (aggiorna_giorno s))]\<rparr>\<rparr>)"
proof -
  have p: "0 < tempo_attesa_domani (aggiorna_giorno s)"
    using assms(2) tempo_attesa_domani_positivo[of "aggiorna_giorno s"] by simp
  have v: "now (ambiente s) + tempo_attesa_domani (aggiorna_giorno s)
      = real_of_int ((\<lfloor>now (ambiente s) / 1440\<rfloor> + 1) * 1440
                      + orario_inizio_turno (configurazione s) * 60)"
    using tempo_attesa_domani_valore[of "aggiorna_giorno s"] by simp
  show ?thesis
    apply (subst attesa_capacita.simps)
    using assms(1) p v
    apply (simp add: Let_def timeout_def)
    done
qed

lemma attesa_capacita_disponibile:
  assumes "\<not> capacita_esaurita id_p (aggiorna_giorno s)"
  shows "attesa_capacita id_p s = Some (Ritorna (prenota id_p (aggiorna_giorno s)))"
  by (subst attesa_capacita.simps) (use assms in \<open>simp add: Let_def\<close>)


lemma prenota_campi:
  "ambiente (prenota id_p s) = ambiente s"
  "prodotti_oggi id_p (prenota id_p s) = prodotti_oggi id_p s + 1"
  "produzione_giornaliera_totale (prenota id_p s) = produzione_giornaliera_totale s + 1"
  "giorno_corrente (prenota id_p s) = giorno_corrente s"
  "strategie (prenota id_p s) = strategie s"
  "configurazione (prenota id_p s) = configurazione s"
  by (simp_all add: prenota_def prodotti_oggi_def)

text \<open>
  C4.  With the clock not negative and the shift opening hour not negative: the simulated
  day is \<open>floor(now / 1440)\<close>, and the counters are reset when it is later than the
  current day.  When at least one daily cap is configured (the per-product caps or the
  global cap is not \<open>None\<close>): if the per-product count has reached the per-product cap or
  the global count has reached the global cap, the process waits with one timeout until
  1440 * (day + 1) + 60 * (opening hour), the shift opening of the next day, and makes the
  same check again; otherwise both counters are incremented and the order is handed to its
  strategy in the same step, with no event yielded to the kernel in between (the clock and
  the trace are unchanged).  When no daily cap is configured, the check is skipped: the
  order is handed to its strategy on the state as it is, and no counter is incremented.
\<close>

theorem limite_giornaliero:
  assumes "0 \<le> now (ambiente s)"
    and "0 \<le> orario_inizio_turno (configurazione s)"
  shows "giorno_simulazione s = \<lfloor>now (ambiente s) / 1440\<rfloor>
     \<and> aggiorna_giorno s =
         (if giorno_corrente s < \<lfloor>now (ambiente s) / 1440\<rfloor>
          then s\<lparr>giorno_corrente := \<lfloor>now (ambiente s) / 1440\<rfloor>,
                 produzione_giornaliera_per_prodotto := Map.empty,
                 produzione_giornaliera_totale := 0\<rparr>
          else s)
     \<and> capacita_esaurita (id_prodotto (prodotto ordine)) (aggiorna_giorno s) =
         (raggiunto (prodotti_oggi (id_prodotto (prodotto ordine)) (aggiorna_giorno s))
            (case limiti_produzione_giornaliera (configurazione s) of
               None \<Rightarrow> None | Some l \<Rightarrow> l (id_prodotto (prodotto ordine)))
          \<or> raggiunto (produzione_giornaliera_totale (aggiorna_giorno s))
               (limite_produzione_totale_giornaliera (configurazione s)))
     \<and> raggiunto n (Some l) = (l \<le> n) \<and> raggiunto n None = False
     \<and> ((limiti_produzione_giornaliera (configurazione s) \<noteq> None
           \<or> limite_produzione_totale_giornaliera (configurazione s) \<noteq> None)
          \<and> capacita_esaurita (id_prodotto (prodotto ordine)) (aggiorna_giorno s) \<longrightarrow>
          elabora_ordine ordine s =
            elabora_ordine ordine ((aggiorna_giorno s)
              \<lparr>ambiente := (ambiente s)
                 \<lparr>now := real_of_int ((\<lfloor>now (ambiente s) / 1440\<rfloor> + 1) * 1440
                             + orario_inizio_turno (configurazione s) * 60),
                  traccia := traccia (ambiente s)
                     @ [Timeout (real_of_int ((\<lfloor>now (ambiente s) / 1440\<rfloor> + 1) * 1440
                                   + orario_inizio_turno (configurazione s) * 60)
                                 - now (ambiente s))]\<rparr>\<rparr>))
     \<and> ((limiti_produzione_giornaliera (configurazione s) \<noteq> None
           \<or> limite_produzione_totale_giornaliera (configurazione s) \<noteq> None)
          \<and> \<not> capacita_esaurita (id_prodotto (prodotto ordine)) (aggiorna_giorno s) \<longrightarrow>
          elabora_ordine ordine s =
            (case strategie s (id_prodotto (prodotto ordine)) of
               None \<Rightarrow> Some (Solleva (ValueError ''Routing Sheet non definita''))
             | Some strategia \<Rightarrow>
                 esegui_processo strategia ordine
                   (prenota (id_prodotto (prodotto ordine)) (aggiorna_giorno s)))
          \<and> ambiente (prenota (id_prodotto (prodotto ordine)) (aggiorna_giorno s)) = ambiente s
          \<and> prodotti_oggi (id_prodotto (prodotto ordine))
               (prenota (id_prodotto (prodotto ordine)) (aggiorna_giorno s))
             = prodotti_oggi (id_prodotto (prodotto ordine)) (aggiorna_giorno s) + 1
          \<and> produzione_giornaliera_totale (prenota (id_prodotto (prodotto ordine)) (aggiorna_giorno s))
             = produzione_giornaliera_totale (aggiorna_giorno s) + 1)
     \<and> (limiti_produzione_giornaliera (configurazione s) = None
          \<and> limite_produzione_totale_giornaliera (configurazione s) = None \<longrightarrow>
          elabora_ordine ordine s =
            (case strategie s (id_prodotto (prodotto ordine)) of
               None \<Rightarrow> Some (Solleva (ValueError ''Routing Sheet non definita''))
             | Some strategia \<Rightarrow> esegui_processo strategia ordine s))"
proof -
  let ?id = "id_prodotto (prodotto ordine)"
  let ?limiti = "limiti_produzione_giornaliera (configurazione s) \<noteq> None
           \<or> limite_produzione_totale_giornaliera (configurazione s) \<noteq> None"
  note g = giorno_simulazione_floor[OF assms(1)]
  have a: "aggiorna_giorno s =
         (if giorno_corrente s < \<lfloor>now (ambiente s) / 1440\<rfloor>
          then s\<lparr>giorno_corrente := \<lfloor>now (ambiente s) / 1440\<rfloor>,
                 produzione_giornaliera_per_prodotto := Map.empty,
                 produzione_giornaliera_totale := 0\<rparr>
          else s)"
    by (simp add: aggiorna_giorno_def g)
  have c: "capacita_esaurita ?id (aggiorna_giorno s) =
         (raggiunto (prodotti_oggi ?id (aggiorna_giorno s))
            (case limiti_produzione_giornaliera (configurazione s) of
               None \<Rightarrow> None | Some l \<Rightarrow> l ?id)
          \<or> raggiunto (produzione_giornaliera_totale (aggiorna_giorno s))
               (limite_produzione_totale_giornaliera (configurazione s)))"
    by (simp add: capacita_esaurita_def Let_def split: option.splits)
  have r: "raggiunto n (Some l) = (l \<le> n)" "raggiunto n None = False"
    by (simp_all add: raggiunto_def)
  let ?s' = "(aggiorna_giorno s)
              \<lparr>ambiente := (ambiente s)
                 \<lparr>now := real_of_int ((\<lfloor>now (ambiente s) / 1440\<rfloor> + 1) * 1440
                             + orario_inizio_turno (configurazione s) * 60),
                  traccia := traccia (ambiente s)
                     @ [Timeout (real_of_int ((\<lfloor>now (ambiente s) / 1440\<rfloor> + 1) * 1440
                                   + orario_inizio_turno (configurazione s) * 60)
                                 - now (ambiente s))]\<rparr>\<rparr>"
  have e: "elabora_ordine ordine s = elabora_ordine ordine ?s'"
    if x: "capacita_esaurita ?id (aggiorna_giorno s)" and l: ?limiti
  proof -
    have "attesa_capacita ?id s = attesa_capacita ?id ?s'"
      using attesa_capacita_esaurita[OF x assms(2)]
        tempo_attesa_domani_valore[of "aggiorna_giorno s"] by simp
    then show ?thesis
      using l by (simp add: elabora_ordine_def Let_def)
  qed
  have d: "elabora_ordine ordine s =
            (case strategie s ?id of
               None \<Rightarrow> Some (Solleva (ValueError ''Routing Sheet non definita''))
             | Some strategia \<Rightarrow> esegui_processo strategia ordine (prenota ?id (aggiorna_giorno s)))"
    if x: "\<not> capacita_esaurita ?id (aggiorna_giorno s)" and l: ?limiti
    using attesa_capacita_disponibile[OF x] l
    by (simp add: elabora_ordine_def Let_def prenota_campi)
  have n: "elabora_ordine ordine s =
            (case strategie s ?id of
               None \<Rightarrow> Some (Solleva (ValueError ''Routing Sheet non definita''))
             | Some strategia \<Rightarrow> esegui_processo strategia ordine s)"
    if "limiti_produzione_giornaliera (configurazione s) = None"
      and "limite_produzione_totale_giornaliera (configurazione s) = None"
    using that by (simp add: elabora_ordine_def Let_def poi_def)
  have p: "ambiente (prenota ?id (aggiorna_giorno s)) = ambiente s"
    "prodotti_oggi ?id (prenota ?id (aggiorna_giorno s)) = prodotti_oggi ?id (aggiorna_giorno s) + 1"
    "produzione_giornaliera_totale (prenota ?id (aggiorna_giorno s))
       = produzione_giornaliera_totale (aggiorna_giorno s) + 1"
    by (simp_all add: prenota_campi)
  from g a c r e d n p show ?thesis
    by (intro conjI impI) (simp_all only: simp_thms)
qed


lemma sistema_al_contatori:
  assumes "sistema_al t pol = Inr s"
  shows "giorno_corrente s = 0" "produzione_giornaliera_totale s = 0"
    "produzione_giornaliera_per_prodotto s = Map.empty"
  using assms
  by (auto simp: sistema_al_def nuovo_sistema_def Let_def split: sum.splits)

lemma con_limite_totale_campi:
  assumes "sistema_al t pol = Inr s"
  shows "ambiente (con_limite_totale l n s) = ambiente_al t"
    "orario_inizio_turno (configurazione (con_limite_totale l n s)) = 8"
    "limite_produzione_totale_giornaliera (configurazione (con_limite_totale l n s)) = Some l"
    "limiti_produzione_giornaliera (configurazione (con_limite_totale l n s)) = None"
    "produzione_giornaliera_totale (con_limite_totale l n s) = n"
    "strategie (con_limite_totale l n s) = strategie_standard"
    "giorno_corrente (con_limite_totale l n s) = 0"
  using sistema_al_campi[OF assms] sistema_al_contatori[OF assms]
  by (simp_all add: con_limite_totale_def crea_configurazione_base_def)

theorem limite_giornaliero_witness:
  "\<exists>s. sistema_al 600 FIFO = Inr s
     \<and> 0 \<le> now (ambiente (con_limite_totale 1 1 s))
     \<and> 0 \<le> orario_inizio_turno (configurazione (con_limite_totale 1 1 s))
     \<and> limite_produzione_totale_giornaliera (configurazione (con_limite_totale 1 1 s)) \<noteq> None
     \<and> capacita_esaurita ''FL-01'' (aggiorna_giorno (con_limite_totale 1 1 s))
     \<and> elabora_ordine (ordine_esempio FL_01 600 2000) (con_limite_totale 1 1 s)
         = elabora_ordine (ordine_esempio FL_01 600 2000)
             ((con_limite_totale 1 1 s)
                \<lparr>ambiente := \<lparr> now = 1920, traccia = [Timeout 1320],
                                concessioni = nessuna_attesa,
      consegne = nessuna_consegna \<rparr>\<rparr>)
     \<and> \<not> capacita_esaurita ''FL-01'' (aggiorna_giorno (con_limite_totale 1 0 s))
     \<and> elabora_ordine (ordine_esempio FL_01 600 2000) (con_limite_totale 1 0 s)
         = esegui_processo StrategiaFL01 (ordine_esempio FL_01 600 2000)
             (prenota ''FL-01'' (con_limite_totale 1 0 s))
     \<and> produzione_giornaliera_totale (prenota ''FL-01'' (con_limite_totale 1 0 s)) = 1
     \<and> 0 \<le> now (ambiente s)
     \<and> 0 \<le> orario_inizio_turno (configurazione s)
     \<and> limiti_produzione_giornaliera (configurazione s) = None
     \<and> limite_produzione_totale_giornaliera (configurazione s) = None
     \<and> elabora_ordine (ordine_esempio FL_01 600 2000) s
         = esegui_processo StrategiaFL01 (ordine_esempio FL_01 600 2000) s"
proof -
  obtain s where s: "sistema_al 600 FIFO = Inr s"
    using sistema_al_esiste by blast
  note cs = sistema_al_campi[OF s]
  let ?o = "ordine_esempio FL_01 600 2000"
  have i: "id_prodotto (prodotto ?o) = ''FL-01''"
    by (simp add: ordine_esempio_def nuovo_ordine_def)
  note c1 = con_limite_totale_campi[OF s, of 1 1]
  note c0 = con_limite_totale_campi[OF s, of 1 0]
  have f: "\<lfloor>600 / 1440 :: real\<rfloor> = 0" by simp
  have h1: "0 \<le> now (ambiente (con_limite_totale 1 1 s))"
    "0 \<le> orario_inizio_turno (configurazione (con_limite_totale 1 1 s))"
    by (simp_all add: c1 ambiente_al_def)
  have l1: "limiti_produzione_giornaliera (configurazione (con_limite_totale 1 1 s)) \<noteq> None
       \<or> limite_produzione_totale_giornaliera (configurazione (con_limite_totale 1 1 s)) \<noteq> None"
    by (simp add: c1)
  have h0: "0 \<le> now (ambiente (con_limite_totale 1 0 s))"
    "0 \<le> orario_inizio_turno (configurazione (con_limite_totale 1 0 s))"
    by (simp_all add: c0 ambiente_al_def)
  have l0: "limiti_produzione_giornaliera (configurazione (con_limite_totale 1 0 s)) \<noteq> None
       \<or> limite_produzione_totale_giornaliera (configurazione (con_limite_totale 1 0 s)) \<noteq> None"
    by (simp add: c0)
  have hs: "0 \<le> now (ambiente s)" "0 \<le> orario_inizio_turno (configurazione s)"
    by (simp_all add: cs ambiente_al_def crea_configurazione_base_def)
  have ls: "limiti_produzione_giornaliera (configurazione s) = None"
    "limite_produzione_totale_giornaliera (configurazione s) = None"
    by (simp_all add: cs crea_configurazione_base_def)
  note ts = limite_giornaliero[OF hs, of ?o, unfolded i]
  note t1 = limite_giornaliero[OF h1, of ?o, unfolded i]
  note t0 = limite_giornaliero[OF h0, of ?o, unfolded i]
  have a1: "aggiorna_giorno (con_limite_totale 1 1 s) = con_limite_totale 1 1 s"
    using t1[THEN conjunct2, THEN conjunct1] by (simp add: c1 ambiente_al_def f)
  have a0: "aggiorna_giorno (con_limite_totale 1 0 s) = con_limite_totale 1 0 s"
    using t0[THEN conjunct2, THEN conjunct1] by (simp add: c0 ambiente_al_def f)
  have e1: "capacita_esaurita ''FL-01'' (aggiorna_giorno (con_limite_totale 1 1 s))"
    unfolding a1 by (simp add: capacita_esaurita_def raggiunto_def c1 Let_def)
  have e0: "\<not> capacita_esaurita ''FL-01'' (aggiorna_giorno (con_limite_totale 1 0 s))"
    unfolding a0 by (simp add: capacita_esaurita_def raggiunto_def c0 Let_def)
  have w: "elabora_ordine ?o (con_limite_totale 1 1 s)
         = elabora_ordine ?o ((con_limite_totale 1 1 s)
                \<lparr>ambiente := \<lparr> now = 1920, traccia = [Timeout 1320],
                                concessioni = nessuna_attesa,
      consegne = nessuna_consegna \<rparr>\<rparr>)"
    using t1[THEN conjunct2, THEN conjunct2, THEN conjunct2, THEN conjunct2, THEN conjunct2,
             THEN conjunct1, rule_format, OF conjI[OF l1 e1]]
    by (simp add: a1 c1 ambiente_al_def f)
  have d: "elabora_ordine ?o (con_limite_totale 1 0 s)
         = esegui_processo StrategiaFL01 ?o (prenota ''FL-01'' (con_limite_totale 1 0 s))"
    "produzione_giornaliera_totale (prenota ''FL-01'' (con_limite_totale 1 0 s)) = 1"
    using t0[THEN conjunct2, THEN conjunct2, THEN conjunct2, THEN conjunct2, THEN conjunct2,
             THEN conjunct2, THEN conjunct1, rule_format, OF conjI[OF l0 e0]]
    by (simp_all add: a0 c0 strategie_standard_def)
  have n: "elabora_ordine ?o s = esegui_processo StrategiaFL01 ?o s"
    using ts[THEN conjunct2, THEN conjunct2, THEN conjunct2, THEN conjunct2, THEN conjunct2,
             THEN conjunct2, THEN conjunct2, rule_format, OF conjI[OF ls]]
    by (simp add: cs strategie_standard_def)
  from s h1 e1 w e0 d hs ls n show ?thesis
    by (intro exI[of _ s]) (simp add: c1)
qed

text \<open>
  On the system built from the base configuration no daily cap is configured, so no cap is
  reached; the order of an FL-01 created at Monday 08:00 is dispatched and completed at
  08:40, and both counters are still 0 at the end: they have not been incremented.
\<close>

theorem nessun_limite_counterexample:
  "\<exists>s ordine' s'. sistema_al 480 FIFO = Inr s
     \<and> limiti_produzione_giornaliera (configurazione s) = None
     \<and> limite_produzione_totale_giornaliera (configurazione s) = None
     \<and> capacita_esaurita ''FL-01'' (aggiorna_giorno s) = False
     \<and> prodotti_oggi ''FL-01'' s = 0
     \<and> produzione_giornaliera_totale s = 0
     \<and> elabora_ordine (ordine_esempio FL_01 480 1000) s = Some (Ritorna (ordine', s'))
     \<and> tempo_completamento ordine' = Some 520
     \<and> prodotti_oggi ''FL-01'' s' = 0
     \<and> produzione_giornaliera_totale s' = 0"
proof -
  obtain s where s: "sistema_al 480 FIFO = Inr s"
    using sistema_al_esiste by blast
  note c = sistema_al_campi[OF s]
  note k = sistema_al_contatori[OF s]
  have l: "limiti_produzione_giornaliera (configurazione s) = None"
    "limite_produzione_totale_giornaliera (configurazione s) = None"
    by (simp_all add: c crea_configurazione_base_def)
  from esegui_processo_FL01_esempio[OF s, of 480 1000] obtain ordine' s' where
    e: "esegui_processo_FL01 (ordine_esempio FL_01 480 1000) s = Some (Ritorna (ordine', s'))"
    and n: "now (ambiente s') = 520" by blast
  have p: "esegui_processo StrategiaFL01 (ordine_esempio FL_01 480 1000) s
      = Some (Ritorna (ordine', s'))"
    using e by simp
  have el: "elabora_ordine (ordine_esempio FL_01 480 1000) s = Some (Ritorna (ordine', s'))"
    using e l
    by (simp add: elabora_ordine_def c ordine_esempio_def nuovo_ordine_def strategie_standard_def)
  from esegui_processo_Ritorna[OF p] have i: "invariati s s'"
    by (auto simp: lavorato_def)
  from completato_dopo_inizio[OF p] n have t: "tempo_completamento ordine' = Some 520"
    by simp
  have g: "aggiorna_giorno s = s"
    by (simp add: aggiorna_giorno_def giorno_simulazione_def py_int_def MINUTI_GIORNALIERI_def
        c k ambiente_al_def)
  have x: "capacita_esaurita ''FL-01'' (aggiorna_giorno s) = False"
    unfolding g by (simp add: capacita_esaurita_def raggiunto_def l Let_def)
  have z: "prodotti_oggi ''FL-01'' s = 0" "produzione_giornaliera_totale s = 0"
    "prodotti_oggi ''FL-01'' s' = 0" "produzione_giornaliera_totale s' = 0"
    using i k by (simp_all add: prodotti_oggi_def invariati_def)
  from s l x z el t show ?thesis
    by (intro exI[of _ s] exI[of _ ordine'] exI[of _ s']) simp
qed

end
